theory Spec2Isabelle
  imports Complex_Main
begin

section \<open>The benchmark runners of the SVM comparison notebook\<close>

text \<open>
  The notebook \<^verbatim>\<open>notebooks/SVM Comparison.ipynb\<close> defines three runner functions,
  \<^verbatim>\<open>run_libsvm\<close>, \<^verbatim>\<open>run_thundersvm\<close> and \<^verbatim>\<open>run_flk\<close>. Each one constructs a
  solver, times the call of its \<^verbatim>\<open>fit\<close>, predicts on the test data, evaluates the
  supplied error function, prints two lines and returns (error, elapsed time).

  The runners are glue code around libraries (scikit-learn, ThunderSVM, Falkon, torch,
  \<^verbatim>\<open>time\<close>). The model makes every effect of the Python code explicit:
  \<^item> tensors and numpy arrays are handles (a buffer address and a shape) into a store of
    buffers, so that views (\<^verbatim>\<open>.numpy()\<close>, \<^verbatim>\<open>.reshape\<close>, \<^verbatim>\<open>torch.from_numpy\<close>) share the
    buffer of the array they are taken from;
  \<^item> the world holds the store, the text written to standard output and the current
    reading of \<^verbatim>\<open>time.time()\<close>;
  \<^item> a library operation is a function on the world that returns the new world and
    either the exception it raised or its value; the operations of the solver libraries
    (constructors, \<^verbatim>\<open>fit\<close>, \<^verbatim>\<open>predict\<close>) and the error function are parameters: nothing is
    assumed about what they do;
  \<^item> a runner additionally records the sequence of its interactions (the trace).

  A Python float is a finite number, a signed zero, an infinity or NaN. The one
  computation on floats that the runners make themselves, \<^verbatim>\<open>1/(2*sigma**2)\<close>, is modelled
  in binary64 with rounding to nearest, ties to even, and with the exceptions Python
  raises. The readings of the clock and their difference, and the elements of arrays,
  are real numbers.
\<close>

subsection \<open>Python floats\<close>

text \<open>\<open>Fin 0\<close> is \<^verbatim>\<open>0.0\<close> and \<open>NegZero\<close> is \<^verbatim>\<open>-0.0\<close>.\<close>

datatype pyfloat = Fin real | NegZero | PosInf | NegInf | NaN

datatype pynum = PyInt int | PyFloat pyfloat

text \<open>
  Rounding to the nearest integer, ties to the even one: the rounding of binary64
  arithmetic on the significand, and of Python's fixed-point formats on the exact value
  of the number.
\<close>

definition round_half_even :: "real \<Rightarrow> int" where
  "round_half_even x =
     (let f = \<lfloor>x\<rfloor>; d = x - of_int f
      in if d < 1/2 then f else if 1/2 < d then f + 1 else if even f then f else f + 1)"

text \<open>
  Binary64: a finite double is an integer multiple of \<open>2 ^ (e - 52)\<close> where \<open>e\<close> is the
  exponent of the number, at least \<open>-1022\<close> (below that the doubles are subnormal, all
  multiples of \<open>2 ^ -1074\<close>). \<open>round_double x\<close> is the multiple nearest to \<open>x\<close>, ties to the
  even significand; a result of magnitude \<open>2 ^ 1024\<close> or more is an overflow.
\<close>

definition expo :: "real \<Rightarrow> int" where
  "expo x = max \<lfloor>log 2 \<bar>x\<bar>\<rfloor> (- 1022)"

definition ulp :: "real \<Rightarrow> real" where
  "ulp x = 2 powr of_int (expo x - 52)"

definition round_double :: "real \<Rightarrow> real" where
  "round_double x = of_int (round_half_even (x / ulp x)) * ulp x"

definition to_double :: "real \<Rightarrow> pyfloat" where
  "to_double x =
     (let r = round_double x
      in if 2 ^ 1024 \<le> r then PosInf
         else if r \<le> - (2 ^ 1024) then NegInf
         else if r = 0 \<and> x < 0 then NegZero
         else Fin r)"

subsection \<open>Exceptions\<close>

text \<open>
  \<open>ZeroDivisionError\<close>, \<open>OverflowError\<close> and \<open>IndexError\<close> are the exceptions the runners' own
  expressions can raise; \<open>LibraryError\<close> stands for whatever a library raises (out of
  memory, an invalid hyperparameter, a shape mismatch), identified by its message.
\<close>

datatype exn = ZeroDivisionError | OverflowError | IndexError | LibraryError string

subsection \<open>The arithmetic of \<^verbatim>\<open>1/(2*sigma**2)\<close>\<close>

text \<open>
  \<^verbatim>\<open>x ** 2\<close> on a float: the rounded square; Python raises OverflowError when the result
  of a power of finite numbers overflows, and returns \<^verbatim>\<open>0.0\<close> when it underflows.
\<close>

definition float_pow2 :: "pyfloat \<Rightarrow> exn + pyfloat" where
  "float_pow2 v =
     (case v of
        Fin x \<Rightarrow> (case to_double (x * x) of PosInf \<Rightarrow> Inl OverflowError | s \<Rightarrow> Inr s)
      | NegZero \<Rightarrow> Inr (Fin 0)
      | PosInf \<Rightarrow> Inr PosInf
      | NegInf \<Rightarrow> Inr PosInf
      | NaN \<Rightarrow> Inr NaN)"

text \<open>\<^verbatim>\<open>2 * x\<close> on a float: the product overflows to an infinity without an exception.\<close>

definition float_double :: "pyfloat \<Rightarrow> pyfloat" where
  "float_double v = (case v of Fin x \<Rightarrow> to_double (2 * x) | s \<Rightarrow> s)"

text \<open>\<^verbatim>\<open>1 / x\<close> on a float: ZeroDivisionError for both zeros.\<close>

definition float_recip :: "pyfloat \<Rightarrow> exn + pyfloat" where
  "float_recip v =
     (case v of
        Fin x \<Rightarrow> (if x = 0 then Inl ZeroDivisionError else Inr (to_double (1 / x)))
      | NegZero \<Rightarrow> Inl ZeroDivisionError
      | PosInf \<Rightarrow> Inr (Fin 0)
      | NegInf \<Rightarrow> Inr NegZero
      | NaN \<Rightarrow> Inr NaN)"

text \<open>
  \<^verbatim>\<open>1 / n\<close> on an int: the double nearest to the quotient (Python's true division of ints
  is correctly rounded), \<^verbatim>\<open>0.0\<close> or \<^verbatim>\<open>-0.0\<close> when it underflows.
\<close>

definition int_recip :: "int \<Rightarrow> exn + pyfloat" where
  "int_recip n = (if n = 0 then Inl ZeroDivisionError else Inr (to_double (1 / of_int n)))"

text \<open>
  \<^verbatim>\<open>1/(2*sigma**2)\<close>: on an int the square and the product are exact integers; on a
  float every operation rounds.
\<close>

definition py_gamma :: "pynum \<Rightarrow> exn + pyfloat" where
  "py_gamma sigma =
     (case sigma of
        PyInt n \<Rightarrow> int_recip (2 * n\<^sup>2)
      | PyFloat x \<Rightarrow> (case float_pow2 x of
                       Inl e \<Rightarrow> Inl e
                     | Inr s \<Rightarrow> float_recip (float_double s)))"

subsection \<open>The text of numbers\<close>

definition digit_char :: "nat \<Rightarrow> char" where
  "digit_char d = ''0123456789'' ! d"

fun show_nat :: "nat \<Rightarrow> string" where
  "show_nat n = (if n < 10 then [digit_char n] else show_nat (n div 10) @ [digit_char (n mod 10)])"

declare show_nat.simps [simp del]

definition show_int :: "int \<Rightarrow> string" where
  "show_int i = (if i < 0 then CHR ''-'' # show_nat (nat (- i)) else show_nat (nat i))"

definition pad_left :: "nat \<Rightarrow> string \<Rightarrow> string" where
  "pad_left width body = replicate (width - length body) CHR '' '' @ body"

text \<open>
  \<open>fmt_f width prec x\<close> is the text of the formats \<^verbatim>\<open>%<width>.<prec>f\<close> and
  \<^verbatim>\<open>{x:<width>.<prec>f}\<close> for a finite number: sign, integer part, a point and exactly
  \<open>prec\<close> digits (no point when \<open>prec = 0\<close>), padded with spaces on the left to \<open>width\<close>
  characters.
\<close>

definition fmt_f :: "nat \<Rightarrow> nat \<Rightarrow> real \<Rightarrow> string" where
  "fmt_f width prec x =
     (let n = nat (round_half_even (\<bar>x\<bar> * 10 ^ prec));
          ip = show_nat (n div 10 ^ prec);
          fp = show_nat (n mod 10 ^ prec);
          frac = (if prec = 0 then [] else CHR ''.'' # replicate (prec - length fp) CHR ''0'' @ fp);
          body = (if x < 0 then ''-'' else []) @ ip @ frac
      in replicate (width - length body) CHR '' '' @ body)"

text \<open>
  The same formats on any float: \<^verbatim>\<open>-0.0\<close> keeps its sign, and the infinities and NaN are
  written \<^verbatim>\<open>inf\<close>, \<^verbatim>\<open>-inf\<close> and \<^verbatim>\<open>nan\<close>, without digits.
\<close>

definition fmt_float :: "nat \<Rightarrow> nat \<Rightarrow> pyfloat \<Rightarrow> string" where
  "fmt_float width prec v =
     (case v of
        Fin x \<Rightarrow> fmt_f width prec x
      | NegZero \<Rightarrow>
          pad_left width (''-0'' @ (if prec = 0 then [] else CHR ''.'' # replicate prec CHR ''0''))
      | PosInf \<Rightarrow> pad_left width ''inf''
      | NegInf \<Rightarrow> pad_left width ''-inf''
      | NaN \<Rightarrow> pad_left width ''nan'')"

definition newline :: string where
  "newline = [CHR 0x0A]"

text \<open>The lines of a text, each one ended by a newline (an unfinished last line is kept).\<close>

fun lines_from :: "string \<Rightarrow> string \<Rightarrow> string list" where
  "lines_from cur [] = (if cur = [] then [] else [cur])"
| "lines_from cur (c # cs) =
     (if c = CHR 0x0A then cur # lines_from [] cs else lines_from (cur @ [c]) cs)"

definition text_lines :: "string \<Rightarrow> string list" where
  "text_lines txt = lines_from [] txt"

subsection \<open>Arrays and the world\<close>

type_synonym addr = nat

record ndarray =
  buf :: addr
  shape :: "nat list"

record world =
  now :: real
  out :: string
  heap :: "addr \<Rightarrow> real list"
  next_free :: addr

type_synonym 'a io = "world \<Rightarrow> world \<times> (exn + 'a)"

text \<open>The error function: \<^verbatim>\<open>err_fn(labels_true, labels_pred) -> (error, metric_name)\<close>.\<close>

type_synonym errfn = "ndarray \<Rightarrow> ndarray \<Rightarrow> (pyfloat \<times> string) io"

text \<open>\<^verbatim>\<open>t.numpy()\<close> and \<^verbatim>\<open>torch.from_numpy(a)\<close> share the memory of their argument.\<close>

definition numpy :: "ndarray \<Rightarrow> ndarray" where
  "numpy t = t"

definition from_numpy :: "ndarray \<Rightarrow> ndarray" where
  "from_numpy a = a"

text \<open>
  \<^verbatim>\<open>a.reshape(-1, 1)\<close>: a view of the same buffer whose first dimension is inferred from
  the number of elements.
\<close>

definition numel :: "ndarray \<Rightarrow> nat" where
  "numel a = prod_list (shape a)"

definition reshape_m1_1 :: "ndarray \<Rightarrow> ndarray" where
  "reshape_m1_1 a = \<lparr>buf = buf a, shape = [numel a, 1]\<rparr>"

text \<open>The elements of an array in row-major order, and the element at a multi-index.\<close>

definition flatten :: "world \<Rightarrow> ndarray \<Rightarrow> real list" where
  "flatten w a = take (numel a) (heap w (buf a))"



text \<open>The index of the first maximal element of a non-empty list.\<close>

fun argmax_from :: "nat \<Rightarrow> real \<Rightarrow> nat \<Rightarrow> real list \<Rightarrow> nat" where
  "argmax_from bi bv i [] = bi"
| "argmax_from bi bv i (x # xs) =
     (if bv < x then argmax_from i x (Suc i) xs else argmax_from bi bv (Suc i) xs)"

fun first_max_index :: "real list \<Rightarrow> nat" where
  "first_max_index [] = 0"
| "first_max_index (x # xs) = argmax_from 0 x 1 xs"

text \<open>
  The values of \<^verbatim>\<open>Y.argmax(1)\<close> for a tensor of shape \<open>n # k # rest\<close> with elements \<open>d\<close>:
  for every position outside dimension 1, the index along dimension 1 of the first
  maximal element.
\<close>

definition argmax_dim1 :: "nat list \<Rightarrow> real list \<Rightarrow> real list" where
  "argmax_dim1 shp d =
     (let n = shp ! 0; k = shp ! 1; r = prod_list (drop 2 shp)
      in concat (map (\<lambda>i. map (\<lambda>j.
            real (first_max_index (map (\<lambda>c. d ! ((i * k + c) * r + j)) [0..<k])))
          [0..<r]) [0..<n]))"

subsection \<open>The solver libraries\<close>

datatype lib = Sklearn | ThunderSVM

record svc_params =
  svc_C :: pynum
  svc_gamma :: pyfloat
  svc_kernel :: string
  svc_verbose :: bool

record 'm flk_params =
  flk_kernel :: 'm
  flk_penalty :: pynum
  flk_M :: pynum
  flk_maxiter :: int
  flk_seed :: int
  flk_error_fn :: errfn
  flk_error_every :: nat
  flk_compute_arch_speed :: bool
  flk_no_single_kernel :: bool
  flk_pc_epsilon :: pyfloat
  flk_debug :: bool

text \<open>
  The operations of the libraries, as the runners use them. \<open>'m\<close> is the type of the
  libraries' objects (an estimator, a kernel); \<^verbatim>\<open>fit\<close> returns the fitted estimator.
  What an operation does to the world (the time it takes, what it writes, what it
  calls) is the library's. \<open>float_repr\<close> is \<^verbatim>\<open>str\<close> on a float.
\<close>

record 'm env =
  float_repr :: "pyfloat \<Rightarrow> string"
  sklearn_SVC :: "svc_params \<Rightarrow> 'm io"
  sklearn_fit :: "'m \<Rightarrow> ndarray \<Rightarrow> ndarray \<Rightarrow> 'm io"
  sklearn_predict :: "'m \<Rightarrow> ndarray \<Rightarrow> ndarray io"
  thundersvm_SVC :: "svc_params \<Rightarrow> 'm io"
  thundersvm_fit :: "'m \<Rightarrow> ndarray \<Rightarrow> ndarray \<Rightarrow> 'm io"
  thundersvm_predict :: "'m \<Rightarrow> ndarray \<Rightarrow> ndarray io"
  GaussianKernel :: "pynum \<Rightarrow> 'm io"
  Falkon :: "'m flk_params \<Rightarrow> 'm io"
  falkon_fit :: "'m \<Rightarrow> ndarray \<Rightarrow> ndarray \<Rightarrow> ndarray \<Rightarrow> ndarray \<Rightarrow> 'm io"
  falkon_predict :: "'m \<Rightarrow> ndarray \<Rightarrow> ndarray io"

definition py_str :: "'m env \<Rightarrow> pynum \<Rightarrow> string" where
  "py_str env v = (case v of PyInt i \<Rightarrow> show_int i | PyFloat x \<Rightarrow> float_repr env x)"

subsection \<open>Traced computations\<close>

datatype 'm event =
    Time real
  | ArgMax ndarray
  | New_SVC lib svc_params
  | Fit_SVC lib ndarray ndarray
  | Predict_SVC lib ndarray
  | New_GaussianKernel pynum
  | New_Falkon "'m flk_params"
  | Fit_Falkon ndarray ndarray ndarray ndarray
  | Predict_Falkon ndarray
  | ErrFn ndarray ndarray
  | Print string
  | Raised exn

type_synonym 'm state = "world \<times> 'm event list"

type_synonym ('a, 'm) run = "'m state \<Rightarrow> 'm state \<times> (exn + 'a)"

definition ret :: "'a \<Rightarrow> ('a, 'm) run" where
  "ret x s = (s, Inr x)"

definition throw :: "exn \<Rightarrow> ('a, 'm) run" where
  "throw e s = ((fst s, snd s @ [Raised e]), Inl e)"

definition and_then :: "('a, 'm) run \<Rightarrow> ('a \<Rightarrow> ('b, 'm) run) \<Rightarrow> ('b, 'm) run" where
  "and_then m f s = (case m s of (s', Inl e) \<Rightarrow> (s', Inl e) | (s', Inr x) \<Rightarrow> f x s')"

text \<open>
  A call of a library operation: the call is recorded, and so is the exception when
  the operation raises one.
\<close>

definition call :: "'m event \<Rightarrow> 'a io \<Rightarrow> ('a, 'm) run" where
  "call ev op s =
     (case op (fst s) of
        (w', Inl e) \<Rightarrow> ((w', snd s @ [ev, Raised e]), Inl e)
      | (w', Inr x) \<Rightarrow> ((w', snd s @ [ev]), Inr x))"

definition time_time :: "(real, 'm) run" where
  "time_time s = ((fst s, snd s @ [Time (now (fst s))]), Inr (now (fst s)))"

definition print :: "string \<Rightarrow> (unit, 'm) run" where
  "print txt s =
     (((fst s)\<lparr>out := out (fst s) @ txt @ newline\<rparr>, snd s @ [Print txt]), Inr ())"

definition alloc :: "real list \<Rightarrow> nat list \<Rightarrow> world \<Rightarrow> world \<times> ndarray" where
  "alloc d shp w =
     (w\<lparr>heap := (heap w)(next_free w := d), next_free := Suc (next_free w)\<rparr>,
      \<lparr>buf = next_free w, shape = shp\<rparr>)"

text \<open>
  \<^verbatim>\<open>Y.argmax(1)\<close>: torch raises IndexError when the tensor has fewer than two dimensions
  or dimension 1 is empty; otherwise the result is a new tensor.
\<close>

definition tensor_argmax1 :: "ndarray \<Rightarrow> world \<Rightarrow> world \<times> ndarray" where
  "tensor_argmax1 y w =
     alloc (argmax_dim1 (shape y) (heap w (buf y))) (hd (shape y) # drop 2 (shape y)) w"

definition argmax1 :: "ndarray \<Rightarrow> (ndarray, 'm) run" where
  "argmax1 y s =
     (if length (shape y) < 2 \<or> shape y ! 1 = 0
      then ((fst s, snd s @ [ArgMax y, Raised IndexError]), Inl IndexError)
      else (case tensor_argmax1 y (fst s) of
              (w', a) \<Rightarrow> ((w', snd s @ [ArgMax y]), Inr a)))"

text \<open>\<^verbatim>\<open>gamma = 1/(2*sigma**2)\<close>, with the exception it may raise.\<close>

definition gamma_of :: "pynum \<Rightarrow> (pyfloat, 'm) run" where
  "gamma_of sigma = (case py_gamma sigma of Inl e \<Rightarrow> throw e | Inr g \<Rightarrow> ret g)"

subsection \<open>The runners\<close>

text \<open>
  \<^verbatim>\<open>
  def run_libsvm(Xtr, Xts, Ytr, Yts, sigma, C, err_fn):
      gamma = 1/(2*sigma**2)
      tsvm = svm.SVC(C=C, gamma=gamma, kernel='rbf', verbose=True)
      t_s = time.time()
      tsvm.fit(Xtr.numpy(), Ytr.argmax(1))
      t_e = time.time()
      preds = tsvm.predict(Xts.numpy())
      test_err, test_err_name = err_fn(Yts, torch.from_numpy(preds.reshape(-1, 1)))
      print("LIBSVM elapsed %.2fs" % (t_e - t_s))
      print(f"Sigma {sigma} - C {C} - "
            f"Test {test_err_name}: {test_err:9.6f}", flush=True)
      return test_err, t_e - t_s
  \<close>
\<close>

definition run_libsvm ::
  "'m env \<Rightarrow> ndarray \<Rightarrow> ndarray \<Rightarrow> ndarray \<Rightarrow> ndarray \<Rightarrow> pynum \<Rightarrow> pynum \<Rightarrow> errfn
     \<Rightarrow> (pyfloat \<times> real, 'm) run" where
  "run_libsvm env Xtr Xts Ytr Yts sigma C err_fn =
     and_then (gamma_of sigma) (\<lambda>gamma.
     let params = \<lparr>svc_C = C, svc_gamma = gamma, svc_kernel = ''rbf'', svc_verbose = True\<rparr> in
     and_then (call (New_SVC Sklearn params) (sklearn_SVC env params)) (\<lambda>tsvm.
     and_then time_time (\<lambda>t_s.
     and_then (argmax1 Ytr) (\<lambda>y.
     and_then (call (Fit_SVC Sklearn (numpy Xtr) y) (sklearn_fit env tsvm (numpy Xtr) y)) (\<lambda>tsvm.
     and_then time_time (\<lambda>t_e.
     and_then (call (Predict_SVC Sklearn (numpy Xts)) (sklearn_predict env tsvm (numpy Xts))) (\<lambda>preds.
     and_then (call (ErrFn Yts (from_numpy (reshape_m1_1 preds)))
                    (err_fn Yts (from_numpy (reshape_m1_1 preds)))) (\<lambda>(test_err, test_err_name).
     and_then (print (''LIBSVM elapsed '' @ fmt_f 0 2 (t_e - t_s) @ ''s'')) (\<lambda>_.
     and_then (print (''Sigma '' @ py_str env sigma @ '' - C '' @ py_str env C @ '' - ''
                      @ ''Test '' @ test_err_name @ '': '' @ fmt_float 9 6 test_err)) (\<lambda>_.
     ret (test_err, t_e - t_s)))))))))))"

text \<open>
  \<^verbatim>\<open>
  def run_thundersvm(Xtr, Xts, Ytr, Yts, sigma, C, err_fn):
      gamma = 1/(2*sigma**2)
      tsvm = SVC(C=C, gamma=gamma, kernel='rbf', verbose=True)
      t_s = time.time()
      tsvm.fit(Xtr.numpy(), Ytr.argmax(1))
      t_e = time.time()
      preds = tsvm.predict(Xts.numpy())
      test_err, test_err_name = err_fn(Yts, torch.from_numpy(preds.reshape(-1, 1)))
      print("THUNDERSVM elapsed %.2fs" % (t_e - t_s))
      print(f"Sigma {sigma} - C {C} - "
            f"Test {test_err_name}: {test_err:9.6f}", flush=True)
      return test_err, t_e - t_s
  \<close>
\<close>

definition run_thundersvm ::
  "'m env \<Rightarrow> ndarray \<Rightarrow> ndarray \<Rightarrow> ndarray \<Rightarrow> ndarray \<Rightarrow> pynum \<Rightarrow> pynum \<Rightarrow> errfn
     \<Rightarrow> (pyfloat \<times> real, 'm) run" where
  "run_thundersvm env Xtr Xts Ytr Yts sigma C err_fn =
     and_then (gamma_of sigma) (\<lambda>gamma.
     let params = \<lparr>svc_C = C, svc_gamma = gamma, svc_kernel = ''rbf'', svc_verbose = True\<rparr> in
     and_then (call (New_SVC ThunderSVM params) (thundersvm_SVC env params)) (\<lambda>tsvm.
     and_then time_time (\<lambda>t_s.
     and_then (argmax1 Ytr) (\<lambda>y.
     and_then (call (Fit_SVC ThunderSVM (numpy Xtr) y) (thundersvm_fit env tsvm (numpy Xtr) y)) (\<lambda>tsvm.
     and_then time_time (\<lambda>t_e.
     and_then (call (Predict_SVC ThunderSVM (numpy Xts)) (thundersvm_predict env tsvm (numpy Xts))) (\<lambda>preds.
     and_then (call (ErrFn Yts (from_numpy (reshape_m1_1 preds)))
                    (err_fn Yts (from_numpy (reshape_m1_1 preds)))) (\<lambda>(test_err, test_err_name).
     and_then (print (''THUNDERSVM elapsed '' @ fmt_f 0 2 (t_e - t_s) @ ''s'')) (\<lambda>_.
     and_then (print (''Sigma '' @ py_str env sigma @ '' - C '' @ py_str env C @ '' - ''
                      @ ''Test '' @ test_err_name @ '': '' @ fmt_float 9 6 test_err)) (\<lambda>_.
     ret (test_err, t_e - t_s)))))))))))"

text \<open>
  \<^verbatim>\<open>
  def run_flk(Xtr, Xts, Ytr, Yts, sigma, penalty, M, num_iter, err_fn):
      # Arguments
      k = kernels.GaussianKernel(sigma)
      flk = falkon.Falkon(
          kernel=k,
          penalty=penalty,
          M=M,
          maxiter=num_iter,
          seed=1234-21,
          error_fn=err_fn,
          error_every=1,
          compute_arch_speed=False,
          no_single_kernel=True,
          pc_epsilon=1e-6,
          debug=False
      )
      t_s = time.time()
      flk.fit(Xtr, Ytr, Xts, Yts)
      t_e = time.time()
      test_preds = flk.predict(Xts)
      test_err, test_err_name = err_fn(Yts, test_preds)
      print("Falkon elapsed %.2fs" % (t_e - t_s))
      print(f"M {M} - Sigma {sigma} - Lambda {penalty} - "
            f"Test {test_err_name}: {test_err:9.6f}", flush=True)
      return test_err, t_e - t_s
  \<close>
  \<^verbatim>\<open>Falkon.fit\<close> is a library operation like the others: the runner calls it once, with
  the estimator and the four arrays, and what it does is the library's.
\<close>

definition run_flk ::
  "'m env \<Rightarrow> ndarray \<Rightarrow> ndarray \<Rightarrow> ndarray \<Rightarrow> ndarray \<Rightarrow> pynum \<Rightarrow> pynum \<Rightarrow> pynum \<Rightarrow> int \<Rightarrow> errfn
     \<Rightarrow> (pyfloat \<times> real, 'm) run" where
  "run_flk env Xtr Xts Ytr Yts sigma penalty M num_iter err_fn =
     and_then (call (New_GaussianKernel sigma) (GaussianKernel env sigma)) (\<lambda>k.
     let params = \<lparr>flk_kernel = k, flk_penalty = penalty, flk_M = M, flk_maxiter = num_iter,
                   flk_seed = 1234 - 21, flk_error_fn = err_fn, flk_error_every = 1,
                   flk_compute_arch_speed = False, flk_no_single_kernel = True,
                   flk_pc_epsilon = to_double (1 / 10 ^ 6), flk_debug = False\<rparr> in
     and_then (call (New_Falkon params) (Falkon env params)) (\<lambda>flk.
     and_then time_time (\<lambda>t_s.
     and_then (call (Fit_Falkon Xtr Ytr Xts Yts) (falkon_fit env flk Xtr Ytr Xts Yts)) (\<lambda>flk.
     and_then time_time (\<lambda>t_e.
     and_then (call (Predict_Falkon Xts) (falkon_predict env flk Xts)) (\<lambda>test_preds.
     and_then (call (ErrFn Yts test_preds) (err_fn Yts test_preds)) (\<lambda>(test_err, test_err_name).
     and_then (print (''Falkon elapsed '' @ fmt_f 0 2 (t_e - t_s) @ ''s'')) (\<lambda>_.
     and_then (print (''M '' @ py_str env M @ '' - Sigma '' @ py_str env sigma
                      @ '' - Lambda '' @ py_str env penalty @ '' - ''
                      @ ''Test '' @ test_err_name @ '': '' @ fmt_float 9 6 test_err)) (\<lambda>_.
     ret (test_err, t_e - t_s))))))))))"

text \<open>
  The two SVC runners are the same code up to the library they call and the name they
  print; \<open>svc_runner\<close> is that code with the library's operations and the name as
  parameters (see \<open>run_libsvm_svc_runner\<close> and \<open>run_thundersvm_svc_runner\<close>).
\<close>

definition svc_runner ::
  "lib \<Rightarrow> (svc_params \<Rightarrow> 'm io) \<Rightarrow> ('m \<Rightarrow> ndarray \<Rightarrow> ndarray \<Rightarrow> 'm io) \<Rightarrow> ('m \<Rightarrow> ndarray \<Rightarrow> ndarray io)
     \<Rightarrow> string \<Rightarrow> 'm env \<Rightarrow> ndarray \<Rightarrow> ndarray \<Rightarrow> ndarray \<Rightarrow> ndarray \<Rightarrow> pynum \<Rightarrow> pynum \<Rightarrow> errfn
     \<Rightarrow> (pyfloat \<times> real, 'm) run" where
  "svc_runner l new fit predict name env Xtr Xts Ytr Yts sigma C err_fn =
     and_then (gamma_of sigma) (\<lambda>gamma.
     let params = \<lparr>svc_C = C, svc_gamma = gamma, svc_kernel = ''rbf'', svc_verbose = True\<rparr> in
     and_then (call (New_SVC l params) (new params)) (\<lambda>tsvm.
     and_then time_time (\<lambda>t_s.
     and_then (argmax1 Ytr) (\<lambda>y.
     and_then (call (Fit_SVC l (numpy Xtr) y) (fit tsvm (numpy Xtr) y)) (\<lambda>tsvm.
     and_then time_time (\<lambda>t_e.
     and_then (call (Predict_SVC l (numpy Xts)) (predict tsvm (numpy Xts))) (\<lambda>preds.
     and_then (call (ErrFn Yts (from_numpy (reshape_m1_1 preds)))
                    (err_fn Yts (from_numpy (reshape_m1_1 preds)))) (\<lambda>(test_err, test_err_name).
     and_then (print (name @ '' elapsed '' @ fmt_f 0 2 (t_e - t_s) @ ''s'')) (\<lambda>_.
     and_then (print (''Sigma '' @ py_str env sigma @ '' - C '' @ py_str env C @ '' - ''
                      @ ''Test '' @ test_err_name @ '': '' @ fmt_float 9 6 test_err)) (\<lambda>_.
     ret (test_err, t_e - t_s)))))))))))"

text \<open>The arguments the SVC runners construct the solver with.\<close>

definition svc_args :: "pynum \<Rightarrow> pyfloat \<Rightarrow> svc_params" where
  "svc_args C g = \<lparr>svc_C = C, svc_gamma = g, svc_kernel = ''rbf'', svc_verbose = True\<rparr>"

text \<open>The arguments \<^verbatim>\<open>run_flk\<close> constructs the Falkon estimator with.\<close>

definition falkon_args :: "'m \<Rightarrow> pynum \<Rightarrow> pynum \<Rightarrow> int \<Rightarrow> errfn \<Rightarrow> 'm flk_params" where
  "falkon_args k penalty M num_iter err_fn =
     \<lparr>flk_kernel = k, flk_penalty = penalty, flk_M = M, flk_maxiter = num_iter,
      flk_seed = 1213, flk_error_fn = err_fn, flk_error_every = 1,
      flk_compute_arch_speed = False, flk_no_single_kernel = True,
      flk_pc_epsilon = to_double (1 / 1000000), flk_debug = False\<rparr>"

text \<open>A run from a world, with an empty trace: the final world, the trace and the outcome.\<close>

definition world_of :: "'m state \<times> (exn + 'a) \<Rightarrow> world" where
  "world_of r = fst (fst r)"

definition trace_of :: "'m state \<times> (exn + 'a) \<Rightarrow> 'm event list" where
  "trace_of r = snd (fst r)"

definition outcome :: "'m state \<times> (exn + 'a) \<Rightarrow> exn + 'a" where
  "outcome r = snd r"

subsection \<open>Reading a trace\<close>

fun is_Time :: "'m event \<Rightarrow> bool" where
  "is_Time (Time t) = True"
| "is_Time _ = False"

text \<open>The prediction step of a runner is its call of the solver's \<^verbatim>\<open>predict\<close>.\<close>

fun is_predict_call :: "'m event \<Rightarrow> bool" where
  "is_predict_call (Predict_SVC l X) = True"
| "is_predict_call (Predict_Falkon X) = True"
| "is_predict_call _ = False"

fun is_errfn_call :: "'m event \<Rightarrow> bool" where
  "is_errfn_call (ErrFn y p) = True"
| "is_errfn_call _ = False"

fun is_fit_call :: "'m event \<Rightarrow> bool" where
  "is_fit_call (Fit_SVC l X y) = True"
| "is_fit_call (Fit_Falkon X Y Xts Yts) = True"
| "is_fit_call _ = False"

fun is_new_call :: "'m event \<Rightarrow> bool" where
  "is_new_call (New_SVC l p) = True"
| "is_new_call (New_GaussianKernel s) = True"
| "is_new_call (New_Falkon p) = True"
| "is_new_call _ = False"

definition timestamps :: "'m event list \<Rightarrow> real list" where
  "timestamps tr = concat (map (\<lambda>ev. case ev of Time t \<Rightarrow> [t] | _ \<Rightarrow> []) tr)"

definition raised :: "'m event list \<Rightarrow> exn list" where
  "raised tr = concat (map (\<lambda>ev. case ev of Raised e \<Rightarrow> [e] | _ \<Rightarrow> []) tr)"

definition printed :: "'m event list \<Rightarrow> string list" where
  "printed tr = concat (map (\<lambda>ev. case ev of Print txt \<Rightarrow> [txt] | _ \<Rightarrow> []) tr)"

text \<open>
  The timing window of a trace: the events after the first reading of the clock
  (\<^verbatim>\<open>t_s\<close>) and before the second one (\<^verbatim>\<open>t_e\<close>); \<open>after_window\<close> is what follows the
  second reading.
\<close>

definition from_start :: "'m event list \<Rightarrow> 'm event list" where
  "from_start tr = drop 1 (dropWhile (\<lambda>ev. \<not> is_Time ev) tr)"

definition window :: "'m event list \<Rightarrow> 'm event list" where
  "window tr = takeWhile (\<lambda>ev. \<not> is_Time ev) (from_start tr)"

definition after_window :: "'m event list \<Rightarrow> 'm event list" where
  "after_window tr = from_start (from_start tr)"

text \<open>
  An exception is propagated by a computation when the outcome is that exception, it is
  the only one raised and nothing happens after it; a computation that returns a value
  has seen no exception.
\<close>

definition propagated :: "'m event list \<Rightarrow> exn + 'a \<Rightarrow> bool" where
  "propagated evs r =
     (case r of Inl e \<Rightarrow> raised evs = [e] \<and> evs \<noteq> [] \<and> last evs = Raised e
              | Inr _ \<Rightarrow> raised evs = [])"

text \<open>
  A run handles exceptions by propagation only: the exception is propagated, nothing is
  printed when the run fails, and no constructor, \<^verbatim>\<open>fit\<close> or \<^verbatim>\<open>predict\<close> is called a
  second time.
\<close>

definition fails_cleanly :: "'m state \<times> (exn + 'a) \<Rightarrow> bool" where
  "fails_cleanly res =
     (propagated (trace_of res) (outcome res) \<and>
      (\<forall>e. outcome res = Inl e \<longrightarrow> printed (trace_of res) = []) \<and>
      length (filter is_new_call (trace_of res)) \<le> 2 \<and>
      length (filter is_fit_call (trace_of res)) \<le> 1 \<and>
      length (filter is_predict_call (trace_of res)) \<le> 1)"

text \<open>The number of characters after the last point of a text.\<close>

definition decimals :: "string \<Rightarrow> nat" where
  "decimals txt = length (takeWhile (\<lambda>c. c \<noteq> CHR ''.'') (rev txt))"

subsection \<open>Properties of the world that the libraries keep\<close>

definition keeps :: "(world \<Rightarrow> bool) \<Rightarrow> 'a io \<Rightarrow> bool" where
  "keeps P op = (\<forall>w. P w \<longrightarrow> P (fst (op w)))"

definition libraries_keep :: "'m env \<Rightarrow> errfn \<Rightarrow> (world \<Rightarrow> bool) \<Rightarrow> bool" where
  "libraries_keep env err_fn P =
     ((\<forall>p. keeps P (sklearn_SVC env p)) \<and>
      (\<forall>m X y. keeps P (sklearn_fit env m X y)) \<and>
      (\<forall>m X. keeps P (sklearn_predict env m X)) \<and>
      (\<forall>p. keeps P (thundersvm_SVC env p)) \<and>
      (\<forall>m X y. keeps P (thundersvm_fit env m X y)) \<and>
      (\<forall>m X. keeps P (thundersvm_predict env m X)) \<and>
      (\<forall>s. keeps P (GaussianKernel env s)) \<and>
      (\<forall>p. keeps P (Falkon env p)) \<and>
      (\<forall>m X Y Xt Yt. keeps P (falkon_fit env m X Y Xt Yt)) \<and>
      (\<forall>m X. keeps P (falkon_predict env m X)) \<and>
      (\<forall>y q. keeps P (err_fn y q)))"

definition output_stable :: "(world \<Rightarrow> bool) \<Rightarrow> bool" where
  "output_stable P = (\<forall>w txt. P w \<longrightarrow> P (w\<lparr>out := out w @ txt\<rparr>))"

definition alloc_stable :: "(world \<Rightarrow> bool) \<Rightarrow> bool" where
  "alloc_stable P = (\<forall>w d shp. P w \<longrightarrow> P (fst (alloc d shp w)))"

text \<open>A traced computation keeps a property of the world.\<close>

definition keeps_run :: "(world \<Rightarrow> bool) \<Rightarrow> ('a, 'm) run \<Rightarrow> bool" where
  "keeps_run P m = (\<forall>s. P (fst s) \<longrightarrow> P (fst (fst (m s))))"

text \<open>Buffer \<open>a\<close> is allocated and holds the elements \<open>d\<close>.\<close>

definition buffer_holds :: "addr \<Rightarrow> real list \<Rightarrow> world \<Rightarrow> bool" where
  "buffer_holds a d w = (a < next_free w \<and> heap w a = d)"

text \<open>No library operation sets the clock back.\<close>

definition clock_never_set_back :: "'m env \<Rightarrow> errfn \<Rightarrow> bool" where
  "clock_never_set_back env err_fn = (\<forall>t. libraries_keep env err_fn (\<lambda>w. t \<le> now w))"

text \<open>No library operation writes to standard output after the text \<open>txt\<close>.\<close>

definition libraries_silent :: "'m env \<Rightarrow> errfn \<Rightarrow> string \<Rightarrow> bool" where
  "libraries_silent env err_fn txt = libraries_keep env err_fn (\<lambda>w. out w = txt)"

subsection \<open>A stub library and a small dataset\<close>

text \<open>
  Four training samples and two test samples of two classes with one-hot labels, and
  stub solvers: fitting takes a fixed time, prediction returns the class 1 for both
  test samples, the error function reports the c-error 0.1345. An estimator of the
  stub is a number, odd when it was constructed with \<^verbatim>\<open>verbose=True\<close>; a verbose
  scikit-learn estimator writes \<^verbatim>\<open>[LibSVM]\<close> to standard output when it is fitted, as in
  the output recorded in the notebook.
\<close>

definition X_train :: ndarray where
  "X_train = \<lparr>buf = 0, shape = [4, 1]\<rparr>"

definition Y_train :: ndarray where
  "Y_train = \<lparr>buf = 1, shape = [4, 2]\<rparr>"

definition X_test :: ndarray where
  "X_test = \<lparr>buf = 2, shape = [2, 1]\<rparr>"

definition Y_test :: ndarray where
  "Y_test = \<lparr>buf = 3, shape = [2, 2]\<rparr>"

definition demo_world :: world where
  "demo_world =
     \<lparr>now = 100, out = [],
      heap = (\<lambda>a. [])(0 := [1, 2, 3, 4], 1 := [1, 0, 0, 1, 0, 1, 0, 1],
                        2 := [5, 6], 3 := [0, 1, 1, 0]),
      next_free = 4\<rparr>"

definition stub_predict :: "nat list \<Rightarrow> real \<Rightarrow> ndarray io" where
  "stub_predict shp secs w =
     (case alloc [1, 1] shp w of (w', a) \<Rightarrow> (w'\<lparr>now := now w' + secs\<rparr>, Inr a))"

definition demo_err_fn :: errfn where
  "demo_err_fn y p w = (w\<lparr>now := now w + 1\<rparr>, Inr (Fin (1345 / 10000), ''c-error''))"

text \<open>An error function whose value is not a number.\<close>

definition nan_err_fn :: errfn where
  "nan_err_fn y p w = (w\<lparr>now := now w + 1\<rparr>, Inr (NaN, ''c-error''))"

definition stub_new :: "svc_params \<Rightarrow> nat io" where
  "stub_new p w = (w, Inr (if svc_verbose p then 1 else 0))"

definition demo_env :: "nat env" where
  "demo_env =
     \<lparr>float_repr = (\<lambda>x. ''1e-09''),
      sklearn_SVC = stub_new,
      sklearn_fit = (\<lambda>m X y w.
         (w\<lparr>now := now w + 66099 / 100, out := out w @ (if odd m then ''[LibSVM]'' else [])\<rparr>,
          Inr (m + 2))),
      sklearn_predict = (\<lambda>m X. stub_predict [2] 3),
      thundersvm_SVC = stub_new,
      thundersvm_fit = (\<lambda>m X y w. (w\<lparr>now := now w + 1955 / 100\<rparr>, Inr (m + 2))),
      thundersvm_predict = (\<lambda>m X. stub_predict [2] 3),
      GaussianKernel = (\<lambda>s w. (w, Inr 0)),
      Falkon = (\<lambda>p w. (w, Inr 0)),
      falkon_fit = (\<lambda>m X Y Xt Yt w. (w\<lparr>now := now w + 6\<rparr>, Inr (m + 2))),
      falkon_predict = (\<lambda>m X. stub_predict [2, 1] 3)\<rparr>"

text \<open>The same library with a scikit-learn estimator that writes nothing.\<close>

definition quiet_env :: "nat env" where
  "quiet_env =
     demo_env\<lparr>sklearn_fit := (\<lambda>m X y w. (w\<lparr>now := now w + 66099 / 100\<rparr>, Inr (m + 2)))\<rparr>"

text \<open>The same library on a machine whose clock is set back by 670 seconds during fit.\<close>

definition clock_set_back_env :: "nat env" where
  "clock_set_back_env =
     demo_env\<lparr>sklearn_fit := (\<lambda>m X y w. (w\<lparr>now := now w + 66099 / 100 - 670\<rparr>, Inr (m + 2)))\<rparr>"

text \<open>The same library with solvers that run out of memory in \<^verbatim>\<open>fit\<close>.\<close>

definition failing_env :: "nat env" where
  "failing_env =
     demo_env\<lparr>sklearn_fit := (\<lambda>m X y w. (w, Inl (LibraryError ''out of memory''))),
              thundersvm_fit := (\<lambda>m X y w. (w, Inl (LibraryError ''out of memory''))),
              falkon_fit := (\<lambda>m X Y Xt Yt w. (w, Inl (LibraryError ''out of memory'')))\<rparr>"

text \<open>The same library with constructors that reject their hyperparameters.\<close>

definition rejecting_env :: "nat env" where
  "rejecting_env =
     demo_env\<lparr>sklearn_SVC := (\<lambda>p w. (w, Inl (LibraryError ''invalid hyperparameter''))),
              Falkon := (\<lambda>p w. (w, Inl (LibraryError ''invalid hyperparameter'')))\<rparr>"

section \<open>Evaluation and symbolic execution\<close>

lemma show_nat_small: "n < 10 \<Longrightarrow> show_nat n = [digit_char n]"
  by (simp add: show_nat.simps)

lemma show_nat_big: "10 \<le> n \<Longrightarrow> show_nat n = show_nat (n div 10) @ [digit_char (n mod 10)]"
  by (subst show_nat.simps) simp

lemmas fmt_eval = fmt_f_def round_half_even_def show_nat_small show_nat_big digit_char_def
  Let_def

lemmas str_eval = show_nat_small show_nat_big digit_char_def show_int_def py_str_def

lemmas run_defs = and_then_def call_def ret_def throw_def time_time_def print_def
  argmax1_def gamma_of_def numpy_def from_numpy_def Let_def svc_args_def

lemmas res_defs = world_of_def trace_of_def outcome_def

lemmas tr_defs = window_def after_window_def from_start_def timestamps_def raised_def
  printed_def

lemma result_eq: "m s = ((world_of (m s), trace_of (m s)), outcome (m s))"
  by (simp add: res_defs)

lemma keepsD: "keeps P op \<Longrightarrow> op w = (w1, r) \<Longrightarrow> P w \<Longrightarrow> P w1"
  unfolding keeps_def by (metis fst_conv)

lemma printed_simps:
  "printed [] = []"
  "printed (ev # evs) = (case ev of Print txt \<Rightarrow> [txt] | _ \<Rightarrow> []) @ printed evs"
  "printed (xs @ ys) = printed xs @ printed ys"
  by (simp_all add: printed_def)

lemma timestamps_simps:
  "timestamps [] = []"
  "timestamps (ev # evs) = (case ev of Time t \<Rightarrow> [t] | _ \<Rightarrow> []) @ timestamps evs"
  "timestamps (xs @ ys) = timestamps xs @ timestamps ys"
  by (simp_all add: timestamps_def)

lemma run_libsvm_svc_runner:
  "run_libsvm env =
     svc_runner Sklearn (sklearn_SVC env) (sklearn_fit env) (sklearn_predict env) ''LIBSVM'' env"
  by (intro ext) (simp add: run_libsvm_def svc_runner_def)

lemma run_thundersvm_svc_runner:
  "run_thundersvm env =
     svc_runner ThunderSVM (thundersvm_SVC env) (thundersvm_fit env) (thundersvm_predict env)
       ''THUNDERSVM'' env"
  by (intro ext) (simp add: run_thundersvm_def svc_runner_def)

lemma libsvm_result:
  "svc_runner Sklearn (sklearn_SVC env) (sklearn_fit env) (sklearn_predict env) ''LIBSVM'' env
      Xtr Xts Ytr Yts sigma C err_fn s =
   ((world_of (run_libsvm env Xtr Xts Ytr Yts sigma C err_fn s),
     trace_of (run_libsvm env Xtr Xts Ytr Yts sigma C err_fn s)),
    outcome (run_libsvm env Xtr Xts Ytr Yts sigma C err_fn s))"
  by (simp add: run_libsvm_svc_runner res_defs)

lemma thundersvm_result:
  "svc_runner ThunderSVM (thundersvm_SVC env) (thundersvm_fit env) (thundersvm_predict env)
      ''THUNDERSVM'' env Xtr Xts Ytr Yts sigma C err_fn s =
   ((world_of (run_thundersvm env Xtr Xts Ytr Yts sigma C err_fn s),
     trace_of (run_thundersvm env Xtr Xts Ytr Yts sigma C err_fn s)),
    outcome (run_thundersvm env Xtr Xts Ytr Yts sigma C err_fn s))"
  by (simp add: run_thundersvm_svc_runner res_defs)

lemma flk_result:
  "run_flk env Xtr Xts Ytr Yts sigma penalty M num_iter err_fn s =
   ((world_of (run_flk env Xtr Xts Ytr Yts sigma penalty M num_iter err_fn s),
     trace_of (run_flk env Xtr Xts Ytr Yts sigma penalty M num_iter err_fn s)),
    outcome (run_flk env Xtr Xts Ytr Yts sigma penalty M num_iter err_fn s))"
  by (simp add: res_defs)

subsection \<open>The SVC runners\<close>

lemma svc_success:
  assumes "svc_runner l new fit predict name env Xtr Xts Ytr Yts sigma C err_fn (w, [])
             = ((w', tr), Inr (e, t))"
  shows "\<exists>g w1 m w1' y w2 m' w3 p w4 nm.
     py_gamma sigma = Inr g \<and>
     new (svc_args C g) w = (w1, Inr m) \<and>
     2 \<le> length (shape Ytr) \<and> shape Ytr ! 1 \<noteq> 0 \<and>
     tensor_argmax1 Ytr w1 = (w1', y) \<and>
     fit m Xtr y w1' = (w2, Inr m') \<and>
     predict m' Xts w2 = (w3, Inr p) \<and>
     err_fn Yts (reshape_m1_1 p) w3 = (w4, Inr (e, nm)) \<and>
     t = now w2 - now w1 \<and>
     w' = w4\<lparr>out := out w4 @ (name @ '' elapsed '' @ fmt_f 0 2 t @ ''s'') @ newline
             @ (''Sigma '' @ py_str env sigma @ '' - C '' @ py_str env C @ '' - Test '' @ nm
                @ '': '' @ fmt_float 9 6 e) @ newline\<rparr> \<and>
     tr = [New_SVC l (svc_args C g), Time (now w1), ArgMax Ytr, Fit_SVC l Xtr y, Time (now w2),
           Predict_SVC l Xts, ErrFn Yts (reshape_m1_1 p),
           Print (name @ '' elapsed '' @ fmt_f 0 2 t @ ''s''),
           Print (''Sigma '' @ py_str env sigma @ '' - C '' @ py_str env C @ '' - Test '' @ nm
                  @ '': '' @ fmt_float 9 6 e)]"
  using assms unfolding svc_runner_def run_defs
  by (auto split: if_splits prod.splits sum.splits)

lemma svc_window:
  "svc_runner l new fit predict name env Xtr Xts Ytr Yts sigma C err_fn (w, []) = ((w', tr), r) \<Longrightarrow>
   \<forall>ev \<in> set (window tr).
      ev = ArgMax Ytr \<or> (\<exists>y. ev = Fit_SVC l Xtr y) \<or> (\<exists>ex. ev = Raised ex)"
  unfolding svc_runner_def run_defs tr_defs
  by (auto split: if_splits prod.splits sum.splits)




lemma svc_fit_event:
  "svc_runner l new fit predict name env Xtr Xts Ytr Yts sigma C err_fn (w, []) = ((w', tr), r) \<Longrightarrow>
   Fit_SVC l' X y \<in> set tr \<Longrightarrow>
   l' = l \<and> X = Xtr \<and> 2 \<le> length (shape Ytr) \<and> shape Ytr ! 1 \<noteq> 0 \<and>
   (\<exists>g w1 m w1' post.
      py_gamma sigma = Inr g \<and> new (svc_args C g) w = (w1, Inr m) \<and>
      tensor_argmax1 Ytr w1 = (w1', y) \<and>
      tr = [New_SVC l (svc_args C g), Time (now w1), ArgMax Ytr, Fit_SVC l Xtr y] @ post \<and>
      (case fit m Xtr y w1' of
         (w2, Inl ex) \<Rightarrow> post = [Raised ex] \<and> r = Inl ex \<and> w' = w2
       | (w2, Inr m') \<Rightarrow> timestamps tr = [now w1, now w2]))"
  unfolding svc_runner_def run_defs timestamps_def
  by (auto split: if_splits prod.splits sum.splits)


lemma svc_propagated:
  "svc_runner l new fit predict name env Xtr Xts Ytr Yts sigma C err_fn (w, []) = ((w', tr), r) \<Longrightarrow>
   propagated tr r"
  unfolding svc_runner_def run_defs propagated_def raised_def
  by (auto split: if_splits prod.splits sum.splits)

lemma svc_counts:
  "svc_runner l new fit predict name env Xtr Xts Ytr Yts sigma C err_fn (w, []) = ((w', tr), r) \<Longrightarrow>
   length (filter is_new_call tr) \<le> 2 \<and> length (filter is_fit_call tr) \<le> 1 \<and>
   length (filter is_predict_call tr) \<le> 1 \<and> (\<forall>e. r = Inl e \<longrightarrow> printed tr = [])"
  unfolding svc_runner_def run_defs printed_def
  by (auto split: if_splits prod.splits sum.splits)

subsection \<open>The Falkon runner\<close>

lemma flk_success:
  assumes "run_flk env Xtr Xts Ytr Yts sigma penalty M num_iter err_fn (w, [])
             = ((w', tr), Inr (e, t))"
  shows "\<exists>k w1 m w2 m' w3 p w4 nm w5 params.
     GaussianKernel env sigma w = (w1, Inr k) \<and>
     params = falkon_args k penalty M num_iter err_fn \<and>
     Falkon env params w1 = (w2, Inr m) \<and>
     falkon_fit env m Xtr Ytr Xts Yts w2 = (w3, Inr m') \<and>
     falkon_predict env m' Xts w3 = (w4, Inr p) \<and>
     err_fn Yts p w4 = (w5, Inr (e, nm)) \<and>
     t = now w3 - now w2 \<and>
     w' = w5\<lparr>out := out w5 @ (''Falkon elapsed '' @ fmt_f 0 2 t @ ''s'') @ newline
             @ (''M '' @ py_str env M @ '' - Sigma '' @ py_str env sigma @ '' - Lambda ''
                @ py_str env penalty @ '' - Test '' @ nm @ '': '' @ fmt_float 9 6 e) @ newline\<rparr> \<and>
     tr = [New_GaussianKernel sigma, New_Falkon params, Time (now w2),
           Fit_Falkon Xtr Ytr Xts Yts, Time (now w3), Predict_Falkon Xts, ErrFn Yts p,
           Print (''Falkon elapsed '' @ fmt_f 0 2 t @ ''s''),
           Print (''M '' @ py_str env M @ '' - Sigma '' @ py_str env sigma @ '' - Lambda ''
                @ py_str env penalty @ '' - Test '' @ nm @ '': '' @ fmt_float 9 6 e)]"
  using assms unfolding run_flk_def run_defs falkon_args_def
  by (auto split: if_splits prod.splits sum.splits)

lemma flk_window:
  "run_flk env Xtr Xts Ytr Yts sigma penalty M num_iter err_fn (w, []) = ((w', tr), r) \<Longrightarrow>
   \<forall>ev \<in> set (window tr). ev = Fit_Falkon Xtr Ytr Xts Yts \<or> (\<exists>ex. ev = Raised ex)"
  unfolding run_flk_def run_defs tr_defs
  by (auto split: if_splits prod.splits sum.splits)

lemma flk_new:
  "run_flk env Xtr Xts Ytr Yts sigma penalty M num_iter err_fn (w, []) = ((w', tr), r) \<Longrightarrow>
   New_Falkon p \<in> set tr \<Longrightarrow> \<exists>k. p = falkon_args k penalty M num_iter err_fn"
  unfolding run_flk_def run_defs falkon_args_def
  by (auto split: if_splits prod.splits sum.splits)

lemma flk_fit_event:
  "run_flk env Xtr Xts Ytr Yts sigma penalty M num_iter err_fn (w, []) = ((w', tr), r) \<Longrightarrow>
   Fit_Falkon X Y Xt Yt \<in> set tr \<Longrightarrow>
   X = Xtr \<and> Y = Ytr \<and> Xt = Xts \<and> Yt = Yts \<and> Fit_Falkon X Y Xt Yt \<in> set (window tr) \<and>
   (\<exists>k w1 m w2 post.
      GaussianKernel env sigma w = (w1, Inr k) \<and>
      Falkon env (falkon_args k penalty M num_iter err_fn) w1 = (w2, Inr m) \<and>
      tr = [New_GaussianKernel sigma, New_Falkon (falkon_args k penalty M num_iter err_fn),
            Time (now w2), Fit_Falkon Xtr Ytr Xts Yts] @ post \<and>
      (case falkon_fit env m Xtr Ytr Xts Yts w2 of
         (w3, Inl ex) \<Rightarrow> post = [Raised ex] \<and> r = Inl ex \<and> w' = w3
       | (w3, Inr m') \<Rightarrow> timestamps tr = [now w2, now w3]))"
  unfolding run_flk_def run_defs tr_defs falkon_args_def
  by (auto split: if_splits prod.splits sum.splits)

lemma flk_no_argmax:
  "run_flk env Xtr Xts Ytr Yts sigma penalty M num_iter err_fn (w, []) = ((w', tr), r) \<Longrightarrow>
   ArgMax Y \<notin> set tr"
  unfolding run_flk_def run_defs
  by (auto split: if_splits prod.splits sum.splits)

lemma flk_propagated:
  "run_flk env Xtr Xts Ytr Yts sigma penalty M num_iter err_fn (w, []) = ((w', tr), r) \<Longrightarrow>
   propagated tr r"
  unfolding run_flk_def run_defs
  by (auto split: if_splits prod.splits sum.splits simp: propagated_def raised_def)

lemma flk_counts:
  "run_flk env Xtr Xts Ytr Yts sigma penalty M num_iter err_fn (w, []) = ((w', tr), r) \<Longrightarrow>
   length (filter is_new_call tr) \<le> 2 \<and> length (filter is_fit_call tr) \<le> 1 \<and>
   length (filter is_predict_call tr) \<le> 1 \<and> (\<forall>e. r = Inl e \<longrightarrow> printed tr = [])"
  unfolding run_flk_def run_defs printed_def
  by (auto split: if_splits prod.splits sum.splits)

subsection \<open>What a runner keeps\<close>

lemma keeps_run_ret: "keeps_run P (ret x)"
  by (simp add: keeps_run_def ret_def)

lemma keeps_run_throw: "keeps_run P (throw e)"
  by (simp add: keeps_run_def throw_def)

lemma keeps_run_time: "keeps_run P time_time"
  by (simp add: keeps_run_def time_time_def)

lemma keeps_run_gamma_of: "keeps_run P (gamma_of sigma)"
  by (simp add: gamma_of_def keeps_run_ret keeps_run_throw split: sum.splits)

lemma keeps_run_print: "output_stable P \<Longrightarrow> keeps_run P (print txt)"
  by (simp add: keeps_run_def print_def output_stable_def)

lemma keeps_run_call: "keeps P op \<Longrightarrow> keeps_run P (call ev op)"
  by (auto simp: keeps_run_def call_def keeps_def split: prod.splits sum.splits;
      metis fst_conv)

lemma keeps_run_argmax1: "alloc_stable P \<Longrightarrow> keeps_run P (argmax1 y)"
  by (auto simp: keeps_run_def argmax1_def alloc_stable_def tensor_argmax1_def
           split: prod.splits; metis fst_conv)

lemma keeps_run_and_then:
  "keeps_run P m \<Longrightarrow> (\<And>x. keeps_run P (f x)) \<Longrightarrow> keeps_run P (and_then m f)"
  by (auto simp: keeps_run_def and_then_def split: prod.splits sum.splits;
      metis fst_conv)

lemma keeps_run_svc_runner:
  assumes "\<forall>p. keeps P (new p)"
      and "\<forall>m X y. keeps P (fit m X y)"
      and "\<forall>m X. keeps P (predict m X)"
      and "\<forall>y q. keeps P (err_fn y q)"
      and "output_stable P"
      and "alloc_stable P"
  shows "keeps_run P (svc_runner l new fit predict name env Xtr Xts Ytr Yts sigma C err_fn)"
  unfolding svc_runner_def Let_def case_prod_beta
  using assms
  by (auto intro!: keeps_run_and_then keeps_run_call keeps_run_ret keeps_run_gamma_of
        keeps_run_time keeps_run_argmax1 keeps_run_print)

lemma keeps_run_flk:
  assumes "libraries_keep env err_fn P" and "output_stable P"
  shows "keeps_run P (run_flk env Xtr Xts Ytr Yts sigma penalty M num_iter err_fn)"
  unfolding run_flk_def Let_def case_prod_beta
  using assms
  by (auto intro!: keeps_run_and_then keeps_run_call keeps_run_ret keeps_run_time
        keeps_run_print simp: libraries_keep_def)

lemma keeps_runD: "keeps_run P m \<Longrightarrow> P w \<Longrightarrow> P (world_of (m (w, tr)))"
  by (simp add: keeps_run_def world_of_def)

subsection \<open>The elapsed time\<close>

lemma now_tensor_argmax1: "tensor_argmax1 y w = (w', a) \<Longrightarrow> now w' = now w"
  by (auto simp: tensor_argmax1_def alloc_def)

lemma out_tensor_argmax1: "tensor_argmax1 y w = (w', a) \<Longrightarrow> out w' = out w"
  by (auto simp: tensor_argmax1_def alloc_def)

lemma svc_elapsed:
  assumes "svc_runner l new fit predict name env Xtr Xts Ytr Yts sigma C err_fn (w, [])
             = ((w', tr), Inr (e, t))"
  shows "\<exists>t_s t_e. timestamps tr = [t_s, t_e] \<and> t = t_e - t_s \<and>
           ((\<forall>m X y. keeps (\<lambda>w. t_s \<le> now w) (fit m X y)) \<longrightarrow> t_s \<le> t_e)"
proof -
  from svc_success[OF assms] obtain w1 m w1' y w2 m' where
    am: "tensor_argmax1 Ytr w1 = (w1', y)" and fit: "fit m Xtr y w1' = (w2, Inr m')"
    and t: "t = now w2 - now w1"
    and tr: "timestamps tr = [now w1, now w2]"
    by (auto simp: timestamps_simps)
  have "now w1 \<le> now w2" if "\<forall>m X y. keeps (\<lambda>w. now w1 \<le> now w) (fit m X y)"
    using keepsD[where P = "\<lambda>w. now w1 \<le> now w", OF that[rule_format] fit]
      now_tensor_argmax1[OF am]
    by simp
  with t tr show ?thesis by blast
qed

lemma flk_elapsed:
  assumes "run_flk env Xtr Xts Ytr Yts sigma penalty M num_iter err_fn (w, [])
             = ((w', tr), Inr (e, t))"
  shows "\<exists>t_s t_e. timestamps tr = [t_s, t_e] \<and> t = t_e - t_s \<and>
           ((\<forall>m X Y Xt Yt. keeps (\<lambda>w. t_s \<le> now w) (falkon_fit env m X Y Xt Yt))
              \<longrightarrow> t_s \<le> t_e)"
proof -
  from flk_success[OF assms] obtain m w2 m' w3 where
    fit: "falkon_fit env m Xtr Ytr Xts Yts w2 = (w3, Inr m')"
    and t: "t = now w3 - now w2"
    and tr: "timestamps tr = [now w2, now w3]"
    by (auto simp: timestamps_simps)
  have "now w2 \<le> now w3"
    if "\<forall>m X Y Xt Yt. keeps (\<lambda>w. now w2 \<le> now w) (falkon_fit env m X Y Xt Yt)"
    using keepsD[where P = "\<lambda>w. now w2 \<le> now w", OF that[rule_format] fit] by simp
  with t tr show ?thesis by blast
qed

subsection \<open>Standard output\<close>

lemma svc_output:
  assumes run: "svc_runner l new fit predict name env Xtr Xts Ytr Yts sigma C err_fn (w, [])
             = ((w', tr), Inr (e, t))"
    and new: "\<forall>p. keeps (\<lambda>x. out x = out w) (new p)"
    and fit: "\<forall>m X y. keeps (\<lambda>x. out x = out w) (fit m X y)"
    and predict: "\<forall>m X. keeps (\<lambda>x. out x = out w) (predict m X)"
    and err: "\<forall>y q. keeps (\<lambda>x. out x = out w) (err_fn y q)"
  shows "\<exists>nm. out w' = out w @ (name @ '' elapsed '' @ fmt_f 0 2 t @ ''s'') @ newline
             @ (''Sigma '' @ py_str env sigma @ '' - C '' @ py_str env C @ '' - Test '' @ nm
                @ '': '' @ fmt_float 9 6 e) @ newline"
proof -
  from svc_success[OF run] obtain g w1 m w1' y w2 m' w3 p w4 nm where
    1: "new (svc_args C g) w = (w1, Inr m)"
    and 2: "tensor_argmax1 Ytr w1 = (w1', y)"
    and 3: "fit m Xtr y w1' = (w2, Inr m')"
    and 4: "predict m' Xts w2 = (w3, Inr p)"
    and 5: "err_fn Yts (reshape_m1_1 p) w3 = (w4, Inr (e, nm))"
    and w': "w' = w4\<lparr>out := out w4 @ (name @ '' elapsed '' @ fmt_f 0 2 t @ ''s'') @ newline
             @ (''Sigma '' @ py_str env sigma @ '' - C '' @ py_str env C @ '' - Test '' @ nm
                @ '': '' @ fmt_float 9 6 e) @ newline\<rparr>"
    by blast
  have "out w1 = out w"
    using keepsD[where P = "\<lambda>x. out x = out w", OF new[rule_format] 1] by simp
  then have "out w1' = out w" using out_tensor_argmax1[OF 2] by simp
  then have "out w2 = out w"
    using keepsD[where P = "\<lambda>x. out x = out w", OF fit[rule_format] 3] by simp
  then have "out w3 = out w"
    using keepsD[where P = "\<lambda>x. out x = out w", OF predict[rule_format] 4] by simp
  then have "out w4 = out w"
    using keepsD[where P = "\<lambda>x. out x = out w", OF err[rule_format] 5] by simp
  with w' show ?thesis by auto
qed

lemma flk_output:
  assumes run: "run_flk env Xtr Xts Ytr Yts sigma penalty M num_iter err_fn (w, [])
             = ((w', tr), Inr (e, t))"
    and lib: "libraries_keep env err_fn (\<lambda>x. out x = out w)"
  shows "\<exists>nm. out w' = out w @ (''Falkon elapsed '' @ fmt_f 0 2 t @ ''s'') @ newline
             @ (''M '' @ py_str env M @ '' - Sigma '' @ py_str env sigma @ '' - Lambda ''
                @ py_str env penalty @ '' - Test '' @ nm @ '': '' @ fmt_float 9 6 e) @ newline"
proof -
  from flk_success[OF run] obtain k w1 m w2 m' w3 p w4 nm w5 params where
    1: "GaussianKernel env sigma w = (w1, Inr k)"
    and 2: "Falkon env params w1 = (w2, Inr m)"
    and 3: "falkon_fit env m Xtr Ytr Xts Yts w2 = (w3, Inr m')"
    and 4: "falkon_predict env m' Xts w3 = (w4, Inr p)"
    and 5: "err_fn Yts p w4 = (w5, Inr (e, nm))"
    and w': "w' = w5\<lparr>out := out w5 @ (''Falkon elapsed '' @ fmt_f 0 2 t @ ''s'') @ newline
             @ (''M '' @ py_str env M @ '' - Sigma '' @ py_str env sigma @ '' - Lambda ''
                @ py_str env penalty @ '' - Test '' @ nm @ '': '' @ fmt_float 9 6 e) @ newline\<rparr>"
    by blast
  from lib have k1: "\<forall>s. keeps (\<lambda>x. out x = out w) (GaussianKernel env s)"
    and k2: "\<forall>p. keeps (\<lambda>x. out x = out w) (Falkon env p)"
    and k3: "\<forall>m X Y Xt Yt. keeps (\<lambda>x. out x = out w) (falkon_fit env m X Y Xt Yt)"
    and k4: "\<forall>m X. keeps (\<lambda>x. out x = out w) (falkon_predict env m X)"
    and k5: "\<forall>y q. keeps (\<lambda>x. out x = out w) (err_fn y q)"
    by (simp_all add: libraries_keep_def)
  have "out w1 = out w"
    using keepsD[where P = "\<lambda>x. out x = out w", OF k1[rule_format] 1] by simp
  then have "out w2 = out w"
    using keepsD[where P = "\<lambda>x. out x = out w", OF k2[rule_format] 2] by simp
  then have "out w3 = out w"
    using keepsD[where P = "\<lambda>x. out x = out w", OF k3[rule_format] 3] by simp
  then have "out w4 = out w"
    using keepsD[where P = "\<lambda>x. out x = out w", OF k4[rule_format] 4] by simp
  then have "out w5 = out w"
    using keepsD[where P = "\<lambda>x. out x = out w", OF k5[rule_format] 5] by simp
  with w' show ?thesis by auto
qed

subsection \<open>Argmax\<close>

lemma argmax_from_spec:
  "length pre = i \<Longrightarrow> bi < i \<Longrightarrow> pre ! bi = bv \<Longrightarrow> \<forall>j<i. pre ! j \<le> bv \<Longrightarrow>
   \<forall>j<bi. pre ! j < bv \<Longrightarrow>
   argmax_from bi bv i xs < length (pre @ xs) \<and>
   (\<forall>j<length (pre @ xs). (pre @ xs) ! j \<le> (pre @ xs) ! argmax_from bi bv i xs) \<and>
   (\<forall>j<argmax_from bi bv i xs. (pre @ xs) ! j < (pre @ xs) ! argmax_from bi bv i xs)"
proof (induction xs arbitrary: pre bi bv i)
  case Nil
  then show ?case by auto
next
  case (Cons x xs)
  show ?case
  proof (cases "bv < x")
    case True
    have "argmax_from i x (Suc i) xs < length ((pre @ [x]) @ xs) \<and>
      (\<forall>j<length ((pre @ [x]) @ xs).
          ((pre @ [x]) @ xs) ! j \<le> ((pre @ [x]) @ xs) ! argmax_from i x (Suc i) xs) \<and>
      (\<forall>j<argmax_from i x (Suc i) xs.
          ((pre @ [x]) @ xs) ! j < ((pre @ [x]) @ xs) ! argmax_from i x (Suc i) xs)"
    proof (rule Cons.IH)
      show "length (pre @ [x]) = Suc i" using Cons.prems by simp
      show "i < Suc i" by simp
      show "(pre @ [x]) ! i = x" using Cons.prems by (simp add: nth_append)
      show "\<forall>j<Suc i. (pre @ [x]) ! j \<le> x"
        using Cons.prems True by (auto simp: nth_append less_Suc_eq intro: less_imp_le order_trans)
      show "\<forall>j<i. (pre @ [x]) ! j < x"
        using Cons.prems True by (auto simp: nth_append intro: le_less_trans)
    qed
    with True show ?thesis by simp
  next
    case False
    have "argmax_from bi bv (Suc i) xs < length ((pre @ [x]) @ xs) \<and>
      (\<forall>j<length ((pre @ [x]) @ xs).
          ((pre @ [x]) @ xs) ! j \<le> ((pre @ [x]) @ xs) ! argmax_from bi bv (Suc i) xs) \<and>
      (\<forall>j<argmax_from bi bv (Suc i) xs.
          ((pre @ [x]) @ xs) ! j < ((pre @ [x]) @ xs) ! argmax_from bi bv (Suc i) xs)"
    proof (rule Cons.IH)
      show "length (pre @ [x]) = Suc i" using Cons.prems by simp
      show "bi < Suc i" using Cons.prems by simp
      show "(pre @ [x]) ! bi = bv" using Cons.prems by (simp add: nth_append)
      show "\<forall>j<Suc i. (pre @ [x]) ! j \<le> bv"
        using Cons.prems False by (auto simp: nth_append less_Suc_eq)
      show "\<forall>j<bi. (pre @ [x]) ! j < bv"
        using Cons.prems by (auto simp: nth_append)
    qed
    with False show ?thesis by simp
  qed
qed

lemma first_max_index_spec:
  assumes "xs \<noteq> []"
  shows "first_max_index xs < length xs \<and>
         (\<forall>j<length xs. xs ! j \<le> xs ! first_max_index xs) \<and>
         (\<forall>j<first_max_index xs. xs ! j < xs ! first_max_index xs)"
proof -
  from assms obtain x ys where xs: "xs = x # ys" by (cases xs) auto
  from argmax_from_spec[of "[x]" 1 0 x ys] show ?thesis
    by (simp add: xs)
qed

lemma first_max_index_one_hot:
  assumes "c < k"
  shows "first_max_index (map (\<lambda>j. if j = c then 1 else 0) [0..<k]) = c"
proof -
  let ?xs = "map (\<lambda>j. if j = c then 1 else (0::real)) [0..<k]"
  have ne: "?xs \<noteq> []" using assms by auto
  note s = first_max_index_spec[OF ne]
  let ?r = "first_max_index ?xs"
  from s have r: "?r < k" by simp
  from s have "\<forall>j<length ?xs. ?xs ! j \<le> ?xs ! ?r" by blast
  from this[rule_format, of c] assms r have "(1 :: real) \<le> (if ?r = c then 1 else 0)"
    by simp
  then show ?thesis by (simp split: if_splits)
qed

lemma length_argmax_dim1: "length (argmax_dim1 shp d) = shp ! 0 * prod_list (drop 2 shp)"
  by (simp add: argmax_dim1_def Let_def length_concat comp_def sum_list_triv)

lemma argmax_dim1_matrix:
  "i < n \<Longrightarrow>
   argmax_dim1 [n, k] d ! i = real (first_max_index (map (\<lambda>c. d ! (i * k + c)) [0..<k]))"
  by (simp add: argmax_dim1_def Let_def)

lemma tensor_argmax1_result:
  assumes "2 \<le> length (shape y)" and "tensor_argmax1 y w = (w', a)"
  shows "a = \<lparr>buf = next_free w, shape = hd (shape y) # drop 2 (shape y)\<rparr>"
    and "flatten w' a = argmax_dim1 (shape y) (heap w (buf y))"
    and "heap w' (buf a) = argmax_dim1 (shape y) (heap w (buf y))"
    and "\<forall>b. b \<noteq> next_free w \<longrightarrow> heap w' b = heap w b"
    and "next_free w' = Suc (next_free w)"
proof -
  from assms have "shape y \<noteq> []" by auto
  then have "hd (shape y) = shape y ! 0" by (simp add: hd_conv_nth)
  with assms(2) show "flatten w' a = argmax_dim1 (shape y) (heap w (buf y))"
    by (auto simp: flatten_def tensor_argmax1_def alloc_def numel_def length_argmax_dim1)
qed (use assms(2) in \<open>auto simp: tensor_argmax1_def alloc_def\<close>)

subsection \<open>Exceptions\<close>

lemma svc_new_raises:
  "py_gamma sigma = Inr g \<Longrightarrow>
   new (svc_args C g) w = (w1, Inl ex) \<Longrightarrow>
   svc_runner l new fit predict name env Xtr Xts Ytr Yts sigma C err_fn (w, [])
     = ((w1, [New_SVC l (svc_args C g), Raised ex]), Inl ex)"
  by (simp add: svc_runner_def run_defs)

lemma svc_fit_raises:
  "py_gamma sigma = Inr g \<Longrightarrow>
   new (svc_args C g) w = (w1, Inr m) \<Longrightarrow>
   2 \<le> length (shape Ytr) \<Longrightarrow> shape Ytr ! 1 \<noteq> 0 \<Longrightarrow>
   tensor_argmax1 Ytr w1 = (w1', y) \<Longrightarrow>
   fit m Xtr y w1' = (w2, Inl ex) \<Longrightarrow>
   svc_runner l new fit predict name env Xtr Xts Ytr Yts sigma C err_fn (w, [])
     = ((w2, [New_SVC l (svc_args C g), Time (now w1), ArgMax Ytr, Fit_SVC l Xtr y, Raised ex]),
        Inl ex)"
  by (simp add: svc_runner_def run_defs)

lemma flk_new_raises:
  "GaussianKernel env sigma w = (w1, Inr k) \<Longrightarrow>
   Falkon env (falkon_args k penalty M num_iter err_fn) w1 = (w2, Inl ex) \<Longrightarrow>
   run_flk env Xtr Xts Ytr Yts sigma penalty M num_iter err_fn (w, [])
     = ((w2, [New_GaussianKernel sigma, New_Falkon (falkon_args k penalty M num_iter err_fn),
              Raised ex]), Inl ex)"
  by (simp add: run_flk_def run_defs falkon_args_def)

lemma flk_fit_raises:
  "GaussianKernel env sigma w = (w1, Inr k) \<Longrightarrow>
   Falkon env (falkon_args k penalty M num_iter err_fn) w1 = (w2, Inr m) \<Longrightarrow>
   falkon_fit env m Xtr Ytr Xts Yts w2 = (w3, Inl ex) \<Longrightarrow>
   run_flk env Xtr Xts Ytr Yts sigma penalty M num_iter err_fn (w, [])
     = ((w3, [New_GaussianKernel sigma, New_Falkon (falkon_args k penalty M num_iter err_fn),
              Time (now w2), Fit_Falkon Xtr Ytr Xts Yts, Raised ex]), Inl ex)"
  by (simp add: run_flk_def run_defs falkon_args_def)

lemma svc_fails_cleanly:
  "fails_cleanly (svc_runner l new fit predict name env Xtr Xts Ytr Yts sigma C err_fn (w, []))"
  unfolding fails_cleanly_def
  using svc_propagated[OF result_eq[of "svc_runner l new fit predict name env Xtr Xts Ytr Yts
          sigma C err_fn" "(w, [])"]]
        svc_counts[OF result_eq[of "svc_runner l new fit predict name env Xtr Xts Ytr Yts
          sigma C err_fn" "(w, [])"]]
  by simp

lemma flk_fails_cleanly:
  "fails_cleanly (run_flk env Xtr Xts Ytr Yts sigma penalty M num_iter err_fn (w, []))"
  unfolding fails_cleanly_def
  using flk_propagated[OF flk_result[of env Xtr Xts Ytr Yts sigma penalty M num_iter err_fn
          "(w, [])"]]
        flk_counts[OF flk_result[of env Xtr Xts Ytr Yts sigma penalty M num_iter err_fn
          "(w, [])"]]
  by simp

subsection \<open>The text of a number\<close>

lemma digit_char_digit: "d < 10 \<Longrightarrow> digit_char d \<in> set ''0123456789''"
  unfolding digit_char_def by (rule nth_mem) simp

lemma show_nat_digits: "c \<in> set (show_nat n) \<Longrightarrow> c \<in> set ''0123456789''"
proof (induction n rule: show_nat.induct)
  case (1 n)
  show ?case
  proof (cases "n < 10")
    case True
    with "1.prems" show ?thesis
      using digit_char_digit[of n] by (simp add: show_nat_small)
  next
    case False
    with "1.prems" "1.IH" show ?thesis
      using digit_char_digit[of "n mod 10"] by (auto simp: show_nat_big)
  qed
qed

lemma show_nat_no_point: "CHR ''.'' \<notin> set (show_nat n)"
  using show_nat_digits[of "CHR ''.''" n] by auto

lemma show_nat_length: "n < 10 ^ p \<Longrightarrow> 0 < p \<Longrightarrow> length (show_nat n) \<le> p"
proof (induction n arbitrary: p rule: show_nat.induct)
  case (1 n)
  show ?case
  proof (cases "n < 10")
    case True
    with "1.prems" show ?thesis by (simp add: show_nat_small)
  next
    case False
    from "1.prems" obtain q where p: "p = Suc q" by (cases p) auto
    from False "1.prems" p have "0 < q" by (cases q) auto
    moreover from "1.prems" p have "n div 10 < 10 ^ q"
      by (simp add: div_less_iff_less_mult mult.commute)
    ultimately have "length (show_nat (n div 10)) \<le> q"
      using "1.IH"[OF False] by blast
    with False p show ?thesis by (simp add: show_nat_big)
  qed
qed

lemma fmt_f_decimals: "0 < prec \<Longrightarrow> decimals (fmt_f width prec x) = prec"
proof -
  assume p: "0 < prec"
  define n where "n = nat (round_half_even (\<bar>x\<bar> * 10 ^ prec))"
  define fp where "fp = show_nat (n mod 10 ^ prec)"
  define zs where "zs = replicate (prec - length fp) CHR ''0''"
  have len: "length fp \<le> prec"
    unfolding fp_def by (rule show_nat_length) (use p in simp_all)
  have nop: "\<forall>c \<in> set (rev fp @ zs). c \<noteq> CHR ''.''"
    using show_nat_no_point[of "n mod 10 ^ prec"] by (auto simp: fp_def zs_def)
  obtain front where f: "fmt_f width prec x = front @ CHR ''.'' # rev zs @ fp"
    using p unfolding fmt_f_def Let_def n_def fp_def zs_def by (auto simp: append_eq_append_conv2)
  have "rev (fmt_f width prec x) = (rev fp @ zs) @ CHR ''.'' # rev front"
    by (simp add: f)
  then have "takeWhile (\<lambda>c. c \<noteq> CHR ''.'') (rev (fmt_f width prec x)) = rev fp @ zs"
    using nop by (simp add: takeWhile_tail del: append_assoc)
  then show ?thesis
    using len by (simp add: decimals_def zs_def)
qed

lemma pad_width: "width \<le> length (replicate (width - length body) c @ body)"
  by simp

lemma fmt_f_width: "width \<le> length (fmt_f width prec x)"
  unfolding fmt_f_def Let_def by (rule pad_width)

lemma fmt_float_width: "width \<le> length (fmt_float width prec v)"
  by (cases v) (simp_all add: fmt_float_def fmt_f_width pad_left_def)

lemma fmt_float_special:
  "fmt_float 9 6 NaN = ''      nan''"
  "fmt_float 9 6 PosInf = ''      inf''"
  "fmt_float 9 6 NegInf = ''     -inf''"
  "fmt_float 9 6 NegZero = ''-0.000000''"
  by (simp_all add: fmt_float_def pad_left_def numeral_eq_Suc)

lemma fmt_float_no_digits:
  "decimals (fmt_float 9 6 NaN) = 9"
  "decimals (fmt_float 9 6 PosInf) = 9"
  "decimals (fmt_float 9 6 NegInf) = 9"
  by (simp_all add: fmt_float_special decimals_def)

subsection \<open>Rounding in binary64\<close>

lemma round_half_even_error: "\<bar>of_int (round_half_even q) - q\<bar> \<le> 1 / 2"
  unfolding round_half_even_def Let_def by (auto; linarith)

lemma round_half_even_ge: "of_int N \<le> q \<Longrightarrow> N \<le> round_half_even q"
proof -
  assume "of_int N \<le> q"
  then have "N \<le> \<lfloor>q\<rfloor>" by (simp add: le_floor_iff)
  then show ?thesis unfolding round_half_even_def Let_def by auto
qed


lemma ulp_pos: "0 < ulp x"
  by (simp add: ulp_def)

lemma expo_eq:
  assumes "2 powr of_int e \<le> \<bar>x\<bar>" and "\<bar>x\<bar> < 2 powr of_int (e + 1)" and "- 1022 \<le> e"
  shows "expo x = e"
proof -
  have pos: "0 < \<bar>x\<bar>" using assms(1) by (smt (verit) powr_gt_zero)
  have "of_int e \<le> log 2 \<bar>x\<bar>" using assms(1) pos by (simp add: le_log_iff)
  moreover have "log 2 \<bar>x\<bar> < of_int e + 1"
    using assms(2) pos by (simp add: log_less_iff)
  ultimately have "\<lfloor>log 2 \<bar>x\<bar>\<rfloor> = e" by (intro floor_unique) auto
  with assms(3) show ?thesis by (simp add: expo_def)
qed




lemma round_double_error_ulp: "\<bar>round_double x - x\<bar> \<le> ulp x / 2"
proof -
  have "round_double x - x = (of_int (round_half_even (x / ulp x)) - x / ulp x) * ulp x"
    using ulp_pos[of x] by (simp add: round_double_def algebra_simps)
  then have "\<bar>round_double x - x\<bar> = \<bar>of_int (round_half_even (x / ulp x)) - x / ulp x\<bar> * ulp x"
    using ulp_pos[of x] by (simp add: abs_mult)
  also have "\<dots> \<le> 1 / 2 * ulp x"
    using round_half_even_error[of "x / ulp x"] ulp_pos[of x]
    by (intro mult_right_mono) auto
  finally show ?thesis by simp
qed



lemma round_double_nonneg: "0 \<le> x \<Longrightarrow> 0 \<le> round_double x"
proof -
  assume "0 \<le> x"
  then have "of_int 0 \<le> x / ulp x" using ulp_pos[of x] by simp
  then have "0 \<le> round_half_even (x / ulp x)" by (rule round_half_even_ge)
  then show ?thesis using ulp_pos[of x] by (simp add: round_double_def)
qed




lemma round_double_eval:
  assumes "2 powr of_int e \<le> \<bar>x\<bar>" and "\<bar>x\<bar> < 2 powr of_int (e + 1)" and "- 1022 \<le> e"
  shows "round_double x
           = of_int (round_half_even (x / 2 powr of_int (e - 52))) * 2 powr of_int (e - 52)"
  using expo_eq[OF assms] by (simp add: round_double_def ulp_def)

lemma round_double_1_450: "round_double (1 / 450) = 5124095576030431 / 2305843009213693952"
proof -
  have "round_double (1 / 450)
      = of_int (round_half_even ((1 / 450) / 2 powr of_int (- 9 - 52))) * 2 powr of_int (- 9 - 52)"
    by (rule round_double_eval) (simp_all add: powr_minus_divide)
  also have "\<dots> = 5124095576030431 / 2305843009213693952"
    by (simp add: powr_minus_divide round_half_even_def Let_def)
  finally show ?thesis .
qed


lemma ulp_small: "\<bar>x\<bar> \<le> 1 \<Longrightarrow> ulp x \<le> 1"
proof -
  assume a: "\<bar>x\<bar> \<le> 1"
  have "log 2 \<bar>x\<bar> \<le> 0"
  proof (cases "x = 0")
    case True
    then show ?thesis by (simp add: log_def)
  next
    case False
    with a show ?thesis by (simp add: log_le_zero_cancel_iff)
  qed
  then have "\<lfloor>log 2 \<bar>x\<bar>\<rfloor> \<le> 0" by (simp add: floor_le_iff)
  then have "expo x \<le> 0" by (simp add: expo_def)
  then have "of_int (expo x - 52) \<le> (0 :: real)" by simp
  then have "(2 :: real) powr of_int (expo x - 52) \<le> 2 powr 0" by (intro powr_mono) simp_all
  then show ?thesis by (simp add: ulp_def)
qed

lemma round_double_unit: "\<bar>x\<bar> \<le> 1 \<Longrightarrow> \<bar>round_double x\<bar> \<le> 2"
  using round_double_error_ulp[of x] ulp_small[of x] by linarith

text \<open>Conversion of a non-negative number that does not overflow.\<close>

lemma to_double_fin:
  "0 \<le> x \<Longrightarrow> round_double x < 2 ^ 1024 \<Longrightarrow> to_double x = Fin (round_double x)"
  using round_double_nonneg[of x] by (simp add: to_double_def Let_def)

lemma to_double_unit: "0 \<le> x \<Longrightarrow> x \<le> 1 \<Longrightarrow> to_double x = Fin (round_double x)"
proof -
  assume a: "0 \<le> x" "x \<le> 1"
  then have "\<bar>round_double x\<bar> \<le> 2" by (intro round_double_unit) simp
  moreover have "(2 :: real) < 2 ^ 1024" by simp
  ultimately have "round_double x < 2 ^ 1024" by linarith
  with a(1) show ?thesis by (rule to_double_fin)
qed

subsection \<open>The value of \<^verbatim>\<open>1/(2*sigma**2)\<close>\<close>

lemma py_gamma_int:
  assumes "n \<noteq> 0"
  shows "py_gamma (PyInt n) = Inr (Fin (round_double (1 / (2 * (of_int n)\<^sup>2))))"
proof -
  have sq: "1 \<le> n\<^sup>2" using assms by (metis one_le_power abs_ge_self int_one_le_iff_zero_less power2_abs zero_less_abs_iff)
  then have "(1 :: real) \<le> (of_int n)\<^sup>2" by (metis of_int_1_le_iff of_int_power)
  then have "0 \<le> 1 / (2 * (of_int n :: real)\<^sup>2)" "1 / (2 * (of_int n :: real)\<^sup>2) \<le> 1"
    by (simp_all add: divide_le_eq)
  then have "to_double (1 / (2 * (of_int n)\<^sup>2)) = Fin (round_double (1 / (2 * (of_int n)\<^sup>2)))"
    by (rule to_double_unit)
  moreover have "2 * n\<^sup>2 \<noteq> 0" using assms by simp
  ultimately show ?thesis by (simp add: py_gamma_def int_recip_def)
qed


lemma py_gamma_15: "py_gamma (PyInt 15) = Inr (Fin (5124095576030431 / 2305843009213693952))"
  using py_gamma_int[of 15] round_double_1_450 by simp

lemma py_gamma_5: "\<exists>g. py_gamma (PyInt 5) = Inr (Fin g)"
  using py_gamma_int[of 5] by simp








subsection \<open>The stub library at work\<close>

lemma fmt_float_Fin: "fmt_float width prec (Fin x) = fmt_f width prec x"
  by (simp add: fmt_float_def)

lemma fmt_660_99: "fmt_f 0 2 (66099 / 100) = ''660.99''"
  by (simp add: fmt_eval)

lemma fmt_19_55: "fmt_f 0 2 (391 / 20) = ''19.55''"
  by (simp add: fmt_eval)

lemma fmt_6_00: "fmt_f 0 2 6 = ''6.00''"
  by (simp add: fmt_eval)

lemma fmt_minus_9_01: "fmt_f 0 2 (- (901 / 100)) = ''-9.01''"
  by (simp add: fmt_eval)

lemma fmt_0_1345: "fmt_f 9 6 (269 / 2000) = '' 0.134500''"
  by (simp add: fmt_eval)

lemma demo_labels: "argmax_dim1 [4, 2] [1, 0, 0, 1, 0, 1, 0, 1] = [0, 1, 1, 1]"
  by (simp add: argmax_dim1_def upt_rec)

lemmas demo_defs = demo_env_def quiet_env_def demo_err_fn_def nan_err_fn_def stub_new_def
  stub_predict_def demo_world_def
  X_train_def Y_train_def X_test_def Y_test_def reshape_m1_1_def numel_def
  tensor_argmax1_def alloc_def

lemmas demo_eval = run_defs demo_defs str_eval fmt_660_99 fmt_19_55 fmt_6_00 fmt_minus_9_01
  fmt_0_1345 demo_labels py_gamma_15 fmt_float_Fin fmt_float_special

lemma demo_libsvm_run:
  "run_libsvm demo_env X_train X_test Y_train Y_test (PyInt 15) (PyInt 100) demo_err_fn
      (demo_world, []) =
   ((\<lparr>now = 76499 / 100,
      out = ''[LibSVM]LIBSVM elapsed 660.99s'' @ newline
            @ ''Sigma 15 - C 100 - Test c-error:  0.134500'' @ newline,
      heap = (heap demo_world)(4 := [0, 1, 1, 1], 5 := [1, 1]), next_free = 6\<rparr>,
     [New_SVC Sklearn (svc_args (PyInt 100) (Fin (5124095576030431 / 2305843009213693952))),
      Time 100, ArgMax Y_train, Fit_SVC Sklearn X_train \<lparr>buf = 4, shape = [4]\<rparr>,
      Time (76099 / 100), Predict_SVC Sklearn X_test, ErrFn Y_test \<lparr>buf = 5, shape = [2, 1]\<rparr>,
      Print ''LIBSVM elapsed 660.99s'',
      Print ''Sigma 15 - C 100 - Test c-error:  0.134500'']),
    Inr (Fin (1345 / 10000), 66099 / 100))"
  by (simp add: run_libsvm_def demo_eval)

lemma quiet_libsvm_run:
  "run_libsvm quiet_env X_train X_test Y_train Y_test (PyInt 15) (PyInt 100) demo_err_fn
      (demo_world, []) =
   ((\<lparr>now = 76499 / 100,
      out = ''LIBSVM elapsed 660.99s'' @ newline
            @ ''Sigma 15 - C 100 - Test c-error:  0.134500'' @ newline,
      heap = (heap demo_world)(4 := [0, 1, 1, 1], 5 := [1, 1]), next_free = 6\<rparr>,
     [New_SVC Sklearn (svc_args (PyInt 100) (Fin (5124095576030431 / 2305843009213693952))),
      Time 100, ArgMax Y_train, Fit_SVC Sklearn X_train \<lparr>buf = 4, shape = [4]\<rparr>,
      Time (76099 / 100), Predict_SVC Sklearn X_test, ErrFn Y_test \<lparr>buf = 5, shape = [2, 1]\<rparr>,
      Print ''LIBSVM elapsed 660.99s'',
      Print ''Sigma 15 - C 100 - Test c-error:  0.134500'']),
    Inr (Fin (1345 / 10000), 66099 / 100))"
  by (simp add: run_libsvm_def demo_eval)

lemma nan_libsvm_run:
  "run_libsvm quiet_env X_train X_test Y_train Y_test (PyInt 15) (PyInt 100) nan_err_fn
      (demo_world, []) =
   ((\<lparr>now = 76499 / 100,
      out = ''LIBSVM elapsed 660.99s'' @ newline
            @ ''Sigma 15 - C 100 - Test c-error:       nan'' @ newline,
      heap = (heap demo_world)(4 := [0, 1, 1, 1], 5 := [1, 1]), next_free = 6\<rparr>,
     [New_SVC Sklearn (svc_args (PyInt 100) (Fin (5124095576030431 / 2305843009213693952))),
      Time 100, ArgMax Y_train, Fit_SVC Sklearn X_train \<lparr>buf = 4, shape = [4]\<rparr>,
      Time (76099 / 100), Predict_SVC Sklearn X_test, ErrFn Y_test \<lparr>buf = 5, shape = [2, 1]\<rparr>,
      Print ''LIBSVM elapsed 660.99s'',
      Print ''Sigma 15 - C 100 - Test c-error:       nan'']),
    Inr (NaN, 66099 / 100))"
  by (simp add: run_libsvm_def demo_eval)

lemma demo_thundersvm_run:
  "run_thundersvm demo_env X_train X_test Y_train Y_test (PyInt 15) (PyInt 100) demo_err_fn
      (demo_world, []) =
   ((\<lparr>now = 2471 / 20,
      out = ''THUNDERSVM elapsed 19.55s'' @ newline
            @ ''Sigma 15 - C 100 - Test c-error:  0.134500'' @ newline,
      heap = (heap demo_world)(4 := [0, 1, 1, 1], 5 := [1, 1]), next_free = 6\<rparr>,
     [New_SVC ThunderSVM (svc_args (PyInt 100) (Fin (5124095576030431 / 2305843009213693952))),
      Time 100, ArgMax Y_train, Fit_SVC ThunderSVM X_train \<lparr>buf = 4, shape = [4]\<rparr>,
      Time (2391 / 20), Predict_SVC ThunderSVM X_test,
      ErrFn Y_test \<lparr>buf = 5, shape = [2, 1]\<rparr>,
      Print ''THUNDERSVM elapsed 19.55s'',
      Print ''Sigma 15 - C 100 - Test c-error:  0.134500'']),
    Inr (Fin (1345 / 10000), 391 / 20))"
  by (simp add: run_thundersvm_def demo_eval)

lemma demo_flk_run:
  "run_flk demo_env X_train X_test Y_train Y_test (PyInt 5) (PyFloat (Fin (1 / 1000000000)))
      (PyInt 20000) 1 demo_err_fn (demo_world, []) =
   ((\<lparr>now = 110,
      out = ''Falkon elapsed 6.00s'' @ newline
            @ ''M 20000 - Sigma 5 - Lambda 1e-09 - Test c-error:  0.134500'' @ newline,
      heap = (heap demo_world)(4 := [1, 1]), next_free = 5\<rparr>,
     [New_GaussianKernel (PyInt 5),
      New_Falkon (falkon_args 0 (PyFloat (Fin (1 / 1000000000))) (PyInt 20000) 1 demo_err_fn),
      Time 100, Fit_Falkon X_train Y_train X_test Y_test,
      Time 106, Predict_Falkon X_test, ErrFn Y_test \<lparr>buf = 4, shape = [2, 1]\<rparr>,
      Print ''Falkon elapsed 6.00s'',
      Print ''M 20000 - Sigma 5 - Lambda 1e-09 - Test c-error:  0.134500'']),
    Inr (Fin (1345 / 10000), 6))"
  by (simp add: run_flk_def falkon_args_def demo_eval)

lemma clock_set_back_run:
  "run_libsvm clock_set_back_env X_train X_test Y_train Y_test (PyInt 15) (PyInt 100) demo_err_fn
      (demo_world, []) =
   ((\<lparr>now = 9499 / 100,
      out = ''LIBSVM elapsed -9.01s'' @ newline
            @ ''Sigma 15 - C 100 - Test c-error:  0.134500'' @ newline,
      heap = (heap demo_world)(4 := [0, 1, 1, 1], 5 := [1, 1]), next_free = 6\<rparr>,
     [New_SVC Sklearn (svc_args (PyInt 100) (Fin (5124095576030431 / 2305843009213693952))),
      Time 100, ArgMax Y_train, Fit_SVC Sklearn X_train \<lparr>buf = 4, shape = [4]\<rparr>,
      Time (9099 / 100), Predict_SVC Sklearn X_test, ErrFn Y_test \<lparr>buf = 5, shape = [2, 1]\<rparr>,
      Print ''LIBSVM elapsed -9.01s'',
      Print ''Sigma 15 - C 100 - Test c-error:  0.134500'']),
    Inr (Fin (1345 / 10000), - (901 / 100)))"
  by (simp add: run_libsvm_def clock_set_back_env_def demo_eval)

lemma failing_libsvm_run:
  "run_libsvm failing_env X_train X_test Y_train Y_test (PyInt 15) (PyInt 100) demo_err_fn
      (demo_world, []) =
   ((demo_world\<lparr>heap := (heap demo_world)(4 := [0, 1, 1, 1]), next_free := 5\<rparr>,
     [New_SVC Sklearn (svc_args (PyInt 100) (Fin (5124095576030431 / 2305843009213693952))),
      Time 100, ArgMax Y_train, Fit_SVC Sklearn X_train \<lparr>buf = 4, shape = [4]\<rparr>,
      Raised (LibraryError ''out of memory'')]),
    Inl (LibraryError ''out of memory''))"
  by (simp add: run_libsvm_def failing_env_def demo_eval)

lemma demo_output_lines:
  "text_lines (''[LibSVM]LIBSVM elapsed 660.99s'' @ newline
        @ ''Sigma 15 - C 100 - Test c-error:  0.134500'' @ newline)
     = [''[LibSVM]LIBSVM elapsed 660.99s'', ''Sigma 15 - C 100 - Test c-error:  0.134500'']"
  by (simp add: text_lines_def newline_def)

lemma quiet_output_lines:
  "text_lines (''LIBSVM elapsed 660.99s'' @ newline
        @ ''Sigma 15 - C 100 - Test c-error:  0.134500'' @ newline)
     = [''LIBSVM elapsed 660.99s'', ''Sigma 15 - C 100 - Test c-error:  0.134500'']"
  by (simp add: text_lines_def newline_def)

subsection \<open>What \<^verbatim>\<open>fit\<close> and the error function are called with, and the report\<close>

lemma svc_fit_labels:
  assumes run: "svc_runner l new fit predict name env Xtr Xts Ytr Yts sigma C err_fn (w, [])
               = ((w', tr), r)"
      and mem: "Fit_SVC l' X y \<in> set tr"
  shows "l' = l \<and> X = numpy Xtr \<and> 2 \<le> length (shape Ytr) \<and> shape Ytr ! 1 \<noteq> 0 \<and>
          (\<exists>g w1 m w1' post.
              py_gamma sigma = Inr g \<and> new (svc_args C g) w = (w1, Inr m) \<and>
              tensor_argmax1 Ytr w1 = (w1', y) \<and>
              y = \<lparr>buf = next_free w1, shape = hd (shape Ytr) # drop 2 (shape Ytr)\<rparr> \<and>
              w1' = w1\<lparr>heap := (heap w1)(next_free w1
                                   := argmax_dim1 (shape Ytr) (heap w1 (buf Ytr))),
                       next_free := Suc (next_free w1)\<rparr> \<and>
              heap w1' (buf y) = argmax_dim1 (shape Ytr) (heap w1 (buf Ytr)) \<and>
              flatten w1' y = argmax_dim1 (shape Ytr) (heap w1 (buf Ytr)) \<and>
              tr = [New_SVC l (svc_args C g), Time (now w1), ArgMax Ytr,
                    Fit_SVC l (numpy Xtr) y] @ post \<and>
              (case fit m (numpy Xtr) y w1' of
                 (w2, Inl ex) \<Rightarrow> post = [Raised ex] \<and> r = Inl ex \<and> w' = w2
               | (w2, Inr m') \<Rightarrow> timestamps tr = [now w1, now w2]))"
proof -
    note f = svc_fit_event[OF run mem]
    note a = f[THEN conjunct1] f[THEN conjunct2, THEN conjunct1]
      f[THEN conjunct2, THEN conjunct2, THEN conjunct1]
      f[THEN conjunct2, THEN conjunct2, THEN conjunct2, THEN conjunct1]
    from f[THEN conjunct2, THEN conjunct2, THEN conjunct2, THEN conjunct2]
    obtain g w1 m w1' post where
      b: "py_gamma sigma = Inr g \<and> new (svc_args C g) w = (w1, Inr m) \<and>
      tensor_argmax1 Ytr w1 = (w1', y) \<and>
      tr = [New_SVC l (svc_args C g), Time (now w1), ArgMax Ytr, Fit_SVC l Xtr y] @ post \<and>
      (case fit m Xtr y w1' of
         (w2, Inl ex) \<Rightarrow> post = [Raised ex] \<and> r = Inl ex \<and> w' = w2
       | (w2, Inr m') \<Rightarrow> timestamps tr = [now w1, now w2])"
      by (elim exE) (rule that)
    note g = b[THEN conjunct1] and new = b[THEN conjunct2, THEN conjunct1]
      and am = b[THEN conjunct2, THEN conjunct2, THEN conjunct1]
      and tr = b[THEN conjunct2, THEN conjunct2, THEN conjunct2, THEN conjunct1]
      and c = b[THEN conjunct2, THEN conjunct2, THEN conjunct2, THEN conjunct2]
    note res = tensor_argmax1_result[OF a(3) am]
    from am have w1': "w1' = w1\<lparr>heap := (heap w1)(next_free w1
                                   := argmax_dim1 (shape Ytr) (heap w1 (buf Ytr))),
                       next_free := Suc (next_free w1)\<rparr>"
      by (simp add: tensor_argmax1_def alloc_def)
    from a g new am res(1) w1' res(3) res(2) tr c show ?thesis
      unfolding numpy_def
      by (intro conjI exI[of _ g] exI[of _ w1] exI[of _ m] exI[of _ w1'] exI[of _ post])
  qed


lemma svc_report:
  assumes run: "svc_runner l new fit predict name env Xtr Xts Ytr Yts sigma C err_fn (w, [])
             = ((w', tr), Inr (e, t))"
  shows "\<exists>nm p w3 w4 pre.
     err_fn Yts (from_numpy (reshape_m1_1 p)) w3 = (w4, Inr (e, nm)) \<and>
     tr = pre @ [Print (name @ '' elapsed '' @ fmt_f 0 2 t @ ''s''),
                 Print (''Sigma '' @ py_str env sigma @ '' - C '' @ py_str env C @ '' - ''
                        @ ''Test '' @ nm @ '': '' @ fmt_float 9 6 e)] \<and>
     printed tr = [name @ '' elapsed '' @ fmt_f 0 2 t @ ''s'',
                   ''Sigma '' @ py_str env sigma @ '' - C '' @ py_str env C @ '' - ''
                     @ ''Test '' @ nm @ '': '' @ fmt_float 9 6 e] \<and>
     out w' = out w4 @ (name @ '' elapsed '' @ fmt_f 0 2 t @ ''s'') @ newline
               @ (''Sigma '' @ py_str env sigma @ '' - C '' @ py_str env C @ '' - ''
                  @ ''Test '' @ nm @ '': '' @ fmt_float 9 6 e) @ newline \<and>
     ((\<forall>p. keeps (\<lambda>x. out x = out w) (new p)) \<and>
      (\<forall>m X y. keeps (\<lambda>x. out x = out w) (fit m X y)) \<and>
      (\<forall>m X. keeps (\<lambda>x. out x = out w) (predict m X)) \<and>
      (\<forall>y q. keeps (\<lambda>x. out x = out w) (err_fn y q)) \<longrightarrow>
      out w' = out w @ (name @ '' elapsed '' @ fmt_f 0 2 t @ ''s'') @ newline
               @ (''Sigma '' @ py_str env sigma @ '' - C '' @ py_str env C @ '' - ''
                  @ ''Test '' @ nm @ '': '' @ fmt_float 9 6 e) @ newline)"
proof -
  from svc_success[OF run] obtain g w1 m w1' y w2 m' w3 p w4 nm where
    1: "new (svc_args C g) w = (w1, Inr m)"
    and 2: "tensor_argmax1 Ytr w1 = (w1', y)"
    and 3: "fit m Xtr y w1' = (w2, Inr m')"
    and 4: "predict m' Xts w2 = (w3, Inr p)"
    and 5: "err_fn Yts (reshape_m1_1 p) w3 = (w4, Inr (e, nm))"
    and w': "w' = w4\<lparr>out := out w4 @ (name @ '' elapsed '' @ fmt_f 0 2 t @ ''s'') @ newline
             @ (''Sigma '' @ py_str env sigma @ '' - C '' @ py_str env C @ '' - Test '' @ nm
                @ '': '' @ fmt_float 9 6 e) @ newline\<rparr>"
    and tr: "tr = [New_SVC l (svc_args C g), Time (now w1), ArgMax Ytr, Fit_SVC l Xtr y,
           Time (now w2), Predict_SVC l Xts, ErrFn Yts (reshape_m1_1 p),
           Print (name @ '' elapsed '' @ fmt_f 0 2 t @ ''s''),
           Print (''Sigma '' @ py_str env sigma @ '' - C '' @ py_str env C @ '' - Test '' @ nm
                  @ '': '' @ fmt_float 9 6 e)]"
    by blast
  have a: "err_fn Yts (from_numpy (reshape_m1_1 p)) w3 = (w4, Inr (e, nm))"
    using 5 by (simp add: from_numpy_def)
  have b: "tr = [New_SVC l (svc_args C g), Time (now w1), ArgMax Ytr, Fit_SVC l Xtr y,
           Time (now w2), Predict_SVC l Xts, ErrFn Yts (reshape_m1_1 p)]
         @ [Print (name @ '' elapsed '' @ fmt_f 0 2 t @ ''s''),
            Print (''Sigma '' @ py_str env sigma @ '' - C '' @ py_str env C @ '' - ''
                        @ ''Test '' @ nm @ '': '' @ fmt_float 9 6 e)]"
    using tr by simp
  have c: "printed tr = [name @ '' elapsed '' @ fmt_f 0 2 t @ ''s'',
                   ''Sigma '' @ py_str env sigma @ '' - C '' @ py_str env C @ '' - ''
                     @ ''Test '' @ nm @ '': '' @ fmt_float 9 6 e]"
    using tr by (simp add: printed_simps)
  have d: "out w' = out w4 @ (name @ '' elapsed '' @ fmt_f 0 2 t @ ''s'') @ newline
               @ (''Sigma '' @ py_str env sigma @ '' - C '' @ py_str env C @ '' - ''
                  @ ''Test '' @ nm @ '': '' @ fmt_float 9 6 e) @ newline"
    using w' by simp
  have e: "(\<forall>p. keeps (\<lambda>x. out x = out w) (new p)) \<and>
      (\<forall>m X y. keeps (\<lambda>x. out x = out w) (fit m X y)) \<and>
      (\<forall>m X. keeps (\<lambda>x. out x = out w) (predict m X)) \<and>
      (\<forall>y q. keeps (\<lambda>x. out x = out w) (err_fn y q)) \<longrightarrow>
      out w' = out w @ (name @ '' elapsed '' @ fmt_f 0 2 t @ ''s'') @ newline
               @ (''Sigma '' @ py_str env sigma @ '' - C '' @ py_str env C @ '' - ''
                  @ ''Test '' @ nm @ '': '' @ fmt_float 9 6 e) @ newline"
  proof (rule impI)
    assume k: "(\<forall>p. keeps (\<lambda>x. out x = out w) (new p)) \<and>
      (\<forall>m X y. keeps (\<lambda>x. out x = out w) (fit m X y)) \<and>
      (\<forall>m X. keeps (\<lambda>x. out x = out w) (predict m X)) \<and>
      (\<forall>y q. keeps (\<lambda>x. out x = out w) (err_fn y q))"
    note new = k[THEN conjunct1] and fit = k[THEN conjunct2, THEN conjunct1]
      and predict = k[THEN conjunct2, THEN conjunct2, THEN conjunct1]
      and err = k[THEN conjunct2, THEN conjunct2, THEN conjunct2]
    have "out w1 = out w"
      using keepsD[where P = "\<lambda>x. out x = out w", OF new[rule_format] 1] by simp
    then have "out w1' = out w" using out_tensor_argmax1[OF 2] by simp
    then have "out w2 = out w"
      using keepsD[where P = "\<lambda>x. out x = out w", OF fit[rule_format] 3] by simp
    then have "out w3 = out w"
      using keepsD[where P = "\<lambda>x. out x = out w", OF predict[rule_format] 4] by simp
    then have "out w4 = out w"
      using keepsD[where P = "\<lambda>x. out x = out w", OF err[rule_format] 5] by simp
    with d show "out w' = out w @ (name @ '' elapsed '' @ fmt_f 0 2 t @ ''s'') @ newline
               @ (''Sigma '' @ py_str env sigma @ '' - C '' @ py_str env C @ '' - ''
                  @ ''Test '' @ nm @ '': '' @ fmt_float 9 6 e) @ newline"
      by (simp only:)
  qed
  from a b c d e show ?thesis
    by (intro exI[of _ nm] exI[of _ p] exI[of _ w3] exI[of _ w4]
        exI[of _ "[New_SVC l (svc_args C g), Time (now w1), ArgMax Ytr, Fit_SVC l Xtr y,
           Time (now w2), Predict_SVC l Xts, ErrFn Yts (reshape_m1_1 p)]"] conjI)
qed

lemma flk_report:
  assumes run: "run_flk env Xtr Xts Ytr Yts sigma penalty M num_iter err_fn (w, [])
             = ((w', tr), Inr (e, t))"
  shows "\<exists>nm p w3 w4 pre.
     err_fn Yts p w3 = (w4, Inr (e, nm)) \<and>
     tr = pre @ [Print (''Falkon elapsed '' @ fmt_f 0 2 t @ ''s''),
                 Print (''M '' @ py_str env M @ '' - Sigma '' @ py_str env sigma
                        @ '' - Lambda '' @ py_str env penalty @ '' - ''
                        @ ''Test '' @ nm @ '': '' @ fmt_float 9 6 e)] \<and>
     printed tr = [''Falkon elapsed '' @ fmt_f 0 2 t @ ''s'',
                   ''M '' @ py_str env M @ '' - Sigma '' @ py_str env sigma
                     @ '' - Lambda '' @ py_str env penalty @ '' - ''
                     @ ''Test '' @ nm @ '': '' @ fmt_float 9 6 e] \<and>
     out w' = out w4 @ (''Falkon elapsed '' @ fmt_f 0 2 t @ ''s'') @ newline
               @ (''M '' @ py_str env M @ '' - Sigma '' @ py_str env sigma
                  @ '' - Lambda '' @ py_str env penalty @ '' - ''
                  @ ''Test '' @ nm @ '': '' @ fmt_float 9 6 e) @ newline \<and>
     (libraries_keep env err_fn (\<lambda>x. out x = out w) \<longrightarrow>
      out w' = out w @ (''Falkon elapsed '' @ fmt_f 0 2 t @ ''s'') @ newline
               @ (''M '' @ py_str env M @ '' - Sigma '' @ py_str env sigma
                  @ '' - Lambda '' @ py_str env penalty @ '' - ''
                  @ ''Test '' @ nm @ '': '' @ fmt_float 9 6 e) @ newline)"
proof -
  from flk_success[OF run] obtain k w1 m w2 m' w3 p w4 nm w5 params where
    1: "GaussianKernel env sigma w = (w1, Inr k)"
    and 2: "Falkon env params w1 = (w2, Inr m)"
    and 3: "falkon_fit env m Xtr Ytr Xts Yts w2 = (w3, Inr m')"
    and 4: "falkon_predict env m' Xts w3 = (w4, Inr p)"
    and 5: "err_fn Yts p w4 = (w5, Inr (e, nm))"
    and w': "w' = w5\<lparr>out := out w5 @ (''Falkon elapsed '' @ fmt_f 0 2 t @ ''s'') @ newline
             @ (''M '' @ py_str env M @ '' - Sigma '' @ py_str env sigma @ '' - Lambda ''
                @ py_str env penalty @ '' - Test '' @ nm @ '': '' @ fmt_float 9 6 e) @ newline\<rparr>"
    and tr: "tr = [New_GaussianKernel sigma, New_Falkon params, Time (now w2),
           Fit_Falkon Xtr Ytr Xts Yts, Time (now w3), Predict_Falkon Xts, ErrFn Yts p,
           Print (''Falkon elapsed '' @ fmt_f 0 2 t @ ''s''),
           Print (''M '' @ py_str env M @ '' - Sigma '' @ py_str env sigma @ '' - Lambda ''
                @ py_str env penalty @ '' - Test '' @ nm @ '': '' @ fmt_float 9 6 e)]"
    by blast
  have b: "tr = [New_GaussianKernel sigma, New_Falkon params, Time (now w2),
           Fit_Falkon Xtr Ytr Xts Yts, Time (now w3), Predict_Falkon Xts, ErrFn Yts p]
         @ [Print (''Falkon elapsed '' @ fmt_f 0 2 t @ ''s''),
                 Print (''M '' @ py_str env M @ '' - Sigma '' @ py_str env sigma
                        @ '' - Lambda '' @ py_str env penalty @ '' - ''
                        @ ''Test '' @ nm @ '': '' @ fmt_float 9 6 e)]"
    using tr by simp
  have c: "printed tr = [''Falkon elapsed '' @ fmt_f 0 2 t @ ''s'',
                   ''M '' @ py_str env M @ '' - Sigma '' @ py_str env sigma
                     @ '' - Lambda '' @ py_str env penalty @ '' - ''
                     @ ''Test '' @ nm @ '': '' @ fmt_float 9 6 e]"
    using tr by (simp add: printed_simps)
  have d: "out w' = out w5 @ (''Falkon elapsed '' @ fmt_f 0 2 t @ ''s'') @ newline
               @ (''M '' @ py_str env M @ '' - Sigma '' @ py_str env sigma
                  @ '' - Lambda '' @ py_str env penalty @ '' - ''
                  @ ''Test '' @ nm @ '': '' @ fmt_float 9 6 e) @ newline"
    using w' by simp
  have e: "libraries_keep env err_fn (\<lambda>x. out x = out w) \<longrightarrow>
      out w' = out w @ (''Falkon elapsed '' @ fmt_f 0 2 t @ ''s'') @ newline
               @ (''M '' @ py_str env M @ '' - Sigma '' @ py_str env sigma
                  @ '' - Lambda '' @ py_str env penalty @ '' - ''
                  @ ''Test '' @ nm @ '': '' @ fmt_float 9 6 e) @ newline"
  proof (rule impI)
    assume lib: "libraries_keep env err_fn (\<lambda>x. out x = out w)"
    from lib have k1: "\<forall>s. keeps (\<lambda>x. out x = out w) (GaussianKernel env s)"
      and k2: "\<forall>p. keeps (\<lambda>x. out x = out w) (Falkon env p)"
      and k3: "\<forall>m X Y Xt Yt. keeps (\<lambda>x. out x = out w) (falkon_fit env m X Y Xt Yt)"
      and k4: "\<forall>m X. keeps (\<lambda>x. out x = out w) (falkon_predict env m X)"
      and k5: "\<forall>y q. keeps (\<lambda>x. out x = out w) (err_fn y q)"
      by (simp_all add: libraries_keep_def)
    have "out w1 = out w"
      using keepsD[where P = "\<lambda>x. out x = out w", OF k1[rule_format] 1] by simp
    then have "out w2 = out w"
      using keepsD[where P = "\<lambda>x. out x = out w", OF k2[rule_format] 2] by simp
    then have "out w3 = out w"
      using keepsD[where P = "\<lambda>x. out x = out w", OF k3[rule_format] 3] by simp
    then have "out w4 = out w"
      using keepsD[where P = "\<lambda>x. out x = out w", OF k4[rule_format] 4] by simp
    then have "out w5 = out w"
      using keepsD[where P = "\<lambda>x. out x = out w", OF k5[rule_format] 5] by simp
    with d show "out w' = out w @ (''Falkon elapsed '' @ fmt_f 0 2 t @ ''s'') @ newline
               @ (''M '' @ py_str env M @ '' - Sigma '' @ py_str env sigma
                  @ '' - Lambda '' @ py_str env penalty @ '' - ''
                  @ ''Test '' @ nm @ '': '' @ fmt_float 9 6 e) @ newline"
      by (simp only:)
  qed
  from 5 b c d e show ?thesis
    by (intro exI[of _ nm] exI[of _ p] exI[of _ w4] exI[of _ w5]
        exI[of _ "[New_GaussianKernel sigma, New_Falkon params, Time (now w2),
           Fit_Falkon Xtr Ytr Xts Yts, Time (now w3), Predict_Falkon Xts, ErrFn Yts p]"] conjI)
qed

lemma quiet_thundersvm_run:
  "run_thundersvm quiet_env X_train X_test Y_train Y_test (PyInt 15) (PyInt 100) demo_err_fn
      (demo_world, []) =
   run_thundersvm demo_env X_train X_test Y_train Y_test (PyInt 15) (PyInt 100) demo_err_fn
      (demo_world, [])"
  by (simp add: run_thundersvm_def quiet_env_def py_str_def)

lemma quiet_flk_run:
  "run_flk quiet_env X_train X_test Y_train Y_test (PyInt 5) (PyFloat (Fin (1 / 1000000000)))
      (PyInt 20000) 1 demo_err_fn (demo_world, []) =
   run_flk demo_env X_train X_test Y_train Y_test (PyInt 5) (PyFloat (Fin (1 / 1000000000)))
      (PyInt 20000) 1 demo_err_fn (demo_world, [])"
  by (simp add: run_flk_def quiet_env_def py_str_def)

lemma quiet_env_silent: "libraries_silent quiet_env demo_err_fn txt"
  by (simp add: libraries_silent_def libraries_keep_def keeps_def quiet_env_def demo_env_def
      demo_err_fn_def stub_predict_def stub_new_def alloc_def)

section \<open>The claims\<close>

text \<open>
  C1. In every call of a runner, what lies between the two readings of the clock is the
  fitting step and nothing else: in \<^verbatim>\<open>run_libsvm\<close> and \<^verbatim>\<open>run_thundersvm\<close> the evaluation of
  the arguments of \<^verbatim>\<open>fit\<close> (the label conversion) and the call of \<^verbatim>\<open>fit\<close>, in \<^verbatim>\<open>run_flk\<close> the
  call of \<^verbatim>\<open>fit\<close>, and the exception when one of them raises; never a call of \<^verbatim>\<open>predict\<close>
  or of the error function. When the runner returns, the reported time is the reading
  of the clock in the world \<^verbatim>\<open>fit\<close> left minus the reading in the world the constructor
  left (the label conversion does not touch the clock), and the prediction step, the
  error-evaluation step and the two printed lines follow the second reading.
\<close>

theorem timing_window:
  "(\<forall>ev \<in> set (window (trace_of (run_libsvm env Xtr Xts Ytr Yts sigma C err_fn (w, [])))).
       (ev = ArgMax Ytr \<or> (\<exists>y. ev = Fit_SVC Sklearn (numpy Xtr) y) \<or> (\<exists>ex. ev = Raised ex)) \<and>
       \<not> is_predict_call ev \<and> \<not> is_errfn_call ev) \<and>
   (\<forall>ev \<in> set (window (trace_of (run_thundersvm env Xtr Xts Ytr Yts sigma C err_fn (w, [])))).
       (ev = ArgMax Ytr \<or> (\<exists>y. ev = Fit_SVC ThunderSVM (numpy Xtr) y)
          \<or> (\<exists>ex. ev = Raised ex)) \<and>
       \<not> is_predict_call ev \<and> \<not> is_errfn_call ev) \<and>
   (\<forall>ev \<in> set (window (trace_of
                 (run_flk env Xtr Xts Ytr Yts sigma penalty M num_iter err_fn (w, [])))).
       (ev = Fit_Falkon Xtr Ytr Xts Yts \<or> (\<exists>ex. ev = Raised ex)) \<and>
       \<not> is_predict_call ev \<and> \<not> is_errfn_call ev) \<and>
   (outcome (run_libsvm env Xtr Xts Ytr Yts sigma C err_fn (w, [])) = Inr (e, t) \<longrightarrow>
      (\<exists>g w1 m w1' y w2 m' q l1 l2.
          sklearn_SVC env (svc_args C g) w = (w1, Inr m) \<and>
          tensor_argmax1 Ytr w1 = (w1', y) \<and> now w1' = now w1 \<and>
          sklearn_fit env m (numpy Xtr) y w1' = (w2, Inr m') \<and>
          t = now w2 - now w1 \<and>
          trace_of (run_libsvm env Xtr Xts Ytr Yts sigma C err_fn (w, []))
            = [New_SVC Sklearn (svc_args C g), Time (now w1), ArgMax Ytr,
               Fit_SVC Sklearn (numpy Xtr) y, Time (now w2),
               Predict_SVC Sklearn (numpy Xts), ErrFn Yts q, Print l1, Print l2] \<and>
          window (trace_of (run_libsvm env Xtr Xts Ytr Yts sigma C err_fn (w, [])))
            = [ArgMax Ytr, Fit_SVC Sklearn (numpy Xtr) y] \<and>
          after_window (trace_of (run_libsvm env Xtr Xts Ytr Yts sigma C err_fn (w, [])))
            = [Predict_SVC Sklearn (numpy Xts), ErrFn Yts q, Print l1, Print l2])) \<and>
   (outcome (run_thundersvm env Xtr Xts Ytr Yts sigma C err_fn (w, [])) = Inr (e, t) \<longrightarrow>
      (\<exists>g w1 m w1' y w2 m' q l1 l2.
          thundersvm_SVC env (svc_args C g) w = (w1, Inr m) \<and>
          tensor_argmax1 Ytr w1 = (w1', y) \<and> now w1' = now w1 \<and>
          thundersvm_fit env m (numpy Xtr) y w1' = (w2, Inr m') \<and>
          t = now w2 - now w1 \<and>
          trace_of (run_thundersvm env Xtr Xts Ytr Yts sigma C err_fn (w, []))
            = [New_SVC ThunderSVM (svc_args C g), Time (now w1), ArgMax Ytr,
               Fit_SVC ThunderSVM (numpy Xtr) y, Time (now w2),
               Predict_SVC ThunderSVM (numpy Xts), ErrFn Yts q, Print l1, Print l2] \<and>
          window (trace_of (run_thundersvm env Xtr Xts Ytr Yts sigma C err_fn (w, [])))
            = [ArgMax Ytr, Fit_SVC ThunderSVM (numpy Xtr) y] \<and>
          after_window (trace_of (run_thundersvm env Xtr Xts Ytr Yts sigma C err_fn (w, [])))
            = [Predict_SVC ThunderSVM (numpy Xts), ErrFn Yts q, Print l1, Print l2])) \<and>
   (outcome (run_flk env Xtr Xts Ytr Yts sigma penalty M num_iter err_fn (w, [])) = Inr (e, t) \<longrightarrow>
      (\<exists>k w1 m w2 m' w3 p l1 l2.
          GaussianKernel env sigma w = (w1, Inr k) \<and>
          Falkon env (falkon_args k penalty M num_iter err_fn) w1 = (w2, Inr m) \<and>
          falkon_fit env m Xtr Ytr Xts Yts w2 = (w3, Inr m') \<and>
          t = now w3 - now w2 \<and>
          trace_of (run_flk env Xtr Xts Ytr Yts sigma penalty M num_iter err_fn (w, []))
            = [New_GaussianKernel sigma, New_Falkon (falkon_args k penalty M num_iter err_fn),
               Time (now w2), Fit_Falkon Xtr Ytr Xts Yts, Time (now w3),
               Predict_Falkon Xts, ErrFn Yts p, Print l1, Print l2] \<and>
          window (trace_of (run_flk env Xtr Xts Ytr Yts sigma penalty M num_iter err_fn (w, [])))
            = [Fit_Falkon Xtr Ytr Xts Yts] \<and>
          after_window (trace_of
                (run_flk env Xtr Xts Ytr Yts sigma penalty M num_iter err_fn (w, [])))
            = [Predict_Falkon Xts, ErrFn Yts p, Print l1, Print l2]))"
proof (intro conjI impI)
  have "\<forall>ev \<in> set (window (trace_of (run_libsvm env Xtr Xts Ytr Yts sigma C err_fn (w, [])))).
          ev = ArgMax Ytr \<or> (\<exists>y. ev = Fit_SVC Sklearn Xtr y) \<or> (\<exists>ex. ev = Raised ex)"
    by (rule svc_window[OF libsvm_result])
  then show "\<forall>ev \<in> set (window (trace_of (run_libsvm env Xtr Xts Ytr Yts sigma C err_fn (w, [])))).
       (ev = ArgMax Ytr \<or> (\<exists>y. ev = Fit_SVC Sklearn (numpy Xtr) y) \<or> (\<exists>ex. ev = Raised ex)) \<and>
       \<not> is_predict_call ev \<and> \<not> is_errfn_call ev"
    by (auto simp: numpy_def)
  have "\<forall>ev \<in> set (window (trace_of
                  (run_thundersvm env Xtr Xts Ytr Yts sigma C err_fn (w, [])))).
          ev = ArgMax Ytr \<or> (\<exists>y. ev = Fit_SVC ThunderSVM Xtr y) \<or> (\<exists>ex. ev = Raised ex)"
    by (rule svc_window[OF thundersvm_result])
  then show "\<forall>ev \<in> set (window (trace_of (run_thundersvm env Xtr Xts Ytr Yts sigma C err_fn (w, [])))).
       (ev = ArgMax Ytr \<or> (\<exists>y. ev = Fit_SVC ThunderSVM (numpy Xtr) y)
          \<or> (\<exists>ex. ev = Raised ex)) \<and>
       \<not> is_predict_call ev \<and> \<not> is_errfn_call ev"
    by (auto simp: numpy_def)
  have "\<forall>ev \<in> set (window (trace_of
                 (run_flk env Xtr Xts Ytr Yts sigma penalty M num_iter err_fn (w, [])))).
          ev = Fit_Falkon Xtr Ytr Xts Yts \<or> (\<exists>ex. ev = Raised ex)"
    by (rule flk_window[OF flk_result])
  then show "\<forall>ev \<in> set (window (trace_of
                 (run_flk env Xtr Xts Ytr Yts sigma penalty M num_iter err_fn (w, [])))).
       (ev = Fit_Falkon Xtr Ytr Xts Yts \<or> (\<exists>ex. ev = Raised ex)) \<and>
       \<not> is_predict_call ev \<and> \<not> is_errfn_call ev"
    by auto
next
  assume h: "outcome (run_libsvm env Xtr Xts Ytr Yts sigma C err_fn (w, [])) = Inr (e, t)"
  from svc_success[OF libsvm_result[of env Xtr Xts Ytr Yts sigma C err_fn "(w, [])", unfolded h]]
  obtain g w1 m w1' y w2 m' p l1 l2 where
    a: "sklearn_SVC env (svc_args C g) w = (w1, Inr m)"
       "tensor_argmax1 Ytr w1 = (w1', y)"
       "sklearn_fit env m Xtr y w1' = (w2, Inr m')"
       "t = now w2 - now w1"
    and tr: "trace_of (run_libsvm env Xtr Xts Ytr Yts sigma C err_fn (w, []))
         = [New_SVC Sklearn (svc_args C g), Time (now w1), ArgMax Ytr, Fit_SVC Sklearn Xtr y,
            Time (now w2), Predict_SVC Sklearn Xts, ErrFn Yts (reshape_m1_1 p), Print l1, Print l2]"
    by blast
  show "\<exists>g w1 m w1' y w2 m' q l1 l2.
          sklearn_SVC env (svc_args C g) w = (w1, Inr m) \<and>
          tensor_argmax1 Ytr w1 = (w1', y) \<and> now w1' = now w1 \<and>
          sklearn_fit env m (numpy Xtr) y w1' = (w2, Inr m') \<and>
          t = now w2 - now w1 \<and>
          trace_of (run_libsvm env Xtr Xts Ytr Yts sigma C err_fn (w, []))
            = [New_SVC Sklearn (svc_args C g), Time (now w1), ArgMax Ytr,
               Fit_SVC Sklearn (numpy Xtr) y, Time (now w2),
               Predict_SVC Sklearn (numpy Xts), ErrFn Yts q, Print l1, Print l2] \<and>
          window (trace_of (run_libsvm env Xtr Xts Ytr Yts sigma C err_fn (w, [])))
            = [ArgMax Ytr, Fit_SVC Sklearn (numpy Xtr) y] \<and>
          after_window (trace_of (run_libsvm env Xtr Xts Ytr Yts sigma C err_fn (w, [])))
            = [Predict_SVC Sklearn (numpy Xts), ErrFn Yts q, Print l1, Print l2]"
    using a now_tensor_argmax1[OF a(2)]
    by (intro exI[of _ g] exI[of _ w1] exI[of _ m] exI[of _ w1'] exI[of _ y] exI[of _ w2]
          exI[of _ m'] exI[of _ "reshape_m1_1 p"] exI[of _ l1] exI[of _ l2])
       (simp add: tr numpy_def window_def after_window_def from_start_def)
next
  assume h: "outcome (run_thundersvm env Xtr Xts Ytr Yts sigma C err_fn (w, [])) = Inr (e, t)"
  from svc_success[OF thundersvm_result[of env Xtr Xts Ytr Yts sigma C err_fn "(w, [])",
        unfolded h]]
  obtain g w1 m w1' y w2 m' p l1 l2 where
    a: "thundersvm_SVC env (svc_args C g) w = (w1, Inr m)"
       "tensor_argmax1 Ytr w1 = (w1', y)"
       "thundersvm_fit env m Xtr y w1' = (w2, Inr m')"
       "t = now w2 - now w1"
    and tr: "trace_of (run_thundersvm env Xtr Xts Ytr Yts sigma C err_fn (w, []))
         = [New_SVC ThunderSVM (svc_args C g), Time (now w1), ArgMax Ytr,
            Fit_SVC ThunderSVM Xtr y, Time (now w2), Predict_SVC ThunderSVM Xts,
            ErrFn Yts (reshape_m1_1 p), Print l1, Print l2]"
    by blast
  show "\<exists>g w1 m w1' y w2 m' q l1 l2.
          thundersvm_SVC env (svc_args C g) w = (w1, Inr m) \<and>
          tensor_argmax1 Ytr w1 = (w1', y) \<and> now w1' = now w1 \<and>
          thundersvm_fit env m (numpy Xtr) y w1' = (w2, Inr m') \<and>
          t = now w2 - now w1 \<and>
          trace_of (run_thundersvm env Xtr Xts Ytr Yts sigma C err_fn (w, []))
            = [New_SVC ThunderSVM (svc_args C g), Time (now w1), ArgMax Ytr,
               Fit_SVC ThunderSVM (numpy Xtr) y, Time (now w2),
               Predict_SVC ThunderSVM (numpy Xts), ErrFn Yts q, Print l1, Print l2] \<and>
          window (trace_of (run_thundersvm env Xtr Xts Ytr Yts sigma C err_fn (w, [])))
            = [ArgMax Ytr, Fit_SVC ThunderSVM (numpy Xtr) y] \<and>
          after_window (trace_of (run_thundersvm env Xtr Xts Ytr Yts sigma C err_fn (w, [])))
            = [Predict_SVC ThunderSVM (numpy Xts), ErrFn Yts q, Print l1, Print l2]"
    using a now_tensor_argmax1[OF a(2)]
    by (intro exI[of _ g] exI[of _ w1] exI[of _ m] exI[of _ w1'] exI[of _ y] exI[of _ w2]
          exI[of _ m'] exI[of _ "reshape_m1_1 p"] exI[of _ l1] exI[of _ l2])
       (simp add: tr numpy_def window_def after_window_def from_start_def)
next
  assume h: "outcome (run_flk env Xtr Xts Ytr Yts sigma penalty M num_iter err_fn (w, []))
               = Inr (e, t)"
  from flk_success[OF flk_result[of env Xtr Xts Ytr Yts sigma penalty M num_iter err_fn
        "(w, [])", unfolded h]]
  obtain k w1 m w2 m' w3 p l1 l2 where
    a: "GaussianKernel env sigma w = (w1, Inr k)"
       "Falkon env (falkon_args k penalty M num_iter err_fn) w1 = (w2, Inr m)"
       "falkon_fit env m Xtr Ytr Xts Yts w2 = (w3, Inr m')"
       "t = now w3 - now w2"
    and tr: "trace_of (run_flk env Xtr Xts Ytr Yts sigma penalty M num_iter err_fn (w, []))
         = [New_GaussianKernel sigma, New_Falkon (falkon_args k penalty M num_iter err_fn),
            Time (now w2), Fit_Falkon Xtr Ytr Xts Yts, Time (now w3), Predict_Falkon Xts,
            ErrFn Yts p, Print l1, Print l2]"
    by blast
  show "\<exists>k w1 m w2 m' w3 p l1 l2.
          GaussianKernel env sigma w = (w1, Inr k) \<and>
          Falkon env (falkon_args k penalty M num_iter err_fn) w1 = (w2, Inr m) \<and>
          falkon_fit env m Xtr Ytr Xts Yts w2 = (w3, Inr m') \<and>
          t = now w3 - now w2 \<and>
          trace_of (run_flk env Xtr Xts Ytr Yts sigma penalty M num_iter err_fn (w, []))
            = [New_GaussianKernel sigma, New_Falkon (falkon_args k penalty M num_iter err_fn),
               Time (now w2), Fit_Falkon Xtr Ytr Xts Yts, Time (now w3),
               Predict_Falkon Xts, ErrFn Yts p, Print l1, Print l2] \<and>
          window (trace_of (run_flk env Xtr Xts Ytr Yts sigma penalty M num_iter err_fn (w, [])))
            = [Fit_Falkon Xtr Ytr Xts Yts] \<and>
          after_window (trace_of
                (run_flk env Xtr Xts Ytr Yts sigma penalty M num_iter err_fn (w, [])))
            = [Predict_Falkon Xts, ErrFn Yts p, Print l1, Print l2]"
    using a
    by (intro exI[of _ k] exI[of _ w1] exI[of _ m] exI[of _ w2] exI[of _ m'] exI[of _ w3]
          exI[of _ p] exI[of _ l1] exI[of _ l2])
       (simp add: tr window_def after_window_def from_start_def)
qed

text \<open>
  The stub runs: between the two readings of the clock lie the label conversion and the
  call of \<^verbatim>\<open>fit\<close> in the SVC runners, the call of \<^verbatim>\<open>fit\<close> alone in \<^verbatim>\<open>run_flk\<close>; the
  prediction, the error evaluation and the two printed lines follow the second reading.
\<close>

theorem timing_window_witness:
  "Fit_SVC Sklearn X_train \<lparr>buf = 4, shape = [4]\<rparr>
     \<in> set (window (trace_of (run_libsvm demo_env X_train X_test Y_train Y_test (PyInt 15)
                 (PyInt 100) demo_err_fn (demo_world, [])))) \<and>
   \<not> is_predict_call (Fit_SVC Sklearn X_train \<lparr>buf = 4, shape = [4]\<rparr> :: nat event) \<and>
   \<not> is_errfn_call (Fit_SVC Sklearn X_train \<lparr>buf = 4, shape = [4]\<rparr> :: nat event) \<and>
   Fit_SVC ThunderSVM X_train \<lparr>buf = 4, shape = [4]\<rparr>
     \<in> set (window (trace_of (run_thundersvm demo_env X_train X_test Y_train Y_test (PyInt 15)
                 (PyInt 100) demo_err_fn (demo_world, [])))) \<and>
   \<not> is_predict_call (Fit_SVC ThunderSVM X_train \<lparr>buf = 4, shape = [4]\<rparr> :: nat event) \<and>
   \<not> is_errfn_call (Fit_SVC ThunderSVM X_train \<lparr>buf = 4, shape = [4]\<rparr> :: nat event) \<and>
   Fit_Falkon X_train Y_train X_test Y_test
     \<in> set (window (trace_of (run_flk demo_env X_train X_test Y_train Y_test (PyInt 5)
                 (PyFloat (Fin (1 / 1000000000))) (PyInt 20000) 1 demo_err_fn
                 (demo_world, [])))) \<and>
   \<not> is_predict_call (Fit_Falkon X_train Y_train X_test Y_test :: nat event) \<and>
   \<not> is_errfn_call (Fit_Falkon X_train Y_train X_test Y_test :: nat event) \<and>
   outcome (run_libsvm demo_env X_train X_test Y_train Y_test (PyInt 15) (PyInt 100)
             demo_err_fn (demo_world, [])) = Inr (Fin (1345 / 10000), 66099 / 100) \<and>
   outcome (run_thundersvm demo_env X_train X_test Y_train Y_test (PyInt 15) (PyInt 100)
             demo_err_fn (demo_world, [])) = Inr (Fin (1345 / 10000), 391 / 20) \<and>
   outcome (run_flk demo_env X_train X_test Y_train Y_test (PyInt 5)
             (PyFloat (Fin (1 / 1000000000))) (PyInt 20000) 1 demo_err_fn (demo_world, []))
     = Inr (Fin (1345 / 10000), 6) \<and>
   (\<exists>y q l1 l2.
       window (trace_of (run_libsvm demo_env X_train X_test Y_train Y_test (PyInt 15)
                 (PyInt 100) demo_err_fn (demo_world, [])))
         = [ArgMax Y_train, Fit_SVC Sklearn (numpy X_train) y] \<and>
       after_window (trace_of (run_libsvm demo_env X_train X_test Y_train Y_test (PyInt 15)
                 (PyInt 100) demo_err_fn (demo_world, [])))
         = [Predict_SVC Sklearn (numpy X_test), ErrFn Y_test q, Print l1, Print l2]) \<and>
   (\<exists>y q l1 l2.
       window (trace_of (run_thundersvm demo_env X_train X_test Y_train Y_test (PyInt 15)
                 (PyInt 100) demo_err_fn (demo_world, [])))
         = [ArgMax Y_train, Fit_SVC ThunderSVM (numpy X_train) y] \<and>
       after_window (trace_of (run_thundersvm demo_env X_train X_test Y_train Y_test (PyInt 15)
                 (PyInt 100) demo_err_fn (demo_world, [])))
         = [Predict_SVC ThunderSVM (numpy X_test), ErrFn Y_test q, Print l1, Print l2]) \<and>
   (\<exists>w2 w3 p l1 l2.
       (6 :: real) = now (w3 :: world) - now (w2 :: world) \<and>
       window (trace_of (run_flk demo_env X_train X_test Y_train Y_test (PyInt 5)
                 (PyFloat (Fin (1 / 1000000000))) (PyInt 20000) 1 demo_err_fn (demo_world, [])))
         = [Fit_Falkon X_train Y_train X_test Y_test] \<and>
       after_window (trace_of (run_flk demo_env X_train X_test Y_train Y_test (PyInt 5)
                 (PyFloat (Fin (1 / 1000000000))) (PyInt 20000) 1 demo_err_fn (demo_world, [])))
         = [Predict_Falkon X_test, ErrFn Y_test p, Print l1, Print l2])"
proof -
  note svc = timing_window[where env = demo_env and Xtr = X_train and Xts = X_test
      and Ytr = Y_train and Yts = Y_test and sigma = "PyInt 15" and C = "PyInt 100"
      and err_fn = demo_err_fn and w = demo_world and e = "Fin (1345 / 10000)"
      and penalty = "PyFloat (Fin (1 / 1000000000))" and M = "PyInt 20000" and num_iter = 1]
  note flk = timing_window[where env = demo_env and Xtr = X_train and Xts = X_test
      and Ytr = Y_train and Yts = Y_test and sigma = "PyInt 5" and C = "PyInt 100"
      and err_fn = demo_err_fn and w = demo_world and e = "Fin (1345 / 10000)" and t = 6
      and penalty = "PyFloat (Fin (1 / 1000000000))" and M = "PyInt 20000" and num_iter = 1]
  have m1: "Fit_SVC Sklearn X_train \<lparr>buf = 4, shape = [4]\<rparr>
     \<in> set (window (trace_of (run_libsvm demo_env X_train X_test Y_train Y_test (PyInt 15)
                 (PyInt 100) demo_err_fn (demo_world, []))))"
    by (simp add: demo_libsvm_run res_defs tr_defs)
  have m2: "Fit_SVC ThunderSVM X_train \<lparr>buf = 4, shape = [4]\<rparr>
     \<in> set (window (trace_of (run_thundersvm demo_env X_train X_test Y_train Y_test (PyInt 15)
                 (PyInt 100) demo_err_fn (demo_world, []))))"
    by (simp add: demo_thundersvm_run res_defs tr_defs)
  have m3: "Fit_Falkon X_train Y_train X_test Y_test
     \<in> set (window (trace_of (run_flk demo_env X_train X_test Y_train Y_test (PyInt 5)
                 (PyFloat (Fin (1 / 1000000000))) (PyInt 20000) 1 demo_err_fn
                 (demo_world, []))))"
    by (simp add: demo_flk_run res_defs tr_defs)
  have o1: "outcome (run_libsvm demo_env X_train X_test Y_train Y_test (PyInt 15) (PyInt 100)
      demo_err_fn (demo_world, [])) = Inr (Fin (1345 / 10000), 66099 / 100)"
    by (simp add: demo_libsvm_run outcome_def)
  have o2: "outcome (run_thundersvm demo_env X_train X_test Y_train Y_test (PyInt 15) (PyInt 100)
      demo_err_fn (demo_world, [])) = Inr (Fin (1345 / 10000), 391 / 20)"
    by (simp add: demo_thundersvm_run outcome_def)
  have o3: "outcome (run_flk demo_env X_train X_test Y_train Y_test (PyInt 5)
      (PyFloat (Fin (1 / 1000000000))) (PyInt 20000) 1 demo_err_fn (demo_world, []))
     = Inr (Fin (1345 / 10000), 6)"
    by (simp add: demo_flk_run outcome_def)
  from svc[where t = "66099 / 100", THEN conjunct1, rule_format, OF m1]
  have a1: "\<not> is_predict_call (Fit_SVC Sklearn X_train \<lparr>buf = 4, shape = [4]\<rparr> :: nat event)"
    and a2: "\<not> is_errfn_call (Fit_SVC Sklearn X_train \<lparr>buf = 4, shape = [4]\<rparr> :: nat event)"
    by simp_all
  from svc[where t = "391 / 20", THEN conjunct2, THEN conjunct1, rule_format, OF m2]
  have b1: "\<not> is_predict_call (Fit_SVC ThunderSVM X_train \<lparr>buf = 4, shape = [4]\<rparr> :: nat event)"
    and b2: "\<not> is_errfn_call (Fit_SVC ThunderSVM X_train \<lparr>buf = 4, shape = [4]\<rparr> :: nat event)"
    by simp_all
  from flk[THEN conjunct2, THEN conjunct2, THEN conjunct1, rule_format, OF m3]
  have c1: "\<not> is_predict_call (Fit_Falkon X_train Y_train X_test Y_test :: nat event)"
    and c2: "\<not> is_errfn_call (Fit_Falkon X_train Y_train X_test Y_test :: nat event)"
    by simp_all
  from svc[where t = "66099 / 100", THEN conjunct2, THEN conjunct2, THEN conjunct2,
      THEN conjunct1, rule_format, OF o1]
  have s1: "\<exists>y q l1 l2.
       window (trace_of (run_libsvm demo_env X_train X_test Y_train Y_test (PyInt 15)
                 (PyInt 100) demo_err_fn (demo_world, [])))
         = [ArgMax Y_train, Fit_SVC Sklearn (numpy X_train) y] \<and>
       after_window (trace_of (run_libsvm demo_env X_train X_test Y_train Y_test (PyInt 15)
                 (PyInt 100) demo_err_fn (demo_world, [])))
         = [Predict_SVC Sklearn (numpy X_test), ErrFn Y_test q, Print l1, Print l2]"
    by (elim exE conjE) (intro exI conjI, assumption+)
  from svc[where t = "391 / 20", THEN conjunct2, THEN conjunct2, THEN conjunct2,
      THEN conjunct2, THEN conjunct1, rule_format, OF o2]
  have s2: "\<exists>y q l1 l2.
       window (trace_of (run_thundersvm demo_env X_train X_test Y_train Y_test (PyInt 15)
                 (PyInt 100) demo_err_fn (demo_world, [])))
         = [ArgMax Y_train, Fit_SVC ThunderSVM (numpy X_train) y] \<and>
       after_window (trace_of (run_thundersvm demo_env X_train X_test Y_train Y_test (PyInt 15)
                 (PyInt 100) demo_err_fn (demo_world, [])))
         = [Predict_SVC ThunderSVM (numpy X_test), ErrFn Y_test q, Print l1, Print l2]"
    by (elim exE conjE) (intro exI conjI, assumption+)
  from flk[THEN conjunct2, THEN conjunct2, THEN conjunct2,
      THEN conjunct2, THEN conjunct2, rule_format, OF o3]
  have s3: "\<exists>w2 w3 p l1 l2.
       (6 :: real) = now (w3 :: world) - now (w2 :: world) \<and>
       window (trace_of (run_flk demo_env X_train X_test Y_train Y_test (PyInt 5)
                 (PyFloat (Fin (1 / 1000000000))) (PyInt 20000) 1 demo_err_fn (demo_world, [])))
         = [Fit_Falkon X_train Y_train X_test Y_test] \<and>
       after_window (trace_of (run_flk demo_env X_train X_test Y_train Y_test (PyInt 5)
                 (PyFloat (Fin (1 / 1000000000))) (PyInt 20000) 1 demo_err_fn (demo_world, [])))
         = [Predict_Falkon X_test, ErrFn Y_test p, Print l1, Print l2]"
    by blast
  from m1 a1 a2 m2 b1 b2 m3 c1 c2 o1 o2 o3 s1 s2 s3 show ?thesis by (intro conjI)
qed

text \<open>
  C2. A runner call that completes without an exception returns the pair (error value,
  elapsed seconds): the first element is the scalar the supplied error function
  returned when it was applied to the test labels and the predictions the solver's
  \<^verbatim>\<open>predict\<close> had just returned (reshaped to a column in the two SVC runners), in the
  world that \<^verbatim>\<open>predict\<close> left; the second is the difference of the two readings of the
  clock. The error function is arbitrary.
\<close>

theorem returned_error_is_err_fn:
  "(outcome (run_libsvm env Xtr Xts Ytr Yts sigma C err_fn (w, [])) = Inr (e, t) \<longrightarrow>
      (\<exists>m w2 w3 p w4 nm t_s t_e.
          sklearn_predict env m (numpy Xts) w2 = (w3, Inr p) \<and>
          err_fn Yts (from_numpy (reshape_m1_1 p)) w3 = (w4, Inr (e, nm)) \<and>
          ErrFn Yts (from_numpy (reshape_m1_1 p))
            \<in> set (trace_of (run_libsvm env Xtr Xts Ytr Yts sigma C err_fn (w, []))) \<and>
          timestamps (trace_of (run_libsvm env Xtr Xts Ytr Yts sigma C err_fn (w, [])))
            = [t_s, t_e] \<and>
          t = t_e - t_s)) \<and>
   (outcome (run_thundersvm env Xtr Xts Ytr Yts sigma C err_fn (w, [])) = Inr (e, t) \<longrightarrow>
      (\<exists>m w2 w3 p w4 nm t_s t_e.
          thundersvm_predict env m (numpy Xts) w2 = (w3, Inr p) \<and>
          err_fn Yts (from_numpy (reshape_m1_1 p)) w3 = (w4, Inr (e, nm)) \<and>
          ErrFn Yts (from_numpy (reshape_m1_1 p))
            \<in> set (trace_of (run_thundersvm env Xtr Xts Ytr Yts sigma C err_fn (w, []))) \<and>
          timestamps (trace_of (run_thundersvm env Xtr Xts Ytr Yts sigma C err_fn (w, [])))
            = [t_s, t_e] \<and>
          t = t_e - t_s)) \<and>
   (outcome (run_flk env Xtr Xts Ytr Yts sigma penalty M num_iter err_fn (w, [])) = Inr (e, t) \<longrightarrow>
      (\<exists>m w2 w3 p w4 nm t_s t_e.
          falkon_predict env m Xts w2 = (w3, Inr p) \<and>
          err_fn Yts p w3 = (w4, Inr (e, nm)) \<and>
          last (filter is_errfn_call
                 (trace_of (run_flk env Xtr Xts Ytr Yts sigma penalty M num_iter err_fn (w, []))))
            = ErrFn Yts p \<and>
          timestamps (trace_of (run_flk env Xtr Xts Ytr Yts sigma penalty M num_iter err_fn (w, [])))
            = [t_s, t_e] \<and>
          t = t_e - t_s))"
proof (intro conjI impI)
  assume h: "outcome (run_libsvm env Xtr Xts Ytr Yts sigma C err_fn (w, [])) = Inr (e, t)"
  from svc_success[OF libsvm_result[of env Xtr Xts Ytr Yts sigma C err_fn "(w, [])", unfolded h]]
  show "\<exists>m w2 w3 p w4 nm t_s t_e.
          sklearn_predict env m (numpy Xts) w2 = (w3, Inr p) \<and>
          err_fn Yts (from_numpy (reshape_m1_1 p)) w3 = (w4, Inr (e, nm)) \<and>
          ErrFn Yts (from_numpy (reshape_m1_1 p))
            \<in> set (trace_of (run_libsvm env Xtr Xts Ytr Yts sigma C err_fn (w, []))) \<and>
          timestamps (trace_of (run_libsvm env Xtr Xts Ytr Yts sigma C err_fn (w, [])))
            = [t_s, t_e] \<and>
          t = t_e - t_s"
    by (fastforce simp: timestamps_simps numpy_def from_numpy_def)
next
  assume h: "outcome (run_thundersvm env Xtr Xts Ytr Yts sigma C err_fn (w, [])) = Inr (e, t)"
  from svc_success[OF thundersvm_result[of env Xtr Xts Ytr Yts sigma C err_fn "(w, [])", unfolded h]]
  show "\<exists>m w2 w3 p w4 nm t_s t_e.
          thundersvm_predict env m (numpy Xts) w2 = (w3, Inr p) \<and>
          err_fn Yts (from_numpy (reshape_m1_1 p)) w3 = (w4, Inr (e, nm)) \<and>
          ErrFn Yts (from_numpy (reshape_m1_1 p))
            \<in> set (trace_of (run_thundersvm env Xtr Xts Ytr Yts sigma C err_fn (w, []))) \<and>
          timestamps (trace_of (run_thundersvm env Xtr Xts Ytr Yts sigma C err_fn (w, [])))
            = [t_s, t_e] \<and>
          t = t_e - t_s"
    by (fastforce simp: timestamps_simps numpy_def from_numpy_def)
next
  assume h: "outcome (run_flk env Xtr Xts Ytr Yts sigma penalty M num_iter err_fn (w, []))
               = Inr (e, t)"
  from flk_success[OF flk_result[of env Xtr Xts Ytr Yts sigma penalty M num_iter err_fn
        "(w, [])", unfolded h]]
  show "\<exists>m w2 w3 p w4 nm t_s t_e.
          falkon_predict env m Xts w2 = (w3, Inr p) \<and>
          err_fn Yts p w3 = (w4, Inr (e, nm)) \<and>
          last (filter is_errfn_call
                 (trace_of (run_flk env Xtr Xts Ytr Yts sigma penalty M num_iter err_fn (w, []))))
            = ErrFn Yts p \<and>
          timestamps (trace_of (run_flk env Xtr Xts Ytr Yts sigma penalty M num_iter err_fn (w, [])))
            = [t_s, t_e] \<and>
          t = t_e - t_s"
    by (fastforce simp: timestamps_simps)
qed

text \<open>
  The stub runs: the error function returns the c-error 0.1345, and that is the first
  element of what each of the three runners returns.
\<close>

theorem returned_error_is_err_fn_witness:
  "outcome (run_libsvm demo_env X_train X_test Y_train Y_test (PyInt 15) (PyInt 100) demo_err_fn
      (demo_world, [])) = Inr (Fin (1345 / 10000), 66099 / 100) \<and>
   outcome (run_thundersvm demo_env X_train X_test Y_train Y_test (PyInt 15) (PyInt 100)
      demo_err_fn (demo_world, [])) = Inr (Fin (1345 / 10000), 391 / 20) \<and>
   outcome (run_flk demo_env X_train X_test Y_train Y_test (PyInt 5) (PyFloat (Fin (1 / 1000000000)))
      (PyInt 20000) 1 demo_err_fn (demo_world, [])) = Inr (Fin (1345 / 10000), 6) \<and>
   (\<exists>m w2 w3 p w4 nm t_s t_e.
          sklearn_predict demo_env m (numpy X_test) w2 = (w3, Inr p) \<and>
          demo_err_fn Y_test (from_numpy (reshape_m1_1 p)) w3 = (w4, Inr (Fin (1345 / 10000), nm)) \<and>
          (66099 / 100 :: real) = t_e - t_s) \<and>
   (\<exists>m w2 w3 p w4 nm t_s t_e.
          thundersvm_predict demo_env m (numpy X_test) w2 = (w3, Inr p) \<and>
          demo_err_fn Y_test (from_numpy (reshape_m1_1 p)) w3 = (w4, Inr (Fin (1345 / 10000), nm)) \<and>
          (391 / 20 :: real) = t_e - t_s) \<and>
   (\<exists>m w2 w3 p w4 nm t_s t_e.
          falkon_predict demo_env m X_test w2 = (w3, Inr p) \<and>
          demo_err_fn Y_test p w3 = (w4, Inr (Fin (1345 / 10000), nm)) \<and>
          (6 :: real) = t_e - t_s)"
proof -
  have 1: "outcome (run_libsvm demo_env X_train X_test Y_train Y_test (PyInt 15) (PyInt 100)
      demo_err_fn (demo_world, [])) = Inr (Fin (1345 / 10000), 66099 / 100)"
    by (simp add: demo_libsvm_run outcome_def)
  have 2: "outcome (run_thundersvm demo_env X_train X_test Y_train Y_test (PyInt 15) (PyInt 100)
      demo_err_fn (demo_world, [])) = Inr (Fin (1345 / 10000), 391 / 20)"
    by (simp add: demo_thundersvm_run outcome_def)
  have 3: "outcome (run_flk demo_env X_train X_test Y_train Y_test (PyInt 5)
      (PyFloat (Fin (1 / 1000000000))) (PyInt 20000) 1 demo_err_fn (demo_world, []))
      = Inr (Fin (1345 / 10000), 6)"
    by (simp add: demo_flk_run outcome_def)
  from returned_error_is_err_fn[where env = demo_env and Xtr = X_train and Xts = X_test
      and Ytr = Y_train and Yts = Y_test and sigma = "PyInt 15" and C = "PyInt 100"
      and err_fn = demo_err_fn and w = demo_world and e = "Fin (1345 / 10000)" and t = "66099 / 100"
      and penalty = "PyFloat (Fin (1 / 1000000000))" and M = "PyInt 20000" and num_iter = 1,
      THEN conjunct1, rule_format, OF 1]
  have 4: "\<exists>m w2 w3 p w4 nm t_s t_e.
          sklearn_predict demo_env m (numpy X_test) w2 = (w3, Inr p) \<and>
          demo_err_fn Y_test (from_numpy (reshape_m1_1 p)) w3 = (w4, Inr (Fin (1345 / 10000), nm)) \<and>
          (66099 / 100 :: real) = t_e - t_s"
    by blast
  from returned_error_is_err_fn[where env = demo_env and Xtr = X_train and Xts = X_test
      and Ytr = Y_train and Yts = Y_test and sigma = "PyInt 15" and C = "PyInt 100"
      and err_fn = demo_err_fn and w = demo_world and e = "Fin (1345 / 10000)" and t = "391 / 20"
      and penalty = "PyFloat (Fin (1 / 1000000000))" and M = "PyInt 20000" and num_iter = 1,
      THEN conjunct2, THEN conjunct1, rule_format, OF 2]
  have 5: "\<exists>m w2 w3 p w4 nm t_s t_e.
          thundersvm_predict demo_env m (numpy X_test) w2 = (w3, Inr p) \<and>
          demo_err_fn Y_test (from_numpy (reshape_m1_1 p)) w3 = (w4, Inr (Fin (1345 / 10000), nm)) \<and>
          (391 / 20 :: real) = t_e - t_s"
    by blast
  from returned_error_is_err_fn[where env = demo_env and Xtr = X_train and Xts = X_test
      and Ytr = Y_train and Yts = Y_test and sigma = "PyInt 5" and C = "PyInt 100"
      and penalty = "PyFloat (Fin (1 / 1000000000))" and M = "PyInt 20000" and num_iter = 1
      and err_fn = demo_err_fn and w = demo_world and e = "Fin (1345 / 10000)" and t = 6,
      THEN conjunct2, THEN conjunct2, rule_format, OF 3]
  have 6: "\<exists>m w2 w3 p w4 nm t_s t_e.
          falkon_predict demo_env m X_test w2 = (w3, Inr p) \<and>
          demo_err_fn Y_test p w3 = (w4, Inr (Fin (1345 / 10000), nm)) \<and>
          (6 :: real) = t_e - t_s"
    by blast
  from 1 2 3 4 5 6 show ?thesis by (intro conjI)
qed




text \<open>
  C4. \<^verbatim>\<open>run_libsvm\<close> and \<^verbatim>\<open>run_thundersvm\<close> call \<^verbatim>\<open>fit\<close> with the training features and
  with \<^verbatim>\<open>Ytr.argmax(1)\<close>, evaluated in the world the constructor left: a new array, in a
  buffer that was free, of the shape of the label tensor without its dimension 1, whose
  elements are, for every row of a label matrix, the index of the first largest entry of
  the row as the row stands in that world (the class index of a one-hot row). The
  conversion changes nothing else in the world, and \<^verbatim>\<open>fit\<close> runs in the world it leaves.
  \<^verbatim>\<open>run_flk\<close> calls \<^verbatim>\<open>fit\<close> with the training labels themselves, and never converts them.
  A call of a runner that returns has called \<^verbatim>\<open>fit\<close>.
\<close>

theorem labels_passed_to_fit:
  "(\<forall>l X y. Fit_SVC l X y \<in> set (trace_of (run_libsvm env Xtr Xts Ytr Yts sigma C err_fn (w, [])))
      \<longrightarrow> l = Sklearn \<and> X = numpy Xtr \<and> 2 \<le> length (shape Ytr) \<and> shape Ytr ! 1 \<noteq> 0 \<and>
          (\<exists>g w1 m w1' post.
              py_gamma sigma = Inr g \<and> sklearn_SVC env (svc_args C g) w = (w1, Inr m) \<and>
              tensor_argmax1 Ytr w1 = (w1', y) \<and>
              y = \<lparr>buf = next_free w1, shape = hd (shape Ytr) # drop 2 (shape Ytr)\<rparr> \<and>
              w1' = w1\<lparr>heap := (heap w1)(next_free w1
                                   := argmax_dim1 (shape Ytr) (heap w1 (buf Ytr))),
                       next_free := Suc (next_free w1)\<rparr> \<and>
              heap w1' (buf y) = argmax_dim1 (shape Ytr) (heap w1 (buf Ytr)) \<and>
              flatten w1' y = argmax_dim1 (shape Ytr) (heap w1 (buf Ytr)) \<and>
              trace_of (run_libsvm env Xtr Xts Ytr Yts sigma C err_fn (w, []))
                = [New_SVC Sklearn (svc_args C g), Time (now w1), ArgMax Ytr,
                   Fit_SVC Sklearn (numpy Xtr) y] @ post \<and>
              (case sklearn_fit env m (numpy Xtr) y w1' of
                 (w2, Inl ex) \<Rightarrow>
                    post = [Raised ex] \<and>
                    outcome (run_libsvm env Xtr Xts Ytr Yts sigma C err_fn (w, [])) = Inl ex \<and>
                    world_of (run_libsvm env Xtr Xts Ytr Yts sigma C err_fn (w, [])) = w2
               | (w2, Inr m') \<Rightarrow>
                    timestamps (trace_of (run_libsvm env Xtr Xts Ytr Yts sigma C err_fn (w, [])))
                      = [now w1, now w2]))) \<and>
   (\<forall>l X y. Fit_SVC l X y
        \<in> set (trace_of (run_thundersvm env Xtr Xts Ytr Yts sigma C err_fn (w, [])))
      \<longrightarrow> l = ThunderSVM \<and> X = numpy Xtr \<and> 2 \<le> length (shape Ytr) \<and> shape Ytr ! 1 \<noteq> 0 \<and>
          (\<exists>g w1 m w1' post.
              py_gamma sigma = Inr g \<and> thundersvm_SVC env (svc_args C g) w = (w1, Inr m) \<and>
              tensor_argmax1 Ytr w1 = (w1', y) \<and>
              y = \<lparr>buf = next_free w1, shape = hd (shape Ytr) # drop 2 (shape Ytr)\<rparr> \<and>
              w1' = w1\<lparr>heap := (heap w1)(next_free w1
                                   := argmax_dim1 (shape Ytr) (heap w1 (buf Ytr))),
                       next_free := Suc (next_free w1)\<rparr> \<and>
              heap w1' (buf y) = argmax_dim1 (shape Ytr) (heap w1 (buf Ytr)) \<and>
              flatten w1' y = argmax_dim1 (shape Ytr) (heap w1 (buf Ytr)) \<and>
              trace_of (run_thundersvm env Xtr Xts Ytr Yts sigma C err_fn (w, []))
                = [New_SVC ThunderSVM (svc_args C g), Time (now w1), ArgMax Ytr,
                   Fit_SVC ThunderSVM (numpy Xtr) y] @ post \<and>
              (case thundersvm_fit env m (numpy Xtr) y w1' of
                 (w2, Inl ex) \<Rightarrow>
                    post = [Raised ex] \<and>
                    outcome (run_thundersvm env Xtr Xts Ytr Yts sigma C err_fn (w, [])) = Inl ex \<and>
                    world_of (run_thundersvm env Xtr Xts Ytr Yts sigma C err_fn (w, [])) = w2
               | (w2, Inr m') \<Rightarrow>
                    timestamps (trace_of
                        (run_thundersvm env Xtr Xts Ytr Yts sigma C err_fn (w, [])))
                      = [now w1, now w2]))) \<and>
   (\<forall>X Y Xt Yt. Fit_Falkon X Y Xt Yt
        \<in> set (trace_of (run_flk env Xtr Xts Ytr Yts sigma penalty M num_iter err_fn (w, [])))
      \<longrightarrow> X = Xtr \<and> Y = Ytr \<and> Xt = Xts \<and> Yt = Yts \<and>
          (\<exists>k w1 m w2 post.
              GaussianKernel env sigma w = (w1, Inr k) \<and>
              Falkon env (falkon_args k penalty M num_iter err_fn) w1 = (w2, Inr m) \<and>
              trace_of (run_flk env Xtr Xts Ytr Yts sigma penalty M num_iter err_fn (w, []))
                = [New_GaussianKernel sigma,
                   New_Falkon (falkon_args k penalty M num_iter err_fn),
                   Time (now w2), Fit_Falkon Xtr Ytr Xts Yts] @ post \<and>
              (case falkon_fit env m Xtr Ytr Xts Yts w2 of
                 (w3, Inl ex) \<Rightarrow>
                    post = [Raised ex] \<and>
                    outcome (run_flk env Xtr Xts Ytr Yts sigma penalty M num_iter err_fn (w, []))
                      = Inl ex \<and>
                    world_of (run_flk env Xtr Xts Ytr Yts sigma penalty M num_iter err_fn (w, []))
                      = w3
               | (w3, Inr m') \<Rightarrow>
                    timestamps (trace_of
                        (run_flk env Xtr Xts Ytr Yts sigma penalty M num_iter err_fn (w, [])))
                      = [now w2, now w3]))) \<and>
   (\<forall>Y. ArgMax Y
        \<notin> set (trace_of (run_flk env Xtr Xts Ytr Yts sigma penalty M num_iter err_fn (w, [])))) \<and>
   (\<forall>i<n. argmax_dim1 [n, k] d ! i
             = real (first_max_index (map (\<lambda>c. d ! (i * k + c)) [0..<k]))) \<and>
   (xs \<noteq> [] \<longrightarrow> first_max_index xs < length xs \<and>
                (\<forall>j<length xs. xs ! j \<le> xs ! first_max_index xs) \<and>
                (\<forall>j<first_max_index xs. xs ! j < xs ! first_max_index xs)) \<and>
   (\<forall>c<k. first_max_index (map (\<lambda>j. if j = c then 1 else 0) [0..<k]) = c) \<and>
   (outcome (run_libsvm env Xtr Xts Ytr Yts sigma C err_fn (w, [])) = Inr (e, t) \<longrightarrow>
      (\<exists>y. Fit_SVC Sklearn (numpy Xtr) y
              \<in> set (trace_of (run_libsvm env Xtr Xts Ytr Yts sigma C err_fn (w, []))))) \<and>
   (outcome (run_thundersvm env Xtr Xts Ytr Yts sigma C err_fn (w, [])) = Inr (e, t) \<longrightarrow>
      (\<exists>y. Fit_SVC ThunderSVM (numpy Xtr) y
              \<in> set (trace_of (run_thundersvm env Xtr Xts Ytr Yts sigma C err_fn (w, []))))) \<and>
   (outcome (run_flk env Xtr Xts Ytr Yts sigma penalty M num_iter err_fn (w, [])) = Inr (e, t) \<longrightarrow>
      Fit_Falkon Xtr Ytr Xts Yts
        \<in> set (trace_of (run_flk env Xtr Xts Ytr Yts sigma penalty M num_iter err_fn (w, []))))"
proof -
  have 1: "\<forall>l X y. Fit_SVC l X y \<in> set (trace_of (run_libsvm env Xtr Xts Ytr Yts sigma C err_fn (w, [])))
      \<longrightarrow> l = Sklearn \<and> X = numpy Xtr \<and> 2 \<le> length (shape Ytr) \<and> shape Ytr ! 1 \<noteq> 0 \<and>
          (\<exists>g w1 m w1' post.
              py_gamma sigma = Inr g \<and> sklearn_SVC env (svc_args C g) w = (w1, Inr m) \<and>
              tensor_argmax1 Ytr w1 = (w1', y) \<and>
              y = \<lparr>buf = next_free w1, shape = hd (shape Ytr) # drop 2 (shape Ytr)\<rparr> \<and>
              w1' = w1\<lparr>heap := (heap w1)(next_free w1
                                   := argmax_dim1 (shape Ytr) (heap w1 (buf Ytr))),
                       next_free := Suc (next_free w1)\<rparr> \<and>
              heap w1' (buf y) = argmax_dim1 (shape Ytr) (heap w1 (buf Ytr)) \<and>
              flatten w1' y = argmax_dim1 (shape Ytr) (heap w1 (buf Ytr)) \<and>
              trace_of (run_libsvm env Xtr Xts Ytr Yts sigma C err_fn (w, []))
                = [New_SVC Sklearn (svc_args C g), Time (now w1), ArgMax Ytr,
                   Fit_SVC Sklearn (numpy Xtr) y] @ post \<and>
              (case sklearn_fit env m (numpy Xtr) y w1' of
                 (w2, Inl ex) \<Rightarrow>
                    post = [Raised ex] \<and>
                    outcome (run_libsvm env Xtr Xts Ytr Yts sigma C err_fn (w, [])) = Inl ex \<and>
                    world_of (run_libsvm env Xtr Xts Ytr Yts sigma C err_fn (w, [])) = w2
               | (w2, Inr m') \<Rightarrow>
                    timestamps (trace_of (run_libsvm env Xtr Xts Ytr Yts sigma C err_fn (w, [])))
                      = [now w1, now w2]))"
    by (intro allI impI) (rule svc_fit_labels[OF libsvm_result])
  have 2: "\<forall>l X y. Fit_SVC l X y
        \<in> set (trace_of (run_thundersvm env Xtr Xts Ytr Yts sigma C err_fn (w, [])))
      \<longrightarrow> l = ThunderSVM \<and> X = numpy Xtr \<and> 2 \<le> length (shape Ytr) \<and> shape Ytr ! 1 \<noteq> 0 \<and>
          (\<exists>g w1 m w1' post.
              py_gamma sigma = Inr g \<and> thundersvm_SVC env (svc_args C g) w = (w1, Inr m) \<and>
              tensor_argmax1 Ytr w1 = (w1', y) \<and>
              y = \<lparr>buf = next_free w1, shape = hd (shape Ytr) # drop 2 (shape Ytr)\<rparr> \<and>
              w1' = w1\<lparr>heap := (heap w1)(next_free w1
                                   := argmax_dim1 (shape Ytr) (heap w1 (buf Ytr))),
                       next_free := Suc (next_free w1)\<rparr> \<and>
              heap w1' (buf y) = argmax_dim1 (shape Ytr) (heap w1 (buf Ytr)) \<and>
              flatten w1' y = argmax_dim1 (shape Ytr) (heap w1 (buf Ytr)) \<and>
              trace_of (run_thundersvm env Xtr Xts Ytr Yts sigma C err_fn (w, []))
                = [New_SVC ThunderSVM (svc_args C g), Time (now w1), ArgMax Ytr,
                   Fit_SVC ThunderSVM (numpy Xtr) y] @ post \<and>
              (case thundersvm_fit env m (numpy Xtr) y w1' of
                 (w2, Inl ex) \<Rightarrow>
                    post = [Raised ex] \<and>
                    outcome (run_thundersvm env Xtr Xts Ytr Yts sigma C err_fn (w, [])) = Inl ex \<and>
                    world_of (run_thundersvm env Xtr Xts Ytr Yts sigma C err_fn (w, [])) = w2
               | (w2, Inr m') \<Rightarrow>
                    timestamps (trace_of
                        (run_thundersvm env Xtr Xts Ytr Yts sigma C err_fn (w, [])))
                      = [now w1, now w2]))"
    by (intro allI impI) (rule svc_fit_labels[OF thundersvm_result])
  have 3: "\<forall>X Y Xt Yt. Fit_Falkon X Y Xt Yt
        \<in> set (trace_of (run_flk env Xtr Xts Ytr Yts sigma penalty M num_iter err_fn (w, [])))
      \<longrightarrow> X = Xtr \<and> Y = Ytr \<and> Xt = Xts \<and> Yt = Yts \<and>
          (\<exists>k w1 m w2 post.
              GaussianKernel env sigma w = (w1, Inr k) \<and>
              Falkon env (falkon_args k penalty M num_iter err_fn) w1 = (w2, Inr m) \<and>
              trace_of (run_flk env Xtr Xts Ytr Yts sigma penalty M num_iter err_fn (w, []))
                = [New_GaussianKernel sigma,
                   New_Falkon (falkon_args k penalty M num_iter err_fn),
                   Time (now w2), Fit_Falkon Xtr Ytr Xts Yts] @ post \<and>
              (case falkon_fit env m Xtr Ytr Xts Yts w2 of
                 (w3, Inl ex) \<Rightarrow>
                    post = [Raised ex] \<and>
                    outcome (run_flk env Xtr Xts Ytr Yts sigma penalty M num_iter err_fn (w, []))
                      = Inl ex \<and>
                    world_of (run_flk env Xtr Xts Ytr Yts sigma penalty M num_iter err_fn (w, []))
                      = w3
               | (w3, Inr m') \<Rightarrow>
                    timestamps (trace_of
                        (run_flk env Xtr Xts Ytr Yts sigma penalty M num_iter err_fn (w, [])))
                      = [now w2, now w3]))"
  proof (intro allI impI)
    fix X Y Xt Yt
    assume m: "Fit_Falkon X Y Xt Yt
        \<in> set (trace_of (run_flk env Xtr Xts Ytr Yts sigma penalty M num_iter err_fn (w, [])))"
    note f = flk_fit_event[OF flk_result[of env Xtr Xts Ytr Yts sigma penalty M num_iter err_fn
          "(w, [])"] m]
    from f have a: "X = Xtr" "Y = Ytr" "Xt = Xts" "Yt = Yts" by simp_all
    from f have b: "\<exists>k w1 m w2 post.
              GaussianKernel env sigma w = (w1, Inr k) \<and>
              Falkon env (falkon_args k penalty M num_iter err_fn) w1 = (w2, Inr m) \<and>
              trace_of (run_flk env Xtr Xts Ytr Yts sigma penalty M num_iter err_fn (w, []))
                = [New_GaussianKernel sigma,
                   New_Falkon (falkon_args k penalty M num_iter err_fn),
                   Time (now w2), Fit_Falkon Xtr Ytr Xts Yts] @ post \<and>
              (case falkon_fit env m Xtr Ytr Xts Yts w2 of
                 (w3, Inl ex) \<Rightarrow>
                    post = [Raised ex] \<and>
                    outcome (run_flk env Xtr Xts Ytr Yts sigma penalty M num_iter err_fn (w, []))
                      = Inl ex \<and>
                    world_of (run_flk env Xtr Xts Ytr Yts sigma penalty M num_iter err_fn (w, []))
                      = w3
               | (w3, Inr m') \<Rightarrow>
                    timestamps (trace_of
                        (run_flk env Xtr Xts Ytr Yts sigma penalty M num_iter err_fn (w, [])))
                      = [now w2, now w3])"
      by (elim conjE)
    from a b show "X = Xtr \<and> Y = Ytr \<and> Xt = Xts \<and> Yt = Yts \<and>
          (\<exists>k w1 m w2 post.
              GaussianKernel env sigma w = (w1, Inr k) \<and>
              Falkon env (falkon_args k penalty M num_iter err_fn) w1 = (w2, Inr m) \<and>
              trace_of (run_flk env Xtr Xts Ytr Yts sigma penalty M num_iter err_fn (w, []))
                = [New_GaussianKernel sigma,
                   New_Falkon (falkon_args k penalty M num_iter err_fn),
                   Time (now w2), Fit_Falkon Xtr Ytr Xts Yts] @ post \<and>
              (case falkon_fit env m Xtr Ytr Xts Yts w2 of
                 (w3, Inl ex) \<Rightarrow>
                    post = [Raised ex] \<and>
                    outcome (run_flk env Xtr Xts Ytr Yts sigma penalty M num_iter err_fn (w, []))
                      = Inl ex \<and>
                    world_of (run_flk env Xtr Xts Ytr Yts sigma penalty M num_iter err_fn (w, []))
                      = w3
               | (w3, Inr m') \<Rightarrow>
                    timestamps (trace_of
                        (run_flk env Xtr Xts Ytr Yts sigma penalty M num_iter err_fn (w, [])))
                      = [now w2, now w3]))"
      by (intro conjI)
  qed
  have 4: "\<forall>Y. ArgMax Y
        \<notin> set (trace_of (run_flk env Xtr Xts Ytr Yts sigma penalty M num_iter err_fn (w, [])))"
    by (intro allI) (rule flk_no_argmax[OF flk_result])
  have 5: "\<forall>i<n. argmax_dim1 [n, k] d ! i
             = real (first_max_index (map (\<lambda>c. d ! (i * k + c)) [0..<k]))"
    by (intro allI impI) (rule argmax_dim1_matrix)
  have 6: "xs \<noteq> [] \<longrightarrow> first_max_index xs < length xs \<and>
                (\<forall>j<length xs. xs ! j \<le> xs ! first_max_index xs) \<and>
                (\<forall>j<first_max_index xs. xs ! j < xs ! first_max_index xs)"
    using first_max_index_spec[of xs] by simp
  have 7: "\<forall>c<k. first_max_index (map (\<lambda>j. if j = c then 1 else 0) [0..<k]) = c"
    by (intro allI impI) (rule first_max_index_one_hot)
  have 8: "outcome (run_libsvm env Xtr Xts Ytr Yts sigma C err_fn (w, [])) = Inr (e, t) \<longrightarrow>
      (\<exists>y. Fit_SVC Sklearn (numpy Xtr) y
              \<in> set (trace_of (run_libsvm env Xtr Xts Ytr Yts sigma C err_fn (w, []))))"
  proof (rule impI)
    assume h: "outcome (run_libsvm env Xtr Xts Ytr Yts sigma C err_fn (w, [])) = Inr (e, t)"
    from svc_success[OF libsvm_result[of env Xtr Xts Ytr Yts sigma C err_fn "(w, [])",
          unfolded h]]
    show "\<exists>y. Fit_SVC Sklearn (numpy Xtr) y
              \<in> set (trace_of (run_libsvm env Xtr Xts Ytr Yts sigma C err_fn (w, [])))"
      unfolding numpy_def by (elim exE conjE) (rule exI, simp)
  qed
  have 9: "outcome (run_thundersvm env Xtr Xts Ytr Yts sigma C err_fn (w, [])) = Inr (e, t) \<longrightarrow>
      (\<exists>y. Fit_SVC ThunderSVM (numpy Xtr) y
              \<in> set (trace_of (run_thundersvm env Xtr Xts Ytr Yts sigma C err_fn (w, []))))"
  proof (rule impI)
    assume h: "outcome (run_thundersvm env Xtr Xts Ytr Yts sigma C err_fn (w, [])) = Inr (e, t)"
    from svc_success[OF thundersvm_result[of env Xtr Xts Ytr Yts sigma C err_fn "(w, [])",
          unfolded h]]
    show "\<exists>y. Fit_SVC ThunderSVM (numpy Xtr) y
              \<in> set (trace_of (run_thundersvm env Xtr Xts Ytr Yts sigma C err_fn (w, [])))"
      unfolding numpy_def by (elim exE conjE) (rule exI, simp)
  qed
  have 10: "outcome (run_flk env Xtr Xts Ytr Yts sigma penalty M num_iter err_fn (w, []))
              = Inr (e, t) \<longrightarrow>
      Fit_Falkon Xtr Ytr Xts Yts
        \<in> set (trace_of (run_flk env Xtr Xts Ytr Yts sigma penalty M num_iter err_fn (w, [])))"
  proof (rule impI)
    assume h: "outcome (run_flk env Xtr Xts Ytr Yts sigma penalty M num_iter err_fn (w, []))
               = Inr (e, t)"
    from flk_success[OF flk_result[of env Xtr Xts Ytr Yts sigma penalty M num_iter err_fn
        "(w, [])", unfolded h]]
    show "Fit_Falkon Xtr Ytr Xts Yts
        \<in> set (trace_of (run_flk env Xtr Xts Ytr Yts sigma penalty M num_iter err_fn (w, [])))"
      by (elim exE conjE) simp
  qed
  from 1 2 3 4 5 6 7 8 9 10 show ?thesis by (intro conjI)
qed

text \<open>
  The stub runs on the dataset with the one-hot training labels of the classes 0, 1, 1, 1:
  the SVC's \<^verbatim>\<open>fit\<close> is given a new array, in the buffer 4 that was free, holding 0, 1, 1, 1
  in the world \<^verbatim>\<open>fit\<close> starts in; Falkon's \<^verbatim>\<open>fit\<close> the label matrix itself.
\<close>

theorem labels_passed_to_fit_witness:
  "Fit_SVC Sklearn X_train \<lparr>buf = 4, shape = [4]\<rparr>
     \<in> set (trace_of (run_libsvm demo_env X_train X_test Y_train Y_test (PyInt 15) (PyInt 100)
                       demo_err_fn (demo_world, []))) \<and>
   Fit_SVC ThunderSVM X_train \<lparr>buf = 4, shape = [4]\<rparr>
     \<in> set (trace_of (run_thundersvm demo_env X_train X_test Y_train Y_test (PyInt 15)
                       (PyInt 100) demo_err_fn (demo_world, []))) \<and>
   (\<exists>w1'. tensor_argmax1 Y_train demo_world = (w1', \<lparr>buf = 4, shape = [4]\<rparr>) \<and>
          heap w1' 4 = [0, 1, 1, 1] \<and>
          flatten w1' \<lparr>buf = 4, shape = [4]\<rparr> = [0, 1, 1, 1] \<and>
          heap w1' (buf Y_train) = heap demo_world (buf Y_train) \<and>
          (\<exists>post. trace_of (run_libsvm demo_env X_train X_test Y_train Y_test (PyInt 15)
                       (PyInt 100) demo_err_fn (demo_world, []))
                 = [New_SVC Sklearn (svc_args (PyInt 100)
                                       (Fin (5124095576030431 / 2305843009213693952))),
                    Time (now demo_world), ArgMax Y_train,
                    Fit_SVC Sklearn (numpy X_train) \<lparr>buf = 4, shape = [4]\<rparr>] @ post)) \<and>
   (\<exists>w1'. tensor_argmax1 Y_train demo_world = (w1', \<lparr>buf = 4, shape = [4]\<rparr>) \<and>
          heap w1' 4 = [0, 1, 1, 1] \<and>
          flatten w1' \<lparr>buf = 4, shape = [4]\<rparr> = [0, 1, 1, 1] \<and>
          (\<exists>post. trace_of (run_thundersvm demo_env X_train X_test Y_train Y_test (PyInt 15)
                       (PyInt 100) demo_err_fn (demo_world, []))
                 = [New_SVC ThunderSVM (svc_args (PyInt 100)
                                       (Fin (5124095576030431 / 2305843009213693952))),
                    Time (now demo_world), ArgMax Y_train,
                    Fit_SVC ThunderSVM (numpy X_train) \<lparr>buf = 4, shape = [4]\<rparr>] @ post)) \<and>
   Fit_Falkon X_train Y_train X_test Y_test
     \<in> set (trace_of (run_flk demo_env X_train X_test Y_train Y_test (PyInt 5)
                (PyFloat (Fin (1 / 1000000000))) (PyInt 20000) 1 demo_err_fn (demo_world, []))) \<and>
   (\<exists>k w1 m w2 post.
       GaussianKernel demo_env (PyInt 5) demo_world = (w1, Inr k) \<and>
       Falkon demo_env (falkon_args k (PyFloat (Fin (1 / 1000000000))) (PyInt 20000) 1
          demo_err_fn) w1 = (w2, Inr m) \<and>
       trace_of (run_flk demo_env X_train X_test Y_train Y_test (PyInt 5)
                (PyFloat (Fin (1 / 1000000000))) (PyInt 20000) 1 demo_err_fn (demo_world, []))
         = [New_GaussianKernel (PyInt 5),
            New_Falkon (falkon_args k (PyFloat (Fin (1 / 1000000000))) (PyInt 20000) 1
               demo_err_fn),
            Time (now w2), Fit_Falkon X_train Y_train X_test Y_test] @ post) \<and>
   (3 :: nat) < 4 \<and>
   argmax_dim1 [4, 2] [1, 0, 0, 1, 0, 1, 0, 1] ! 3
     = real (first_max_index (map (\<lambda>c. [1, 0, 0, 1, 0, 1, 0, 1] ! (3 * 2 + c)) [0..<2])) \<and>
   [0, 1 :: real] \<noteq> [] \<and> first_max_index [0, 1] < length [0, 1 :: real] \<and>
   (1 :: nat) < length [0, 1 :: real] \<and> [0, 1 :: real] ! 1 \<le> [0, 1] ! first_max_index [0, 1] \<and>
   (1 :: nat) < 2 \<and> first_max_index (map (\<lambda>j. if j = (1 :: nat) then 1 else 0) [0..<2]) = 1 \<and>
   outcome (run_libsvm demo_env X_train X_test Y_train Y_test (PyInt 15) (PyInt 100)
             demo_err_fn (demo_world, [])) = Inr (Fin (1345 / 10000), 66099 / 100) \<and>
   outcome (run_thundersvm demo_env X_train X_test Y_train Y_test (PyInt 15) (PyInt 100)
             demo_err_fn (demo_world, [])) = Inr (Fin (1345 / 10000), 391 / 20) \<and>
   outcome (run_flk demo_env X_train X_test Y_train Y_test (PyInt 5)
             (PyFloat (Fin (1 / 1000000000))) (PyInt 20000) 1 demo_err_fn (demo_world, []))
     = Inr (Fin (1345 / 10000), 6) \<and>
   (\<exists>y. Fit_SVC Sklearn (numpy X_train) y
     \<in> set (trace_of (run_libsvm demo_env X_train X_test Y_train Y_test (PyInt 15) (PyInt 100)
                       demo_err_fn (demo_world, [])))) \<and>
   (\<exists>y. Fit_SVC ThunderSVM (numpy X_train) y
     \<in> set (trace_of (run_thundersvm demo_env X_train X_test Y_train Y_test (PyInt 15)
                       (PyInt 100) demo_err_fn (demo_world, []))))"
proof -
  note svc = labels_passed_to_fit[where env = demo_env and Xtr = X_train and Xts = X_test
      and Ytr = Y_train and Yts = Y_test and sigma = "PyInt 15" and C = "PyInt 100"
      and err_fn = demo_err_fn and w = demo_world and xs = "[0, 1]" and k = 2 and n = 4
      and d = "[1, 0, 0, 1, 0, 1, 0, 1]" and e = "Fin (1345 / 10000)"
      and penalty = "PyFloat (Fin (1 / 1000000000))" and M = "PyInt 20000" and num_iter = 1]
  note flk = labels_passed_to_fit[where env = demo_env and Xtr = X_train and Xts = X_test
      and Ytr = Y_train and Yts = Y_test and sigma = "PyInt 5" and C = "PyInt 100"
      and err_fn = demo_err_fn and w = demo_world and xs = "[0, 1]" and k = 2 and n = 4
      and d = "[1, 0, 0, 1, 0, 1, 0, 1]" and e = "Fin (1345 / 10000)" and t = 6
      and penalty = "PyFloat (Fin (1 / 1000000000))" and M = "PyInt 20000" and num_iter = 1]
  have m1: "Fit_SVC Sklearn X_train \<lparr>buf = 4, shape = [4]\<rparr>
     \<in> set (trace_of (run_libsvm demo_env X_train X_test Y_train Y_test (PyInt 15) (PyInt 100)
                       demo_err_fn (demo_world, [])))"
    by (simp add: demo_libsvm_run trace_of_def)
  have m2: "Fit_SVC ThunderSVM X_train \<lparr>buf = 4, shape = [4]\<rparr>
     \<in> set (trace_of (run_thundersvm demo_env X_train X_test Y_train Y_test (PyInt 15)
                       (PyInt 100) demo_err_fn (demo_world, [])))"
    by (simp add: demo_thundersvm_run trace_of_def)
  have new1: "sklearn_SVC demo_env (svc_args (PyInt 100) g) demo_world = (demo_world, Inr 1)"
    for g by (simp add: demo_env_def stub_new_def svc_args_def)
  have new2: "thundersvm_SVC demo_env (svc_args (PyInt 100) g) demo_world = (demo_world, Inr 1)"
    for g by (simp add: demo_env_def stub_new_def svc_args_def)
  have lab: "argmax_dim1 (shape Y_train) (heap demo_world (buf Y_train)) = [0, 1, 1, 1]"
    by (simp add: Y_train_def demo_world_def demo_labels)
  have nf: "next_free demo_world \<noteq> buf Y_train"
    by (simp add: Y_train_def demo_world_def)
  from svc[where t = "66099 / 100", THEN conjunct1, rule_format, OF m1]
  have s1: "\<exists>w1'. tensor_argmax1 Y_train demo_world = (w1', \<lparr>buf = 4, shape = [4]\<rparr>) \<and>
          heap w1' 4 = [0, 1, 1, 1] \<and>
          flatten w1' \<lparr>buf = 4, shape = [4]\<rparr> = [0, 1, 1, 1] \<and>
          heap w1' (buf Y_train) = heap demo_world (buf Y_train) \<and>
          (\<exists>post. trace_of (run_libsvm demo_env X_train X_test Y_train Y_test (PyInt 15)
                       (PyInt 100) demo_err_fn (demo_world, []))
                 = [New_SVC Sklearn (svc_args (PyInt 100)
                                       (Fin (5124095576030431 / 2305843009213693952))),
                    Time (now demo_world), ArgMax Y_train,
                    Fit_SVC Sklearn (numpy X_train) \<lparr>buf = 4, shape = [4]\<rparr>] @ post)"
    using nf by (auto simp: new1 py_gamma_15 lab)
  from svc[where t = "391 / 20", THEN conjunct2, THEN conjunct1, rule_format, OF m2]
  have s2: "\<exists>w1'. tensor_argmax1 Y_train demo_world = (w1', \<lparr>buf = 4, shape = [4]\<rparr>) \<and>
          heap w1' 4 = [0, 1, 1, 1] \<and>
          flatten w1' \<lparr>buf = 4, shape = [4]\<rparr> = [0, 1, 1, 1] \<and>
          (\<exists>post. trace_of (run_thundersvm demo_env X_train X_test Y_train Y_test (PyInt 15)
                       (PyInt 100) demo_err_fn (demo_world, []))
                 = [New_SVC ThunderSVM (svc_args (PyInt 100)
                                       (Fin (5124095576030431 / 2305843009213693952))),
                    Time (now demo_world), ArgMax Y_train,
                    Fit_SVC ThunderSVM (numpy X_train) \<lparr>buf = 4, shape = [4]\<rparr>] @ post)"
    by (auto simp: new2 py_gamma_15 lab)
  have m3: "Fit_Falkon X_train Y_train X_test Y_test
     \<in> set (trace_of (run_flk demo_env X_train X_test Y_train Y_test (PyInt 5)
                (PyFloat (Fin (1 / 1000000000))) (PyInt 20000) 1 demo_err_fn (demo_world, [])))"
    by (simp add: demo_flk_run trace_of_def)
  from flk[THEN conjunct2, THEN conjunct2, THEN conjunct1, rule_format, OF m3]
  have s3: "\<exists>k w1 m w2 post.
       GaussianKernel demo_env (PyInt 5) demo_world = (w1, Inr k) \<and>
       Falkon demo_env (falkon_args k (PyFloat (Fin (1 / 1000000000))) (PyInt 20000) 1
          demo_err_fn) w1 = (w2, Inr m) \<and>
       trace_of (run_flk demo_env X_train X_test Y_train Y_test (PyInt 5)
                (PyFloat (Fin (1 / 1000000000))) (PyInt 20000) 1 demo_err_fn (demo_world, []))
         = [New_GaussianKernel (PyInt 5),
            New_Falkon (falkon_args k (PyFloat (Fin (1 / 1000000000))) (PyInt 20000) 1
               demo_err_fn),
            Time (now w2), Fit_Falkon X_train Y_train X_test Y_test] @ post"
    by (elim conjE exE) (intro exI conjI, assumption+)
  have i: "(3 :: nat) < 4" by simp
  from svc[THEN conjunct2, THEN conjunct2, THEN conjunct2, THEN conjunct2, THEN conjunct1,
      rule_format, OF i]
  have ti: "argmax_dim1 [4, 2] [1, 0, 0, 1, 0, 1, 0, 1] ! 3
     = real (first_max_index (map (\<lambda>c. [1, 0, 0, 1, 0, 1, 0, 1] ! (3 * 2 + c)) [0..<2]))" .
  have n5: "[0, 1 :: real] \<noteq> []" by simp
  note fm = svc[THEN conjunct2, THEN conjunct2, THEN conjunct2, THEN conjunct2, THEN conjunct2,
      THEN conjunct1, rule_format, OF n5]
  from fm have n6: "first_max_index [0, 1] < length [0, 1 :: real]" by (rule conjunct1)
  have n6a: "(1 :: nat) < length [0, 1 :: real]" by simp
  from fm[THEN conjunct2, THEN conjunct1, rule_format, OF n6a]
  have n6b: "[0, 1 :: real] ! 1 \<le> [0, 1] ! first_max_index [0, 1]" .
  have n7: "(1 :: nat) < 2" by simp
  from svc[THEN conjunct2, THEN conjunct2, THEN conjunct2, THEN conjunct2, THEN conjunct2,
      THEN conjunct2, THEN conjunct1, rule_format, OF n7]
  have n8: "first_max_index (map (\<lambda>j. if j = (1 :: nat) then 1 else 0) [0..<2]) = 1" .
  have o1: "outcome (run_libsvm demo_env X_train X_test Y_train Y_test (PyInt 15) (PyInt 100)
      demo_err_fn (demo_world, [])) = Inr (Fin (1345 / 10000), 66099 / 100)"
    by (simp add: demo_libsvm_run outcome_def)
  have o2: "outcome (run_thundersvm demo_env X_train X_test Y_train Y_test (PyInt 15) (PyInt 100)
      demo_err_fn (demo_world, [])) = Inr (Fin (1345 / 10000), 391 / 20)"
    by (simp add: demo_thundersvm_run outcome_def)
  have o3: "outcome (run_flk demo_env X_train X_test Y_train Y_test (PyInt 5)
      (PyFloat (Fin (1 / 1000000000))) (PyInt 20000) 1 demo_err_fn (demo_world, []))
     = Inr (Fin (1345 / 10000), 6)"
    by (simp add: demo_flk_run outcome_def)
  note e1 = svc[where t = "66099 / 100", THEN conjunct2, THEN conjunct2, THEN conjunct2,
      THEN conjunct2, THEN conjunct2, THEN conjunct2, THEN conjunct2, THEN conjunct1,
      rule_format, OF o1]
  note e2 = svc[where t = "391 / 20", THEN conjunct2, THEN conjunct2, THEN conjunct2,
      THEN conjunct2, THEN conjunct2, THEN conjunct2, THEN conjunct2, THEN conjunct2,
      THEN conjunct1, rule_format, OF o2]
  note e3 = flk[THEN conjunct2, THEN conjunct2, THEN conjunct2,
      THEN conjunct2, THEN conjunct2, THEN conjunct2, THEN conjunct2, THEN conjunct2,
      THEN conjunct2, rule_format, OF o3]
  from m1 m2 s1 s2 e3 s3 i ti n5 n6 n6a n6b n7 n8 o1 o2 o3 e1 e2 show ?thesis
    by (intro conjI)
qed

text \<open>
  C5, as the claim states it, fails: \<^verbatim>\<open>time.time()\<close> is the system's wall clock, not a
  monotonic clock. On a machine whose clock is set back by 670 seconds while \<^verbatim>\<open>fit\<close> runs
  for 660.99 seconds, \<^verbatim>\<open>run_libsvm\<close> reports an elapsed time of -9.01 seconds.
\<close>

theorem elapsed_nonnegative_counterexample:
  "outcome (run_libsvm clock_set_back_env X_train X_test Y_train Y_test (PyInt 15) (PyInt 100)
      demo_err_fn (demo_world, [])) = Inr (Fin (1345 / 10000), - (901 / 100)) \<and>
   \<not> (0 :: real) \<le> - (901 / 100)"
  by (simp add: clock_set_back_run outcome_def)

text \<open>
  C5, amended. For every runner call that returns, the reported elapsed time is the second
  reading of \<^verbatim>\<open>time.time()\<close> minus the first one, and these are the only two readings the
  runner takes. It is non-negative exactly when the second reading is not below the
  first, which is the case when no library operation sets the clock back.
\<close>

theorem elapsed_is_difference:
  "(outcome (run_libsvm env Xtr Xts Ytr Yts sigma C err_fn (w, [])) = Inr (e, t) \<longrightarrow>
      (\<exists>t_s t_e.
          timestamps (trace_of (run_libsvm env Xtr Xts Ytr Yts sigma C err_fn (w, [])))
            = [t_s, t_e] \<and>
          t = t_e - t_s \<and> (0 \<le> t \<longleftrightarrow> t_s \<le> t_e) \<and>
          (clock_never_set_back env err_fn \<longrightarrow> 0 \<le> t))) \<and>
   (outcome (run_thundersvm env Xtr Xts Ytr Yts sigma C err_fn (w, [])) = Inr (e, t) \<longrightarrow>
      (\<exists>t_s t_e.
          timestamps (trace_of (run_thundersvm env Xtr Xts Ytr Yts sigma C err_fn (w, [])))
            = [t_s, t_e] \<and>
          t = t_e - t_s \<and> (0 \<le> t \<longleftrightarrow> t_s \<le> t_e) \<and>
          (clock_never_set_back env err_fn \<longrightarrow> 0 \<le> t))) \<and>
   (outcome (run_flk env Xtr Xts Ytr Yts sigma penalty M num_iter err_fn (w, [])) = Inr (e, t) \<longrightarrow>
      (\<exists>t_s t_e.
          timestamps (trace_of (run_flk env Xtr Xts Ytr Yts sigma penalty M num_iter err_fn (w, [])))
            = [t_s, t_e] \<and>
          t = t_e - t_s \<and> (0 \<le> t \<longleftrightarrow> t_s \<le> t_e) \<and>
          (clock_never_set_back env err_fn \<longrightarrow> 0 \<le> t)))"
proof (intro conjI impI)
  assume h: "outcome (run_libsvm env Xtr Xts Ytr Yts sigma C err_fn (w, [])) = Inr (e, t)"
  from svc_elapsed[OF libsvm_result[of env Xtr Xts Ytr Yts sigma C err_fn "(w, [])", unfolded h]]
  show "\<exists>t_s t_e.
          timestamps (trace_of (run_libsvm env Xtr Xts Ytr Yts sigma C err_fn (w, [])))
            = [t_s, t_e] \<and>
          t = t_e - t_s \<and> (0 \<le> t \<longleftrightarrow> t_s \<le> t_e) \<and>
          (clock_never_set_back env err_fn \<longrightarrow> 0 \<le> t)"
    by (auto simp: clock_never_set_back_def libraries_keep_def)
next
  assume h: "outcome (run_thundersvm env Xtr Xts Ytr Yts sigma C err_fn (w, [])) = Inr (e, t)"
  from svc_elapsed[OF thundersvm_result[of env Xtr Xts Ytr Yts sigma C err_fn "(w, [])",
        unfolded h]]
  show "\<exists>t_s t_e.
          timestamps (trace_of (run_thundersvm env Xtr Xts Ytr Yts sigma C err_fn (w, [])))
            = [t_s, t_e] \<and>
          t = t_e - t_s \<and> (0 \<le> t \<longleftrightarrow> t_s \<le> t_e) \<and>
          (clock_never_set_back env err_fn \<longrightarrow> 0 \<le> t)"
    by (auto simp: clock_never_set_back_def libraries_keep_def)
next
  assume h: "outcome (run_flk env Xtr Xts Ytr Yts sigma penalty M num_iter err_fn (w, []))
               = Inr (e, t)"
  from flk_elapsed[OF flk_result[of env Xtr Xts Ytr Yts sigma penalty M num_iter err_fn
        "(w, [])", unfolded h]]
  show "\<exists>t_s t_e.
          timestamps (trace_of (run_flk env Xtr Xts Ytr Yts sigma penalty M num_iter err_fn (w, [])))
            = [t_s, t_e] \<and>
          t = t_e - t_s \<and> (0 \<le> t \<longleftrightarrow> t_s \<le> t_e) \<and>
          (clock_never_set_back env err_fn \<longrightarrow> 0 \<le> t)"
    by (auto simp: clock_never_set_back_def libraries_keep_def)
qed

text \<open>
  The stub library never sets the clock back. The \<^verbatim>\<open>fit\<close> of \<^verbatim>\<open>run_libsvm\<close> takes 660.99
  seconds, between the readings 100 and 760.99; the one of \<^verbatim>\<open>run_thundersvm\<close> 19.55 seconds
  and the one of \<^verbatim>\<open>run_flk\<close> 6 seconds.
\<close>

theorem elapsed_is_difference_witness:
  "outcome (run_libsvm demo_env X_train X_test Y_train Y_test (PyInt 15) (PyInt 100) demo_err_fn
      (demo_world, [])) = Inr (Fin (1345 / 10000), 66099 / 100) \<and>
   outcome (run_thundersvm demo_env X_train X_test Y_train Y_test (PyInt 15) (PyInt 100)
      demo_err_fn (demo_world, [])) = Inr (Fin (1345 / 10000), 391 / 20) \<and>
   outcome (run_flk demo_env X_train X_test Y_train Y_test (PyInt 5) (PyFloat (Fin (1 / 1000000000)))
      (PyInt 20000) 1 demo_err_fn (demo_world, [])) = Inr (Fin (1345 / 10000), 6) \<and>
   clock_never_set_back demo_env demo_err_fn \<and>
   (\<exists>t_s t_e.
       timestamps (trace_of (run_libsvm demo_env X_train X_test Y_train Y_test (PyInt 15)
                     (PyInt 100) demo_err_fn (demo_world, []))) = [t_s, t_e] \<and>
       (66099 / 100 :: real) = t_e - t_s \<and> t_s \<le> t_e) \<and>
   (\<exists>t_s t_e.
       timestamps (trace_of (run_thundersvm demo_env X_train X_test Y_train Y_test (PyInt 15)
                     (PyInt 100) demo_err_fn (demo_world, []))) = [t_s, t_e] \<and>
       (391 / 20 :: real) = t_e - t_s \<and> t_s \<le> t_e) \<and>
   (\<exists>t_s t_e.
       timestamps (trace_of (run_flk demo_env X_train X_test Y_train Y_test (PyInt 5)
                     (PyFloat (Fin (1 / 1000000000))) (PyInt 20000) 1 demo_err_fn (demo_world, [])))
         = [t_s, t_e] \<and>
       (6 :: real) = t_e - t_s \<and> t_s \<le> t_e) \<and>
   (0 :: real) \<le> 66099 / 100"
proof -
  have 1: "outcome (run_libsvm demo_env X_train X_test Y_train Y_test (PyInt 15) (PyInt 100)
      demo_err_fn (demo_world, [])) = Inr (Fin (1345 / 10000), 66099 / 100)"
    by (simp add: demo_libsvm_run outcome_def)
  have 2: "outcome (run_thundersvm demo_env X_train X_test Y_train Y_test (PyInt 15) (PyInt 100)
      demo_err_fn (demo_world, [])) = Inr (Fin (1345 / 10000), 391 / 20)"
    by (simp add: demo_thundersvm_run outcome_def)
  have 3: "outcome (run_flk demo_env X_train X_test Y_train Y_test (PyInt 5)
      (PyFloat (Fin (1 / 1000000000))) (PyInt 20000) 1 demo_err_fn (demo_world, []))
      = Inr (Fin (1345 / 10000), 6)"
    by (simp add: demo_flk_run outcome_def)
  have c: "clock_never_set_back demo_env demo_err_fn"
    by (simp add: clock_never_set_back_def libraries_keep_def keeps_def demo_env_def
        demo_err_fn_def stub_predict_def stub_new_def alloc_def)
  from elapsed_is_difference[where env = demo_env and Xtr = X_train and Xts = X_test
      and Ytr = Y_train and Yts = Y_test and sigma = "PyInt 15" and C = "PyInt 100"
      and err_fn = demo_err_fn and w = demo_world and e = "Fin (1345 / 10000)" and t = "66099 / 100"
      and penalty = "PyFloat (Fin (1 / 1000000000))" and M = "PyInt 20000" and num_iter = 1,
      THEN conjunct1, rule_format, OF 1] c
  have 4: "\<exists>t_s t_e.
       timestamps (trace_of (run_libsvm demo_env X_train X_test Y_train Y_test (PyInt 15)
                     (PyInt 100) demo_err_fn (demo_world, []))) = [t_s, t_e] \<and>
       (66099 / 100 :: real) = t_e - t_s \<and> t_s \<le> t_e"
    by blast
  from elapsed_is_difference[where env = demo_env and Xtr = X_train and Xts = X_test
      and Ytr = Y_train and Yts = Y_test and sigma = "PyInt 15" and C = "PyInt 100"
      and err_fn = demo_err_fn and w = demo_world and e = "Fin (1345 / 10000)" and t = "391 / 20"
      and penalty = "PyFloat (Fin (1 / 1000000000))" and M = "PyInt 20000" and num_iter = 1,
      THEN conjunct2, THEN conjunct1, rule_format, OF 2] c
  have 5: "\<exists>t_s t_e.
       timestamps (trace_of (run_thundersvm demo_env X_train X_test Y_train Y_test (PyInt 15)
                     (PyInt 100) demo_err_fn (demo_world, []))) = [t_s, t_e] \<and>
       (391 / 20 :: real) = t_e - t_s \<and> t_s \<le> t_e"
    by blast
  from elapsed_is_difference[where env = demo_env and Xtr = X_train and Xts = X_test
      and Ytr = Y_train and Yts = Y_test and sigma = "PyInt 5" and C = "PyInt 100"
      and err_fn = demo_err_fn and w = demo_world and e = "Fin (1345 / 10000)" and t = 6
      and penalty = "PyFloat (Fin (1 / 1000000000))" and M = "PyInt 20000" and num_iter = 1,
      THEN conjunct2, THEN conjunct2, rule_format, OF 3] c
  have 6: "\<exists>t_s t_e.
       timestamps (trace_of (run_flk demo_env X_train X_test Y_train Y_test (PyInt 5)
                     (PyFloat (Fin (1 / 1000000000))) (PyInt 20000) 1 demo_err_fn (demo_world, [])))
         = [t_s, t_e] \<and>
       (6 :: real) = t_e - t_s \<and> t_s \<le> t_e"
    by blast
  have 7: "(0 :: real) \<le> 66099 / 100" by simp
  from 1 2 3 c 4 5 6 7 show ?thesis by (intro conjI)
qed




text \<open>
  C7. A runner does nothing about exceptions but let them through. In every call of a
  runner: when the outcome is an exception, it is the one exception that was raised, it
  is the last thing that happened, and nothing has been printed; when the outcome is a
  result, no exception was raised; and no constructor, \<^verbatim>\<open>fit\<close> or \<^verbatim>\<open>predict\<close> is called a
  second time. In particular an exception raised by the solver's constructor or by its
  \<^verbatim>\<open>fit\<close> is the outcome of the runner, in the world the solver left.
\<close>

theorem exceptions_propagate:
  "fails_cleanly (run_libsvm env Xtr Xts Ytr Yts sigma C err_fn (w, [])) \<and>
   fails_cleanly (run_thundersvm env Xtr Xts Ytr Yts sigma C err_fn (w, [])) \<and>
   fails_cleanly (run_flk env Xtr Xts Ytr Yts sigma penalty M num_iter err_fn (w, [])) \<and>
   (\<forall>g w1 ex. py_gamma sigma = Inr g \<and>
        sklearn_SVC env (svc_args C g) w = (w1, Inl ex) \<longrightarrow>
        outcome (run_libsvm env Xtr Xts Ytr Yts sigma C err_fn (w, [])) = Inl ex \<and>
        world_of (run_libsvm env Xtr Xts Ytr Yts sigma C err_fn (w, [])) = w1) \<and>
   (\<forall>g w1 m w1' y w2 ex. py_gamma sigma = Inr g \<and>
        sklearn_SVC env (svc_args C g) w = (w1, Inr m) \<and>
        2 \<le> length (shape Ytr) \<and> shape Ytr ! 1 \<noteq> 0 \<and>
        tensor_argmax1 Ytr w1 = (w1', y) \<and>
        sklearn_fit env m (numpy Xtr) y w1' = (w2, Inl ex) \<longrightarrow>
        outcome (run_libsvm env Xtr Xts Ytr Yts sigma C err_fn (w, [])) = Inl ex \<and>
        world_of (run_libsvm env Xtr Xts Ytr Yts sigma C err_fn (w, [])) = w2) \<and>
   (\<forall>g w1 m w1' y w2 ex. py_gamma sigma = Inr g \<and>
        thundersvm_SVC env (svc_args C g) w = (w1, Inr m) \<and>
        2 \<le> length (shape Ytr) \<and> shape Ytr ! 1 \<noteq> 0 \<and>
        tensor_argmax1 Ytr w1 = (w1', y) \<and>
        thundersvm_fit env m (numpy Xtr) y w1' = (w2, Inl ex) \<longrightarrow>
        outcome (run_thundersvm env Xtr Xts Ytr Yts sigma C err_fn (w, [])) = Inl ex \<and>
        world_of (run_thundersvm env Xtr Xts Ytr Yts sigma C err_fn (w, [])) = w2) \<and>
   (\<forall>w1 k w2 ex.
        GaussianKernel env sigma w = (w1, Inr k) \<and>
        Falkon env (falkon_args k penalty M num_iter err_fn) w1 = (w2, Inl ex) \<longrightarrow>
        outcome (run_flk env Xtr Xts Ytr Yts sigma penalty M num_iter err_fn (w, [])) = Inl ex \<and>
        world_of (run_flk env Xtr Xts Ytr Yts sigma penalty M num_iter err_fn (w, [])) = w2) \<and>
   (\<forall>g w1 ex. py_gamma sigma = Inr g \<and>
        thundersvm_SVC env (svc_args C g) w = (w1, Inl ex) \<longrightarrow>
        outcome (run_thundersvm env Xtr Xts Ytr Yts sigma C err_fn (w, [])) = Inl ex \<and>
        world_of (run_thundersvm env Xtr Xts Ytr Yts sigma C err_fn (w, [])) = w1) \<and>
   (\<forall>w1 k w2 m w3 ex.
        GaussianKernel env sigma w = (w1, Inr k) \<and>
        Falkon env (falkon_args k penalty M num_iter err_fn) w1 = (w2, Inr m) \<and>
        falkon_fit env m Xtr Ytr Xts Yts w2 = (w3, Inl ex) \<longrightarrow>
        outcome (run_flk env Xtr Xts Ytr Yts sigma penalty M num_iter err_fn (w, [])) = Inl ex \<and>
        world_of (run_flk env Xtr Xts Ytr Yts sigma penalty M num_iter err_fn (w, [])) = w3)"
proof (intro conjI allI impI)
  show "fails_cleanly (run_libsvm env Xtr Xts Ytr Yts sigma C err_fn (w, []))"
    unfolding run_libsvm_svc_runner by (rule svc_fails_cleanly)
  show "fails_cleanly (run_thundersvm env Xtr Xts Ytr Yts sigma C err_fn (w, []))"
    unfolding run_thundersvm_svc_runner by (rule svc_fails_cleanly)
  show "fails_cleanly (run_flk env Xtr Xts Ytr Yts sigma penalty M num_iter err_fn (w, []))"
    by (rule flk_fails_cleanly)
next
  fix g w1 ex
  assume a: "py_gamma sigma = Inr g \<and> sklearn_SVC env (svc_args C g) w = (w1, Inl ex)"
  then have r: "run_libsvm env Xtr Xts Ytr Yts sigma C err_fn (w, [])
      = ((w1, [New_SVC Sklearn (svc_args C g), Raised ex]), Inl ex)"
    unfolding run_libsvm_svc_runner by (elim conjE) (rule svc_new_raises; assumption)
  show "outcome (run_libsvm env Xtr Xts Ytr Yts sigma C err_fn (w, [])) = Inl ex"
    by (simp add: r outcome_def)
  show "world_of (run_libsvm env Xtr Xts Ytr Yts sigma C err_fn (w, [])) = w1"
    by (simp add: r world_of_def)
next
  fix g w1 m w1' y w2 ex
  assume a: "py_gamma sigma = Inr g \<and>
        sklearn_SVC env (svc_args C g) w = (w1, Inr m) \<and>
        2 \<le> length (shape Ytr) \<and> shape Ytr ! 1 \<noteq> 0 \<and>
        tensor_argmax1 Ytr w1 = (w1', y) \<and>
        sklearn_fit env m (numpy Xtr) y w1' = (w2, Inl ex)"
  then have r: "run_libsvm env Xtr Xts Ytr Yts sigma C err_fn (w, [])
      = ((w2, [New_SVC Sklearn (svc_args C g),
              Time (now w1), ArgMax Ytr, Fit_SVC Sklearn Xtr y, Raised ex]), Inl ex)"
    unfolding run_libsvm_svc_runner numpy_def
    by (elim conjE) (rule svc_fit_raises; assumption)
  show "outcome (run_libsvm env Xtr Xts Ytr Yts sigma C err_fn (w, [])) = Inl ex"
    by (simp add: r outcome_def)
  show "world_of (run_libsvm env Xtr Xts Ytr Yts sigma C err_fn (w, [])) = w2"
    by (simp add: r world_of_def)
next
  fix g w1 m w1' y w2 ex
  assume a: "py_gamma sigma = Inr g \<and>
        thundersvm_SVC env (svc_args C g) w = (w1, Inr m) \<and>
        2 \<le> length (shape Ytr) \<and> shape Ytr ! 1 \<noteq> 0 \<and>
        tensor_argmax1 Ytr w1 = (w1', y) \<and>
        thundersvm_fit env m (numpy Xtr) y w1' = (w2, Inl ex)"
  then have r: "run_thundersvm env Xtr Xts Ytr Yts sigma C err_fn (w, [])
      = ((w2, [New_SVC ThunderSVM (svc_args C g),
              Time (now w1), ArgMax Ytr, Fit_SVC ThunderSVM Xtr y, Raised ex]), Inl ex)"
    unfolding run_thundersvm_svc_runner numpy_def
    by (elim conjE) (rule svc_fit_raises; assumption)
  show "outcome (run_thundersvm env Xtr Xts Ytr Yts sigma C err_fn (w, [])) = Inl ex"
    by (simp add: r outcome_def)
  show "world_of (run_thundersvm env Xtr Xts Ytr Yts sigma C err_fn (w, [])) = w2"
    by (simp add: r world_of_def)
next
  fix w1 k w2 ex
  assume a: "GaussianKernel env sigma w = (w1, Inr k) \<and>
        Falkon env (falkon_args k penalty M num_iter err_fn) w1 = (w2, Inl ex)"
  then have r: "run_flk env Xtr Xts Ytr Yts sigma penalty M num_iter err_fn (w, [])
     = ((w2, [New_GaussianKernel sigma, New_Falkon (falkon_args k penalty M num_iter err_fn),
              Raised ex]), Inl ex)"
    by (elim conjE) (rule flk_new_raises; assumption)
  show "outcome (run_flk env Xtr Xts Ytr Yts sigma penalty M num_iter err_fn (w, [])) = Inl ex"
    by (simp add: r outcome_def)
  show "world_of (run_flk env Xtr Xts Ytr Yts sigma penalty M num_iter err_fn (w, [])) = w2"
    by (simp add: r world_of_def)
next
  fix g w1 ex
  assume a: "py_gamma sigma = Inr g \<and> thundersvm_SVC env (svc_args C g) w = (w1, Inl ex)"
  then have r: "run_thundersvm env Xtr Xts Ytr Yts sigma C err_fn (w, [])
      = ((w1, [New_SVC ThunderSVM (svc_args C g), Raised ex]), Inl ex)"
    unfolding run_thundersvm_svc_runner by (elim conjE) (rule svc_new_raises; assumption)
  show "outcome (run_thundersvm env Xtr Xts Ytr Yts sigma C err_fn (w, [])) = Inl ex"
    by (simp add: r outcome_def)
  show "world_of (run_thundersvm env Xtr Xts Ytr Yts sigma C err_fn (w, [])) = w1"
    by (simp add: r world_of_def)
next
  fix w1 k w2 m w3 ex
  assume a: "GaussianKernel env sigma w = (w1, Inr k) \<and>
        Falkon env (falkon_args k penalty M num_iter err_fn) w1 = (w2, Inr m) \<and>
        falkon_fit env m Xtr Ytr Xts Yts w2 = (w3, Inl ex)"
  then have r: "run_flk env Xtr Xts Ytr Yts sigma penalty M num_iter err_fn (w, [])
     = ((w3, [New_GaussianKernel sigma, New_Falkon (falkon_args k penalty M num_iter err_fn),
              Time (now w2), Fit_Falkon Xtr Ytr Xts Yts, Raised ex]), Inl ex)"
    by (elim conjE) (rule flk_fit_raises; assumption)
  show "outcome (run_flk env Xtr Xts Ytr Yts sigma penalty M num_iter err_fn (w, [])) = Inl ex"
    by (simp add: r outcome_def)
  show "world_of (run_flk env Xtr Xts Ytr Yts sigma penalty M num_iter err_fn (w, [])) = w3"
    by (simp add: r world_of_def)
qed

text \<open>
  The stub constructors that reject a hyperparameter: \<^verbatim>\<open>run_libsvm\<close> and \<^verbatim>\<open>run_flk\<close> end with
  that exception, in the world the constructor left. The stub solvers that run out of
  memory in \<^verbatim>\<open>fit\<close>: the three runners end with that exception, in \<^verbatim>\<open>run_libsvm\<close> raised
  once, after one call of \<^verbatim>\<open>fit\<close>, with nothing printed.
\<close>

theorem exceptions_propagate_witness:
  "py_gamma (PyInt 15) = Inr (Fin (5124095576030431 / 2305843009213693952)) \<and>
   sklearn_SVC rejecting_env
        (svc_args (PyInt 0) (Fin (5124095576030431 / 2305843009213693952))) demo_world
     = (demo_world, Inl (LibraryError ''invalid hyperparameter'')) \<and>
   outcome (run_libsvm rejecting_env X_train X_test Y_train Y_test (PyInt 15) (PyInt 0)
              demo_err_fn (demo_world, [])) = Inl (LibraryError ''invalid hyperparameter'') \<and>
   world_of (run_libsvm rejecting_env X_train X_test Y_train Y_test (PyInt 15) (PyInt 0)
              demo_err_fn (demo_world, [])) = demo_world \<and>
   GaussianKernel rejecting_env (PyInt 5) demo_world = (demo_world, Inr 0) \<and>
   Falkon rejecting_env (falkon_args 0 (PyFloat (Fin (1 / 1000000000))) (PyInt 0) 1 demo_err_fn)
        demo_world = (demo_world, Inl (LibraryError ''invalid hyperparameter'')) \<and>
   outcome (run_flk rejecting_env X_train X_test Y_train Y_test (PyInt 5)
              (PyFloat (Fin (1 / 1000000000))) (PyInt 0) 1 demo_err_fn (demo_world, []))
     = Inl (LibraryError ''invalid hyperparameter'') \<and>
   sklearn_SVC failing_env
        (svc_args (PyInt 100) (Fin (5124095576030431 / 2305843009213693952))) demo_world
     = (demo_world, Inr 1) \<and>
   thundersvm_SVC failing_env
        (svc_args (PyInt 100) (Fin (5124095576030431 / 2305843009213693952))) demo_world
     = (demo_world, Inr 1) \<and>
   2 \<le> length (shape Y_train) \<and> shape Y_train ! 1 \<noteq> 0 \<and>
   sklearn_fit failing_env 1 (numpy X_train) (snd (tensor_argmax1 Y_train demo_world))
        (fst (tensor_argmax1 Y_train demo_world))
     = (fst (tensor_argmax1 Y_train demo_world), Inl (LibraryError ''out of memory'')) \<and>
   thundersvm_fit failing_env 1 (numpy X_train) (snd (tensor_argmax1 Y_train demo_world))
        (fst (tensor_argmax1 Y_train demo_world))
     = (fst (tensor_argmax1 Y_train demo_world), Inl (LibraryError ''out of memory'')) \<and>
   outcome (run_libsvm failing_env X_train X_test Y_train Y_test (PyInt 15) (PyInt 100)
              demo_err_fn (demo_world, [])) = Inl (LibraryError ''out of memory'') \<and>
   outcome (run_thundersvm failing_env X_train X_test Y_train Y_test (PyInt 15) (PyInt 100)
              demo_err_fn (demo_world, [])) = Inl (LibraryError ''out of memory'') \<and>
   fails_cleanly (run_libsvm failing_env X_train X_test Y_train Y_test (PyInt 15) (PyInt 100)
              demo_err_fn (demo_world, [])) \<and>
   raised (trace_of (run_libsvm failing_env X_train X_test Y_train Y_test (PyInt 15) (PyInt 100)
              demo_err_fn (demo_world, []))) = [LibraryError ''out of memory''] \<and>
   printed (trace_of (run_libsvm failing_env X_train X_test Y_train Y_test (PyInt 15) (PyInt 100)
              demo_err_fn (demo_world, []))) = [] \<and>
   length (filter is_fit_call (trace_of (run_libsvm failing_env X_train X_test Y_train Y_test
              (PyInt 15) (PyInt 100) demo_err_fn (demo_world, [])))) = 1 \<and>
   thundersvm_SVC (rejecting_env\<lparr>thundersvm_SVC := sklearn_SVC rejecting_env\<rparr>)
        (svc_args (PyInt 0) (Fin (5124095576030431 / 2305843009213693952))) demo_world
     = (demo_world, Inl (LibraryError ''invalid hyperparameter'')) \<and>
   outcome (run_thundersvm (rejecting_env\<lparr>thundersvm_SVC := sklearn_SVC rejecting_env\<rparr>)
              X_train X_test Y_train Y_test (PyInt 15) (PyInt 0) demo_err_fn (demo_world, []))
     = Inl (LibraryError ''invalid hyperparameter'') \<and>
   GaussianKernel failing_env (PyInt 5) demo_world = (demo_world, Inr 0) \<and>
   Falkon failing_env (falkon_args 0 (PyFloat (Fin (1 / 1000000000))) (PyInt 20000) 1
        demo_err_fn) demo_world = (demo_world, Inr 0) \<and>
   falkon_fit failing_env 0 X_train Y_train X_test Y_test demo_world
     = (demo_world, Inl (LibraryError ''out of memory'')) \<and>
   outcome (run_flk failing_env X_train X_test Y_train Y_test (PyInt 5)
              (PyFloat (Fin (1 / 1000000000))) (PyInt 20000) 1 demo_err_fn (demo_world, []))
     = Inl (LibraryError ''out of memory'')"
proof -
  note rej = exceptions_propagate[where env = rejecting_env and Xtr = X_train and Xts = X_test
      and Ytr = Y_train and Yts = Y_test and C = "PyInt 0"
      and err_fn = demo_err_fn and w = demo_world
      and penalty = "PyFloat (Fin (1 / 1000000000))" and M = "PyInt 0" and num_iter = 1]
  note rejt = exceptions_propagate[where
      env = "rejecting_env\<lparr>thundersvm_SVC := sklearn_SVC rejecting_env\<rparr>"
      and Xtr = X_train and Xts = X_test
      and Ytr = Y_train and Yts = Y_test and sigma = "PyInt 15" and C = "PyInt 0"
      and err_fn = demo_err_fn and w = demo_world
      and penalty = "PyFloat (Fin (1 / 1000000000))" and M = "PyInt 0" and num_iter = 1]
  note inst = exceptions_propagate[where env = failing_env and Xtr = X_train and Xts = X_test
      and Ytr = Y_train and Yts = Y_test and sigma = "PyInt 15" and C = "PyInt 100"
      and err_fn = demo_err_fn and w = demo_world
      and penalty = "PyFloat (Fin (1 / 1000000000))" and M = "PyInt 20000" and num_iter = 1]
  note instf = exceptions_propagate[where env = failing_env and Xtr = X_train and Xts = X_test
      and Ytr = Y_train and Yts = Y_test and sigma = "PyInt 5" and C = "PyInt 100"
      and err_fn = demo_err_fn and w = demo_world
      and penalty = "PyFloat (Fin (1 / 1000000000))" and M = "PyInt 20000" and num_iter = 1]
  note a1 = py_gamma_15
  have r1: "sklearn_SVC rejecting_env
        (svc_args (PyInt 0) (Fin (5124095576030431 / 2305843009213693952))) demo_world
     = (demo_world, Inl (LibraryError ''invalid hyperparameter''))"
    by (simp add: rejecting_env_def demo_env_def)
  note r2 = rej[where sigma = "PyInt 15", THEN conjunct2, THEN conjunct2, THEN conjunct2,
      THEN conjunct1, rule_format, OF conjI[OF a1 r1]]
  from r2 have r3: "outcome (run_libsvm rejecting_env X_train X_test Y_train Y_test (PyInt 15)
      (PyInt 0) demo_err_fn (demo_world, [])) = Inl (LibraryError ''invalid hyperparameter'')"
    by (rule conjunct1)
  from r2 have r4: "world_of (run_libsvm rejecting_env X_train X_test Y_train Y_test (PyInt 15)
      (PyInt 0) demo_err_fn (demo_world, [])) = demo_world"
    by (rule conjunct2)
  have k1: "GaussianKernel rejecting_env (PyInt 5) demo_world = (demo_world, Inr 0)"
    by (simp add: rejecting_env_def demo_env_def)
  have k2: "Falkon rejecting_env (falkon_args 0 (PyFloat (Fin (1 / 1000000000))) (PyInt 0) 1
        demo_err_fn) demo_world = (demo_world, Inl (LibraryError ''invalid hyperparameter''))"
    by (simp add: rejecting_env_def demo_env_def)
  from rej[where sigma = "PyInt 5", THEN conjunct2, THEN conjunct2, THEN conjunct2,
      THEN conjunct2, THEN conjunct2, THEN conjunct2, THEN conjunct1, rule_format,
      OF conjI[OF k1 k2]]
  have k3: "outcome (run_flk rejecting_env X_train X_test Y_train Y_test (PyInt 5)
              (PyFloat (Fin (1 / 1000000000))) (PyInt 0) 1 demo_err_fn (demo_world, []))
     = Inl (LibraryError ''invalid hyperparameter'')"
    by (rule conjunct1)
  have a2: "sklearn_SVC failing_env
        (svc_args (PyInt 100) (Fin (5124095576030431 / 2305843009213693952))) demo_world
     = (demo_world, Inr 1)"
    by (simp add: failing_env_def demo_env_def stub_new_def svc_args_def)
  have b2: "thundersvm_SVC failing_env
        (svc_args (PyInt 100) (Fin (5124095576030431 / 2305843009213693952))) demo_world
     = (demo_world, Inr 1)"
    by (simp add: failing_env_def demo_env_def stub_new_def svc_args_def)
  have a3: "2 \<le> length (shape Y_train)" by (simp add: Y_train_def)
  have a4: "shape Y_train ! 1 \<noteq> 0" by (simp add: Y_train_def)
  have am: "tensor_argmax1 Y_train demo_world
       = (fst (tensor_argmax1 Y_train demo_world), snd (tensor_argmax1 Y_train demo_world))"
    by simp
  have a5: "sklearn_fit failing_env 1 (numpy X_train) (snd (tensor_argmax1 Y_train demo_world))
        (fst (tensor_argmax1 Y_train demo_world))
     = (fst (tensor_argmax1 Y_train demo_world), Inl (LibraryError ''out of memory''))"
    by (simp add: failing_env_def demo_env_def)
  have b5: "thundersvm_fit failing_env 1 (numpy X_train)
        (snd (tensor_argmax1 Y_train demo_world)) (fst (tensor_argmax1 Y_train demo_world))
     = (fst (tensor_argmax1 Y_train demo_world), Inl (LibraryError ''out of memory''))"
    by (simp add: failing_env_def demo_env_def)
  from inst[THEN conjunct2, THEN conjunct2, THEN conjunct2, THEN conjunct2, THEN conjunct1,
      rule_format, OF conjI[OF a1 conjI[OF a2 conjI[OF a3 conjI[OF a4 conjI[OF am a5]]]]]]
  have 2: "outcome (run_libsvm failing_env X_train X_test Y_train Y_test (PyInt 15) (PyInt 100)
              demo_err_fn (demo_world, [])) = Inl (LibraryError ''out of memory'')"
    by (rule conjunct1)
  from inst[THEN conjunct2, THEN conjunct2, THEN conjunct2, THEN conjunct2, THEN conjunct2,
      THEN conjunct1, rule_format,
      OF conjI[OF a1 conjI[OF b2 conjI[OF a3 conjI[OF a4 conjI[OF am b5]]]]]]
  have t2: "outcome (run_thundersvm failing_env X_train X_test Y_train Y_test (PyInt 15)
              (PyInt 100) demo_err_fn (demo_world, [])) = Inl (LibraryError ''out of memory'')"
    by (rule conjunct1)
  from inst have 3: "fails_cleanly (run_libsvm failing_env X_train X_test Y_train Y_test
              (PyInt 15) (PyInt 100) demo_err_fn (demo_world, []))"
    by (rule conjunct1)
  from 3 2 have 4: "raised (trace_of (run_libsvm failing_env X_train X_test Y_train Y_test
              (PyInt 15) (PyInt 100) demo_err_fn (demo_world, []))) = [LibraryError ''out of memory'']"
    and 5: "printed (trace_of (run_libsvm failing_env X_train X_test Y_train Y_test (PyInt 15)
              (PyInt 100) demo_err_fn (demo_world, []))) = []"
    by (simp_all add: fails_cleanly_def propagated_def)
  have 6: "length (filter is_fit_call (trace_of (run_libsvm failing_env X_train X_test Y_train
              Y_test (PyInt 15) (PyInt 100) demo_err_fn (demo_world, [])))) = 1"
    by (simp add: failing_libsvm_run trace_of_def)
  have q1: "thundersvm_SVC (rejecting_env\<lparr>thundersvm_SVC := sklearn_SVC rejecting_env\<rparr>)
        (svc_args (PyInt 0) (Fin (5124095576030431 / 2305843009213693952))) demo_world
     = (demo_world, Inl (LibraryError ''invalid hyperparameter''))"
    by (simp add: rejecting_env_def demo_env_def)
  from rejt[THEN conjunct2, THEN conjunct2, THEN conjunct2, THEN conjunct2, THEN conjunct2,
      THEN conjunct2, THEN conjunct2, THEN conjunct1, rule_format, OF conjI[OF a1 q1]]
  have q2: "outcome (run_thundersvm (rejecting_env\<lparr>thundersvm_SVC := sklearn_SVC rejecting_env\<rparr>)
              X_train X_test Y_train Y_test (PyInt 15) (PyInt 0) demo_err_fn (demo_world, []))
     = Inl (LibraryError ''invalid hyperparameter'')"
    by (rule conjunct1)
  have f1: "GaussianKernel failing_env (PyInt 5) demo_world = (demo_world, Inr 0)"
    by (simp add: failing_env_def demo_env_def)
  have f2: "Falkon failing_env (falkon_args 0 (PyFloat (Fin (1 / 1000000000))) (PyInt 20000) 1
        demo_err_fn) demo_world = (demo_world, Inr 0)"
    by (simp add: failing_env_def demo_env_def)
  have f3: "falkon_fit failing_env 0 X_train Y_train X_test Y_test demo_world
     = (demo_world, Inl (LibraryError ''out of memory''))"
    by (simp add: failing_env_def demo_env_def)
  from instf[THEN conjunct2, THEN conjunct2, THEN conjunct2, THEN conjunct2, THEN conjunct2,
      THEN conjunct2, THEN conjunct2, THEN conjunct2, rule_format,
      OF conjI[OF f1 conjI[OF f2 f3]]]
  have f4: "outcome (run_flk failing_env X_train X_test Y_train Y_test (PyInt 5)
              (PyFloat (Fin (1 / 1000000000))) (PyInt 20000) 1 demo_err_fn (demo_world, []))
     = Inl (LibraryError ''out of memory'')"
    by (rule conjunct1)
  from a1 r1 r3 r4 k1 k2 k3 a2 b2 a3 a4 a5 b5 2 t2 3 4 5 6 q1 q2 f1 f2 f3 f4
  show ?thesis by (intro conjI)
qed

text \<open>
  C8, as the claim states it, fails. The runners construct the SVC solvers with
  \<^verbatim>\<open>verbose=True\<close>, and a verbose solver writes to standard output itself: on the stub
  library, whose scikit-learn \<^verbatim>\<open>fit\<close> writes \<^verbatim>\<open>[LibSVM]\<close> as the notebook's recorded run
  shows, the first line on standard output after a successful \<^verbatim>\<open>run_libsvm\<close> is
  \<^verbatim>\<open>[LibSVM]LIBSVM elapsed 660.99s\<close>, not \<^verbatim>\<open>LIBSVM elapsed 660.99s\<close>. And the format \<^verbatim>\<open>9.6f\<close>
  gives no decimal places for an error value that is not a number: with an error
  function that returns NaN the second line ends in \<^verbatim>\<open>nan\<close>.
\<close>

theorem report_lines_counterexample:
  "outcome (run_libsvm demo_env X_train X_test Y_train Y_test (PyInt 15) (PyInt 100) demo_err_fn
      (demo_world, [])) = Inr (Fin (1345 / 10000), 66099 / 100) \<and>
   text_lines (out (world_of (run_libsvm demo_env X_train X_test Y_train Y_test (PyInt 15)
      (PyInt 100) demo_err_fn (demo_world, []))))
     = [''[LibSVM]LIBSVM elapsed 660.99s'', ''Sigma 15 - C 100 - Test c-error:  0.134500''] \<and>
   ''[LibSVM]LIBSVM elapsed 660.99s'' \<noteq> ''LIBSVM elapsed '' @ fmt_f 0 2 (66099 / 100) @ ''s'' \<and>
   outcome (run_libsvm quiet_env X_train X_test Y_train Y_test (PyInt 15) (PyInt 100) nan_err_fn
      (demo_world, [])) = Inr (NaN, 66099 / 100) \<and>
   text_lines (out (world_of (run_libsvm quiet_env X_train X_test Y_train Y_test (PyInt 15)
      (PyInt 100) nan_err_fn (demo_world, []))))
     = [''LIBSVM elapsed 660.99s'', ''Sigma 15 - C 100 - Test c-error:       nan''] \<and>
   decimals ''Sigma 15 - C 100 - Test c-error:       nan'' \<noteq> 6"
proof -
  have 1: "outcome (run_libsvm demo_env X_train X_test Y_train Y_test (PyInt 15) (PyInt 100)
      demo_err_fn (demo_world, [])) = Inr (Fin (1345 / 10000), 66099 / 100)"
    by (simp add: demo_libsvm_run outcome_def)
  have 2: "text_lines (out (world_of (run_libsvm demo_env X_train X_test Y_train Y_test
      (PyInt 15) (PyInt 100) demo_err_fn (demo_world, []))))
     = [''[LibSVM]LIBSVM elapsed 660.99s'', ''Sigma 15 - C 100 - Test c-error:  0.134500'']"
    by (simp add: demo_libsvm_run world_of_def text_lines_def newline_def)
  have 3: "''[LibSVM]LIBSVM elapsed 660.99s''
             \<noteq> ''LIBSVM elapsed '' @ fmt_f 0 2 (66099 / 100) @ ''s''"
    by (simp add: fmt_660_99)
  have 4: "outcome (run_libsvm quiet_env X_train X_test Y_train Y_test (PyInt 15) (PyInt 100)
      nan_err_fn (demo_world, [])) = Inr (NaN, 66099 / 100)"
    by (simp add: nan_libsvm_run outcome_def)
  have 5: "text_lines (out (world_of (run_libsvm quiet_env X_train X_test Y_train Y_test
      (PyInt 15) (PyInt 100) nan_err_fn (demo_world, []))))
     = [''LIBSVM elapsed 660.99s'', ''Sigma 15 - C 100 - Test c-error:       nan'']"
    by (simp add: nan_libsvm_run world_of_def text_lines_def newline_def)
  have 6: "decimals ''Sigma 15 - C 100 - Test c-error:       nan'' \<noteq> 6"
    by (simp add: decimals_def)
  from 1 2 3 4 5 6 show ?thesis by (intro conjI)
qed

text \<open>
  C8, amended. A runner call that returns has itself printed exactly two lines, as the
  last two things it did: the solver's name, \<^verbatim>\<open>elapsed\<close> and the elapsed time in the format
  \<^verbatim>\<open>%.2f\<close> followed by \<^verbatim>\<open>s\<close>; and the hyperparameters, \<^verbatim>\<open>Test\<close>, the metric's name and the
  error in the format \<^verbatim>\<open>9.6f\<close>. They are appended to what standard output held when the
  error function returned, which is what it held before the call when the libraries and
  the error function write nothing; a verbose solver's own text comes before them. The
  first format gives two digits after the point; the second gives at least nine
  characters, with six digits after the point for every finite error value (also for
  \<^verbatim>\<open>-0.0\<close>), and \<^verbatim>\<open>nan\<close>, \<^verbatim>\<open>inf\<close> or \<^verbatim>\<open>-inf\<close> padded to nine characters otherwise.
\<close>

theorem report_lines:
  "(outcome (run_libsvm env Xtr Xts Ytr Yts sigma C err_fn (w, [])) = Inr (e, t) \<longrightarrow>
      (\<exists>nm p w3 w4 pre. err_fn Yts (from_numpy (reshape_m1_1 p)) w3 = (w4, Inr (e, nm)) \<and>
         trace_of (run_libsvm env Xtr Xts Ytr Yts sigma C err_fn (w, []))
           = pre @ [Print (''LIBSVM elapsed '' @ fmt_f 0 2 t @ ''s''),
                    Print (''Sigma '' @ py_str env sigma @ '' - C '' @ py_str env C @ '' - ''
                           @ ''Test '' @ nm @ '': '' @ fmt_float 9 6 e)] \<and>
         printed (trace_of (run_libsvm env Xtr Xts Ytr Yts sigma C err_fn (w, [])))
           = [''LIBSVM elapsed '' @ fmt_f 0 2 t @ ''s'',
              ''Sigma '' @ py_str env sigma @ '' - C '' @ py_str env C @ '' - ''
                @ ''Test '' @ nm @ '': '' @ fmt_float 9 6 e] \<and>
         out (world_of (run_libsvm env Xtr Xts Ytr Yts sigma C err_fn (w, [])))
           = out w4 @ (''LIBSVM elapsed '' @ fmt_f 0 2 t @ ''s'') @ newline
               @ (''Sigma '' @ py_str env sigma @ '' - C '' @ py_str env C @ '' - ''
                  @ ''Test '' @ nm @ '': '' @ fmt_float 9 6 e) @ newline \<and>
         (libraries_silent env err_fn (out w) \<longrightarrow>
          out (world_of (run_libsvm env Xtr Xts Ytr Yts sigma C err_fn (w, [])))
           = out w @ (''LIBSVM elapsed '' @ fmt_f 0 2 t @ ''s'') @ newline
               @ (''Sigma '' @ py_str env sigma @ '' - C '' @ py_str env C @ '' - ''
                  @ ''Test '' @ nm @ '': '' @ fmt_float 9 6 e) @ newline))) \<and>
   (outcome (run_thundersvm env Xtr Xts Ytr Yts sigma C err_fn (w, [])) = Inr (e, t) \<longrightarrow>
      (\<exists>nm p w3 w4 pre. err_fn Yts (from_numpy (reshape_m1_1 p)) w3 = (w4, Inr (e, nm)) \<and>
         trace_of (run_thundersvm env Xtr Xts Ytr Yts sigma C err_fn (w, []))
           = pre @ [Print (''THUNDERSVM elapsed '' @ fmt_f 0 2 t @ ''s''),
                    Print (''Sigma '' @ py_str env sigma @ '' - C '' @ py_str env C @ '' - ''
                           @ ''Test '' @ nm @ '': '' @ fmt_float 9 6 e)] \<and>
         printed (trace_of (run_thundersvm env Xtr Xts Ytr Yts sigma C err_fn (w, [])))
           = [''THUNDERSVM elapsed '' @ fmt_f 0 2 t @ ''s'',
              ''Sigma '' @ py_str env sigma @ '' - C '' @ py_str env C @ '' - ''
                @ ''Test '' @ nm @ '': '' @ fmt_float 9 6 e] \<and>
         out (world_of (run_thundersvm env Xtr Xts Ytr Yts sigma C err_fn (w, [])))
           = out w4 @ (''THUNDERSVM elapsed '' @ fmt_f 0 2 t @ ''s'') @ newline
               @ (''Sigma '' @ py_str env sigma @ '' - C '' @ py_str env C @ '' - ''
                  @ ''Test '' @ nm @ '': '' @ fmt_float 9 6 e) @ newline \<and>
         (libraries_silent env err_fn (out w) \<longrightarrow>
          out (world_of (run_thundersvm env Xtr Xts Ytr Yts sigma C err_fn (w, [])))
           = out w @ (''THUNDERSVM elapsed '' @ fmt_f 0 2 t @ ''s'') @ newline
               @ (''Sigma '' @ py_str env sigma @ '' - C '' @ py_str env C @ '' - ''
                  @ ''Test '' @ nm @ '': '' @ fmt_float 9 6 e) @ newline))) \<and>
   (outcome (run_flk env Xtr Xts Ytr Yts sigma penalty M num_iter err_fn (w, [])) = Inr (e, t) \<longrightarrow>
      (\<exists>nm p w3 w4 pre. err_fn Yts p w3 = (w4, Inr (e, nm)) \<and>
         trace_of (run_flk env Xtr Xts Ytr Yts sigma penalty M num_iter err_fn (w, []))
           = pre @ [Print (''Falkon elapsed '' @ fmt_f 0 2 t @ ''s''),
                    Print (''M '' @ py_str env M @ '' - Sigma '' @ py_str env sigma
                           @ '' - Lambda '' @ py_str env penalty @ '' - ''
                           @ ''Test '' @ nm @ '': '' @ fmt_float 9 6 e)] \<and>
         printed (trace_of (run_flk env Xtr Xts Ytr Yts sigma penalty M num_iter err_fn (w, [])))
           = [''Falkon elapsed '' @ fmt_f 0 2 t @ ''s'',
              ''M '' @ py_str env M @ '' - Sigma '' @ py_str env sigma @ '' - Lambda ''
                @ py_str env penalty @ '' - '' @ ''Test '' @ nm @ '': '' @ fmt_float 9 6 e] \<and>
         out (world_of (run_flk env Xtr Xts Ytr Yts sigma penalty M num_iter err_fn (w, [])))
           = out w4 @ (''Falkon elapsed '' @ fmt_f 0 2 t @ ''s'') @ newline
               @ (''M '' @ py_str env M @ '' - Sigma '' @ py_str env sigma @ '' - Lambda ''
                  @ py_str env penalty @ '' - '' @ ''Test '' @ nm @ '': '' @ fmt_float 9 6 e)
               @ newline \<and>
         (libraries_silent env err_fn (out w) \<longrightarrow>
          out (world_of (run_flk env Xtr Xts Ytr Yts sigma penalty M num_iter err_fn (w, [])))
           = out w @ (''Falkon elapsed '' @ fmt_f 0 2 t @ ''s'') @ newline
               @ (''M '' @ py_str env M @ '' - Sigma '' @ py_str env sigma @ '' - Lambda ''
                  @ py_str env penalty @ '' - '' @ ''Test '' @ nm @ '': '' @ fmt_float 9 6 e)
               @ newline))) \<and>
   decimals (fmt_f 0 2 t) = 2 \<and>
   (\<forall>x. decimals (fmt_float 9 6 (Fin x)) = 6) \<and>
   9 \<le> length (fmt_float 9 6 e) \<and>
   fmt_float 9 6 NegZero = ''-0.000000'' \<and>
   fmt_float 9 6 NaN = ''      nan'' \<and>
   fmt_float 9 6 PosInf = ''      inf'' \<and>
   fmt_float 9 6 NegInf = ''     -inf''"
proof -
  have 1: "outcome (run_libsvm env Xtr Xts Ytr Yts sigma C err_fn (w, [])) = Inr (e, t) \<longrightarrow>
      (\<exists>nm p w3 w4 pre. err_fn Yts (from_numpy (reshape_m1_1 p)) w3 = (w4, Inr (e, nm)) \<and>
         trace_of (run_libsvm env Xtr Xts Ytr Yts sigma C err_fn (w, []))
           = pre @ [Print (''LIBSVM elapsed '' @ fmt_f 0 2 t @ ''s''),
                    Print (''Sigma '' @ py_str env sigma @ '' - C '' @ py_str env C @ '' - ''
                           @ ''Test '' @ nm @ '': '' @ fmt_float 9 6 e)] \<and>
         printed (trace_of (run_libsvm env Xtr Xts Ytr Yts sigma C err_fn (w, [])))
           = [''LIBSVM elapsed '' @ fmt_f 0 2 t @ ''s'',
              ''Sigma '' @ py_str env sigma @ '' - C '' @ py_str env C @ '' - ''
                @ ''Test '' @ nm @ '': '' @ fmt_float 9 6 e] \<and>
         out (world_of (run_libsvm env Xtr Xts Ytr Yts sigma C err_fn (w, [])))
           = out w4 @ (''LIBSVM elapsed '' @ fmt_f 0 2 t @ ''s'') @ newline
               @ (''Sigma '' @ py_str env sigma @ '' - C '' @ py_str env C @ '' - ''
                  @ ''Test '' @ nm @ '': '' @ fmt_float 9 6 e) @ newline \<and>
         (libraries_silent env err_fn (out w) \<longrightarrow>
          out (world_of (run_libsvm env Xtr Xts Ytr Yts sigma C err_fn (w, [])))
           = out w @ (''LIBSVM elapsed '' @ fmt_f 0 2 t @ ''s'') @ newline
               @ (''Sigma '' @ py_str env sigma @ '' - C '' @ py_str env C @ '' - ''
                  @ ''Test '' @ nm @ '': '' @ fmt_float 9 6 e) @ newline))"
  proof (rule impI)
    assume h: "outcome (run_libsvm env Xtr Xts Ytr Yts sigma C err_fn (w, [])) = Inr (e, t)"
    from svc_report[OF libsvm_result[of env Xtr Xts Ytr Yts sigma C err_fn "(w, [])",
          unfolded h]]
    obtain nm p w3 w4 pre where r: "err_fn Yts (from_numpy (reshape_m1_1 p)) w3 = (w4, Inr (e, nm)) \<and>
         trace_of (run_libsvm env Xtr Xts Ytr Yts sigma C err_fn (w, []))
           = pre @ [Print (''LIBSVM'' @ '' elapsed '' @ fmt_f 0 2 t @ ''s''),
                    Print (''Sigma '' @ py_str env sigma @ '' - C '' @ py_str env C @ '' - ''
                  @ ''Test '' @ nm @ '': '' @ fmt_float 9 6 e)] \<and>
         printed (trace_of (run_libsvm env Xtr Xts Ytr Yts sigma C err_fn (w, [])))
           = [''LIBSVM'' @ '' elapsed '' @ fmt_f 0 2 t @ ''s'',
              ''Sigma '' @ py_str env sigma @ '' - C '' @ py_str env C @ '' - ''
                  @ ''Test '' @ nm @ '': '' @ fmt_float 9 6 e] \<and>
         out (world_of (run_libsvm env Xtr Xts Ytr Yts sigma C err_fn (w, [])))
           = out w4 @ (''LIBSVM'' @ '' elapsed '' @ fmt_f 0 2 t @ ''s'') @ newline
               @ (''Sigma '' @ py_str env sigma @ '' - C '' @ py_str env C @ '' - ''
                  @ ''Test '' @ nm @ '': '' @ fmt_float 9 6 e) @ newline \<and>
         ((\<forall>p. keeps (\<lambda>x. out x = out w) (sklearn_SVC env p)) \<and>
      (\<forall>m X y. keeps (\<lambda>x. out x = out w) (sklearn_fit env m X y)) \<and>
      (\<forall>m X. keeps (\<lambda>x. out x = out w) (sklearn_predict env m X)) \<and>
      (\<forall>y q. keeps (\<lambda>x. out x = out w) (err_fn y q)) \<longrightarrow>
          out (world_of (run_libsvm env Xtr Xts Ytr Yts sigma C err_fn (w, [])))
           = out w @ (''LIBSVM'' @ '' elapsed '' @ fmt_f 0 2 t @ ''s'') @ newline
               @ (''Sigma '' @ py_str env sigma @ '' - C '' @ py_str env C @ '' - ''
                  @ ''Test '' @ nm @ '': '' @ fmt_float 9 6 e) @ newline)"
      by (elim exE) (rule that)
    from r[THEN conjunct1] have a: "err_fn Yts (from_numpy (reshape_m1_1 p)) w3 = (w4, Inr (e, nm))" by simp
    from r[THEN conjunct2, THEN conjunct1] have b: "trace_of (run_libsvm env Xtr Xts Ytr Yts sigma C err_fn (w, []))
           = pre @ [Print (''LIBSVM elapsed '' @ fmt_f 0 2 t @ ''s''),
                    Print (''Sigma '' @ py_str env sigma @ '' - C '' @ py_str env C @ '' - ''
                  @ ''Test '' @ nm @ '': '' @ fmt_float 9 6 e)]" by simp
    from r[THEN conjunct2, THEN conjunct2, THEN conjunct1] have c: "printed (trace_of (run_libsvm env Xtr Xts Ytr Yts sigma C err_fn (w, [])))
           = [''LIBSVM elapsed '' @ fmt_f 0 2 t @ ''s'',
              ''Sigma '' @ py_str env sigma @ '' - C '' @ py_str env C @ '' - ''
                  @ ''Test '' @ nm @ '': '' @ fmt_float 9 6 e]" by simp
    from r[THEN conjunct2, THEN conjunct2, THEN conjunct2, THEN conjunct1] have d: "out (world_of (run_libsvm env Xtr Xts Ytr Yts sigma C err_fn (w, [])))
           = out w4 @ (''LIBSVM elapsed '' @ fmt_f 0 2 t @ ''s'') @ newline
               @ (''Sigma '' @ py_str env sigma @ '' - C '' @ py_str env C @ '' - ''
                  @ ''Test '' @ nm @ '': '' @ fmt_float 9 6 e) @ newline" by simp
    have e: "libraries_silent env err_fn (out w) \<longrightarrow>
          out (world_of (run_libsvm env Xtr Xts Ytr Yts sigma C err_fn (w, [])))
           = out w @ (''LIBSVM elapsed '' @ fmt_f 0 2 t @ ''s'') @ newline
               @ (''Sigma '' @ py_str env sigma @ '' - C '' @ py_str env C @ '' - ''
                  @ ''Test '' @ nm @ '': '' @ fmt_float 9 6 e) @ newline"
    proof (rule impI)
      assume "libraries_silent env err_fn (out w)"
      then have k: "(\<forall>p. keeps (\<lambda>x. out x = out w) (sklearn_SVC env p)) \<and>
      (\<forall>m X y. keeps (\<lambda>x. out x = out w) (sklearn_fit env m X y)) \<and>
      (\<forall>m X. keeps (\<lambda>x. out x = out w) (sklearn_predict env m X)) \<and>
      (\<forall>y q. keeps (\<lambda>x. out x = out w) (err_fn y q))"
        by (simp add: libraries_silent_def libraries_keep_def)
      from r[THEN conjunct2, THEN conjunct2, THEN conjunct2, THEN conjunct2, rule_format, OF k]
      show "out (world_of (run_libsvm env Xtr Xts Ytr Yts sigma C err_fn (w, [])))
           = out w @ (''LIBSVM elapsed '' @ fmt_f 0 2 t @ ''s'') @ newline
               @ (''Sigma '' @ py_str env sigma @ '' - C '' @ py_str env C @ '' - ''
                  @ ''Test '' @ nm @ '': '' @ fmt_float 9 6 e) @ newline" by simp
    qed
    from a b c d e show "\<exists>nm p w3 w4 pre. err_fn Yts (from_numpy (reshape_m1_1 p)) w3 = (w4, Inr (e, nm)) \<and>
         trace_of (run_libsvm env Xtr Xts Ytr Yts sigma C err_fn (w, []))
           = pre @ [Print (''LIBSVM elapsed '' @ fmt_f 0 2 t @ ''s''),
                    Print (''Sigma '' @ py_str env sigma @ '' - C '' @ py_str env C @ '' - ''
                  @ ''Test '' @ nm @ '': '' @ fmt_float 9 6 e)] \<and>
         printed (trace_of (run_libsvm env Xtr Xts Ytr Yts sigma C err_fn (w, [])))
           = [''LIBSVM elapsed '' @ fmt_f 0 2 t @ ''s'',
              ''Sigma '' @ py_str env sigma @ '' - C '' @ py_str env C @ '' - ''
                  @ ''Test '' @ nm @ '': '' @ fmt_float 9 6 e] \<and>
         out (world_of (run_libsvm env Xtr Xts Ytr Yts sigma C err_fn (w, [])))
           = out w4 @ (''LIBSVM elapsed '' @ fmt_f 0 2 t @ ''s'') @ newline
               @ (''Sigma '' @ py_str env sigma @ '' - C '' @ py_str env C @ '' - ''
                  @ ''Test '' @ nm @ '': '' @ fmt_float 9 6 e) @ newline \<and>
         (libraries_silent env err_fn (out w) \<longrightarrow>
          out (world_of (run_libsvm env Xtr Xts Ytr Yts sigma C err_fn (w, [])))
           = out w @ (''LIBSVM elapsed '' @ fmt_f 0 2 t @ ''s'') @ newline
               @ (''Sigma '' @ py_str env sigma @ '' - C '' @ py_str env C @ '' - ''
                  @ ''Test '' @ nm @ '': '' @ fmt_float 9 6 e) @ newline)"
      by (intro exI[of _ nm] exI[of _ p] exI[of _ w3] exI[of _ w4] exI[of _ pre] conjI)
  qed
  have 2: "outcome (run_thundersvm env Xtr Xts Ytr Yts sigma C err_fn (w, [])) = Inr (e, t) \<longrightarrow>
      (\<exists>nm p w3 w4 pre. err_fn Yts (from_numpy (reshape_m1_1 p)) w3 = (w4, Inr (e, nm)) \<and>
         trace_of (run_thundersvm env Xtr Xts Ytr Yts sigma C err_fn (w, []))
           = pre @ [Print (''THUNDERSVM elapsed '' @ fmt_f 0 2 t @ ''s''),
                    Print (''Sigma '' @ py_str env sigma @ '' - C '' @ py_str env C @ '' - ''
                           @ ''Test '' @ nm @ '': '' @ fmt_float 9 6 e)] \<and>
         printed (trace_of (run_thundersvm env Xtr Xts Ytr Yts sigma C err_fn (w, [])))
           = [''THUNDERSVM elapsed '' @ fmt_f 0 2 t @ ''s'',
              ''Sigma '' @ py_str env sigma @ '' - C '' @ py_str env C @ '' - ''
                @ ''Test '' @ nm @ '': '' @ fmt_float 9 6 e] \<and>
         out (world_of (run_thundersvm env Xtr Xts Ytr Yts sigma C err_fn (w, [])))
           = out w4 @ (''THUNDERSVM elapsed '' @ fmt_f 0 2 t @ ''s'') @ newline
               @ (''Sigma '' @ py_str env sigma @ '' - C '' @ py_str env C @ '' - ''
                  @ ''Test '' @ nm @ '': '' @ fmt_float 9 6 e) @ newline \<and>
         (libraries_silent env err_fn (out w) \<longrightarrow>
          out (world_of (run_thundersvm env Xtr Xts Ytr Yts sigma C err_fn (w, [])))
           = out w @ (''THUNDERSVM elapsed '' @ fmt_f 0 2 t @ ''s'') @ newline
               @ (''Sigma '' @ py_str env sigma @ '' - C '' @ py_str env C @ '' - ''
                  @ ''Test '' @ nm @ '': '' @ fmt_float 9 6 e) @ newline))"
  proof (rule impI)
    assume h: "outcome (run_thundersvm env Xtr Xts Ytr Yts sigma C err_fn (w, [])) = Inr (e, t)"
    from svc_report[OF thundersvm_result[of env Xtr Xts Ytr Yts sigma C err_fn "(w, [])",
          unfolded h]]
    obtain nm p w3 w4 pre where r: "err_fn Yts (from_numpy (reshape_m1_1 p)) w3 = (w4, Inr (e, nm)) \<and>
         trace_of (run_thundersvm env Xtr Xts Ytr Yts sigma C err_fn (w, []))
           = pre @ [Print (''THUNDERSVM'' @ '' elapsed '' @ fmt_f 0 2 t @ ''s''),
                    Print (''Sigma '' @ py_str env sigma @ '' - C '' @ py_str env C @ '' - ''
                  @ ''Test '' @ nm @ '': '' @ fmt_float 9 6 e)] \<and>
         printed (trace_of (run_thundersvm env Xtr Xts Ytr Yts sigma C err_fn (w, [])))
           = [''THUNDERSVM'' @ '' elapsed '' @ fmt_f 0 2 t @ ''s'',
              ''Sigma '' @ py_str env sigma @ '' - C '' @ py_str env C @ '' - ''
                  @ ''Test '' @ nm @ '': '' @ fmt_float 9 6 e] \<and>
         out (world_of (run_thundersvm env Xtr Xts Ytr Yts sigma C err_fn (w, [])))
           = out w4 @ (''THUNDERSVM'' @ '' elapsed '' @ fmt_f 0 2 t @ ''s'') @ newline
               @ (''Sigma '' @ py_str env sigma @ '' - C '' @ py_str env C @ '' - ''
                  @ ''Test '' @ nm @ '': '' @ fmt_float 9 6 e) @ newline \<and>
         ((\<forall>p. keeps (\<lambda>x. out x = out w) (thundersvm_SVC env p)) \<and>
      (\<forall>m X y. keeps (\<lambda>x. out x = out w) (thundersvm_fit env m X y)) \<and>
      (\<forall>m X. keeps (\<lambda>x. out x = out w) (thundersvm_predict env m X)) \<and>
      (\<forall>y q. keeps (\<lambda>x. out x = out w) (err_fn y q)) \<longrightarrow>
          out (world_of (run_thundersvm env Xtr Xts Ytr Yts sigma C err_fn (w, [])))
           = out w @ (''THUNDERSVM'' @ '' elapsed '' @ fmt_f 0 2 t @ ''s'') @ newline
               @ (''Sigma '' @ py_str env sigma @ '' - C '' @ py_str env C @ '' - ''
                  @ ''Test '' @ nm @ '': '' @ fmt_float 9 6 e) @ newline)"
      by (elim exE) (rule that)
    from r[THEN conjunct1] have a: "err_fn Yts (from_numpy (reshape_m1_1 p)) w3 = (w4, Inr (e, nm))" by simp
    from r[THEN conjunct2, THEN conjunct1] have b: "trace_of (run_thundersvm env Xtr Xts Ytr Yts sigma C err_fn (w, []))
           = pre @ [Print (''THUNDERSVM elapsed '' @ fmt_f 0 2 t @ ''s''),
                    Print (''Sigma '' @ py_str env sigma @ '' - C '' @ py_str env C @ '' - ''
                  @ ''Test '' @ nm @ '': '' @ fmt_float 9 6 e)]" by simp
    from r[THEN conjunct2, THEN conjunct2, THEN conjunct1] have c: "printed (trace_of (run_thundersvm env Xtr Xts Ytr Yts sigma C err_fn (w, [])))
           = [''THUNDERSVM elapsed '' @ fmt_f 0 2 t @ ''s'',
              ''Sigma '' @ py_str env sigma @ '' - C '' @ py_str env C @ '' - ''
                  @ ''Test '' @ nm @ '': '' @ fmt_float 9 6 e]" by simp
    from r[THEN conjunct2, THEN conjunct2, THEN conjunct2, THEN conjunct1] have d: "out (world_of (run_thundersvm env Xtr Xts Ytr Yts sigma C err_fn (w, [])))
           = out w4 @ (''THUNDERSVM elapsed '' @ fmt_f 0 2 t @ ''s'') @ newline
               @ (''Sigma '' @ py_str env sigma @ '' - C '' @ py_str env C @ '' - ''
                  @ ''Test '' @ nm @ '': '' @ fmt_float 9 6 e) @ newline" by simp
    have e: "libraries_silent env err_fn (out w) \<longrightarrow>
          out (world_of (run_thundersvm env Xtr Xts Ytr Yts sigma C err_fn (w, [])))
           = out w @ (''THUNDERSVM elapsed '' @ fmt_f 0 2 t @ ''s'') @ newline
               @ (''Sigma '' @ py_str env sigma @ '' - C '' @ py_str env C @ '' - ''
                  @ ''Test '' @ nm @ '': '' @ fmt_float 9 6 e) @ newline"
    proof (rule impI)
      assume "libraries_silent env err_fn (out w)"
      then have k: "(\<forall>p. keeps (\<lambda>x. out x = out w) (thundersvm_SVC env p)) \<and>
      (\<forall>m X y. keeps (\<lambda>x. out x = out w) (thundersvm_fit env m X y)) \<and>
      (\<forall>m X. keeps (\<lambda>x. out x = out w) (thundersvm_predict env m X)) \<and>
      (\<forall>y q. keeps (\<lambda>x. out x = out w) (err_fn y q))"
        by (simp add: libraries_silent_def libraries_keep_def)
      from r[THEN conjunct2, THEN conjunct2, THEN conjunct2, THEN conjunct2, rule_format, OF k]
      show "out (world_of (run_thundersvm env Xtr Xts Ytr Yts sigma C err_fn (w, [])))
           = out w @ (''THUNDERSVM elapsed '' @ fmt_f 0 2 t @ ''s'') @ newline
               @ (''Sigma '' @ py_str env sigma @ '' - C '' @ py_str env C @ '' - ''
                  @ ''Test '' @ nm @ '': '' @ fmt_float 9 6 e) @ newline" by simp
    qed
    from a b c d e show "\<exists>nm p w3 w4 pre. err_fn Yts (from_numpy (reshape_m1_1 p)) w3 = (w4, Inr (e, nm)) \<and>
         trace_of (run_thundersvm env Xtr Xts Ytr Yts sigma C err_fn (w, []))
           = pre @ [Print (''THUNDERSVM elapsed '' @ fmt_f 0 2 t @ ''s''),
                    Print (''Sigma '' @ py_str env sigma @ '' - C '' @ py_str env C @ '' - ''
                  @ ''Test '' @ nm @ '': '' @ fmt_float 9 6 e)] \<and>
         printed (trace_of (run_thundersvm env Xtr Xts Ytr Yts sigma C err_fn (w, [])))
           = [''THUNDERSVM elapsed '' @ fmt_f 0 2 t @ ''s'',
              ''Sigma '' @ py_str env sigma @ '' - C '' @ py_str env C @ '' - ''
                  @ ''Test '' @ nm @ '': '' @ fmt_float 9 6 e] \<and>
         out (world_of (run_thundersvm env Xtr Xts Ytr Yts sigma C err_fn (w, [])))
           = out w4 @ (''THUNDERSVM elapsed '' @ fmt_f 0 2 t @ ''s'') @ newline
               @ (''Sigma '' @ py_str env sigma @ '' - C '' @ py_str env C @ '' - ''
                  @ ''Test '' @ nm @ '': '' @ fmt_float 9 6 e) @ newline \<and>
         (libraries_silent env err_fn (out w) \<longrightarrow>
          out (world_of (run_thundersvm env Xtr Xts Ytr Yts sigma C err_fn (w, [])))
           = out w @ (''THUNDERSVM elapsed '' @ fmt_f 0 2 t @ ''s'') @ newline
               @ (''Sigma '' @ py_str env sigma @ '' - C '' @ py_str env C @ '' - ''
                  @ ''Test '' @ nm @ '': '' @ fmt_float 9 6 e) @ newline)"
      by (intro exI[of _ nm] exI[of _ p] exI[of _ w3] exI[of _ w4] exI[of _ pre] conjI)
  qed
  have 3: "outcome (run_flk env Xtr Xts Ytr Yts sigma penalty M num_iter err_fn (w, []))
             = Inr (e, t) \<longrightarrow>
      (\<exists>nm p w3 w4 pre. err_fn Yts p w3 = (w4, Inr (e, nm)) \<and>
         trace_of (run_flk env Xtr Xts Ytr Yts sigma penalty M num_iter err_fn (w, []))
           = pre @ [Print (''Falkon elapsed '' @ fmt_f 0 2 t @ ''s''),
                    Print (''M '' @ py_str env M @ '' - Sigma '' @ py_str env sigma
                           @ '' - Lambda '' @ py_str env penalty @ '' - ''
                           @ ''Test '' @ nm @ '': '' @ fmt_float 9 6 e)] \<and>
         printed (trace_of (run_flk env Xtr Xts Ytr Yts sigma penalty M num_iter err_fn (w, [])))
           = [''Falkon elapsed '' @ fmt_f 0 2 t @ ''s'',
              ''M '' @ py_str env M @ '' - Sigma '' @ py_str env sigma @ '' - Lambda ''
                @ py_str env penalty @ '' - '' @ ''Test '' @ nm @ '': '' @ fmt_float 9 6 e] \<and>
         out (world_of (run_flk env Xtr Xts Ytr Yts sigma penalty M num_iter err_fn (w, [])))
           = out w4 @ (''Falkon elapsed '' @ fmt_f 0 2 t @ ''s'') @ newline
               @ (''M '' @ py_str env M @ '' - Sigma '' @ py_str env sigma @ '' - Lambda ''
                  @ py_str env penalty @ '' - '' @ ''Test '' @ nm @ '': '' @ fmt_float 9 6 e)
               @ newline \<and>
         (libraries_silent env err_fn (out w) \<longrightarrow>
          out (world_of (run_flk env Xtr Xts Ytr Yts sigma penalty M num_iter err_fn (w, [])))
           = out w @ (''Falkon elapsed '' @ fmt_f 0 2 t @ ''s'') @ newline
               @ (''M '' @ py_str env M @ '' - Sigma '' @ py_str env sigma @ '' - Lambda ''
                  @ py_str env penalty @ '' - '' @ ''Test '' @ nm @ '': '' @ fmt_float 9 6 e)
               @ newline))"
  proof (rule impI)
    assume h: "outcome (run_flk env Xtr Xts Ytr Yts sigma penalty M num_iter err_fn (w, []))
               = Inr (e, t)"
    from flk_report[OF flk_result[of env Xtr Xts Ytr Yts sigma penalty M num_iter err_fn
          "(w, [])", unfolded h]]
    obtain nm p w3 w4 pre where r: "err_fn Yts p w3 = (w4, Inr (e, nm)) \<and>
         trace_of (run_flk env Xtr Xts Ytr Yts sigma penalty M num_iter err_fn (w, []))
           = pre @ [Print (''Falkon elapsed '' @ fmt_f 0 2 t @ ''s''),
                    Print (''M '' @ py_str env M @ '' - Sigma '' @ py_str env sigma @ '' - Lambda ''
                  @ py_str env penalty @ '' - '' @ ''Test '' @ nm @ '': '' @ fmt_float 9 6 e)] \<and>
         printed (trace_of (run_flk env Xtr Xts Ytr Yts sigma penalty M num_iter err_fn (w, [])))
           = [''Falkon elapsed '' @ fmt_f 0 2 t @ ''s'',
              ''M '' @ py_str env M @ '' - Sigma '' @ py_str env sigma @ '' - Lambda ''
                  @ py_str env penalty @ '' - '' @ ''Test '' @ nm @ '': '' @ fmt_float 9 6 e] \<and>
         out (world_of (run_flk env Xtr Xts Ytr Yts sigma penalty M num_iter err_fn (w, [])))
           = out w4 @ (''Falkon elapsed '' @ fmt_f 0 2 t @ ''s'') @ newline
               @ (''M '' @ py_str env M @ '' - Sigma '' @ py_str env sigma @ '' - Lambda ''
                  @ py_str env penalty @ '' - '' @ ''Test '' @ nm @ '': '' @ fmt_float 9 6 e) @ newline \<and>
         (libraries_keep env err_fn (\<lambda>x. out x = out w) \<longrightarrow>
          out (world_of (run_flk env Xtr Xts Ytr Yts sigma penalty M num_iter err_fn (w, [])))
           = out w @ (''Falkon elapsed '' @ fmt_f 0 2 t @ ''s'') @ newline
               @ (''M '' @ py_str env M @ '' - Sigma '' @ py_str env sigma @ '' - Lambda ''
                  @ py_str env penalty @ '' - '' @ ''Test '' @ nm @ '': '' @ fmt_float 9 6 e) @ newline)"
      by (elim exE) (rule that)
    from r[THEN conjunct1] have a: "err_fn Yts p w3 = (w4, Inr (e, nm))" by simp
    from r[THEN conjunct2, THEN conjunct1] have b: "trace_of (run_flk env Xtr Xts Ytr Yts sigma penalty M num_iter err_fn (w, []))
           = pre @ [Print (''Falkon elapsed '' @ fmt_f 0 2 t @ ''s''),
                    Print (''M '' @ py_str env M @ '' - Sigma '' @ py_str env sigma @ '' - Lambda ''
                  @ py_str env penalty @ '' - '' @ ''Test '' @ nm @ '': '' @ fmt_float 9 6 e)]" by simp
    from r[THEN conjunct2, THEN conjunct2, THEN conjunct1] have c: "printed (trace_of (run_flk env Xtr Xts Ytr Yts sigma penalty M num_iter err_fn (w, [])))
           = [''Falkon elapsed '' @ fmt_f 0 2 t @ ''s'',
              ''M '' @ py_str env M @ '' - Sigma '' @ py_str env sigma @ '' - Lambda ''
                  @ py_str env penalty @ '' - '' @ ''Test '' @ nm @ '': '' @ fmt_float 9 6 e]" by simp
    from r[THEN conjunct2, THEN conjunct2, THEN conjunct2, THEN conjunct1] have d: "out (world_of (run_flk env Xtr Xts Ytr Yts sigma penalty M num_iter err_fn (w, [])))
           = out w4 @ (''Falkon elapsed '' @ fmt_f 0 2 t @ ''s'') @ newline
               @ (''M '' @ py_str env M @ '' - Sigma '' @ py_str env sigma @ '' - Lambda ''
                  @ py_str env penalty @ '' - '' @ ''Test '' @ nm @ '': '' @ fmt_float 9 6 e) @ newline" by simp
    have e: "libraries_silent env err_fn (out w) \<longrightarrow>
          out (world_of (run_flk env Xtr Xts Ytr Yts sigma penalty M num_iter err_fn (w, [])))
           = out w @ (''Falkon elapsed '' @ fmt_f 0 2 t @ ''s'') @ newline
               @ (''M '' @ py_str env M @ '' - Sigma '' @ py_str env sigma @ '' - Lambda ''
                  @ py_str env penalty @ '' - '' @ ''Test '' @ nm @ '': '' @ fmt_float 9 6 e) @ newline"
    proof (rule impI)
      assume "libraries_silent env err_fn (out w)"
      then have k: "libraries_keep env err_fn (\<lambda>x. out x = out w)"
        by (simp add: libraries_silent_def)
      from r[THEN conjunct2, THEN conjunct2, THEN conjunct2, THEN conjunct2, rule_format, OF k]
      show "out (world_of (run_flk env Xtr Xts Ytr Yts sigma penalty M num_iter err_fn (w, [])))
           = out w @ (''Falkon elapsed '' @ fmt_f 0 2 t @ ''s'') @ newline
               @ (''M '' @ py_str env M @ '' - Sigma '' @ py_str env sigma @ '' - Lambda ''
                  @ py_str env penalty @ '' - '' @ ''Test '' @ nm @ '': '' @ fmt_float 9 6 e) @ newline" by simp
    qed
    from a b c d e show "\<exists>nm p w3 w4 pre. err_fn Yts p w3 = (w4, Inr (e, nm)) \<and>
         trace_of (run_flk env Xtr Xts Ytr Yts sigma penalty M num_iter err_fn (w, []))
           = pre @ [Print (''Falkon elapsed '' @ fmt_f 0 2 t @ ''s''),
                    Print (''M '' @ py_str env M @ '' - Sigma '' @ py_str env sigma @ '' - Lambda ''
                  @ py_str env penalty @ '' - '' @ ''Test '' @ nm @ '': '' @ fmt_float 9 6 e)] \<and>
         printed (trace_of (run_flk env Xtr Xts Ytr Yts sigma penalty M num_iter err_fn (w, [])))
           = [''Falkon elapsed '' @ fmt_f 0 2 t @ ''s'',
              ''M '' @ py_str env M @ '' - Sigma '' @ py_str env sigma @ '' - Lambda ''
                  @ py_str env penalty @ '' - '' @ ''Test '' @ nm @ '': '' @ fmt_float 9 6 e] \<and>
         out (world_of (run_flk env Xtr Xts Ytr Yts sigma penalty M num_iter err_fn (w, [])))
           = out w4 @ (''Falkon elapsed '' @ fmt_f 0 2 t @ ''s'') @ newline
               @ (''M '' @ py_str env M @ '' - Sigma '' @ py_str env sigma @ '' - Lambda ''
                  @ py_str env penalty @ '' - '' @ ''Test '' @ nm @ '': '' @ fmt_float 9 6 e) @ newline \<and>
         (libraries_silent env err_fn (out w) \<longrightarrow>
          out (world_of (run_flk env Xtr Xts Ytr Yts sigma penalty M num_iter err_fn (w, [])))
           = out w @ (''Falkon elapsed '' @ fmt_f 0 2 t @ ''s'') @ newline
               @ (''M '' @ py_str env M @ '' - Sigma '' @ py_str env sigma @ '' - Lambda ''
                  @ py_str env penalty @ '' - '' @ ''Test '' @ nm @ '': '' @ fmt_float 9 6 e) @ newline)"
      by (intro exI[of _ nm] exI[of _ p] exI[of _ w3] exI[of _ w4] exI[of _ pre] conjI)
  qed
  have 4: "decimals (fmt_f 0 2 t) = 2" by (simp add: fmt_f_decimals)
  have 5: "\<forall>x. decimals (fmt_float 9 6 (Fin x)) = 6"
    by (simp add: fmt_float_Fin fmt_f_decimals)
  have 6: "9 \<le> length (fmt_float 9 6 e)" by (rule fmt_float_width)
  note 7 = fmt_float_special(4) fmt_float_special(1) fmt_float_special(2) fmt_float_special(3)
  from 1 2 3 4 5 6 7 show ?thesis by (intro conjI)
qed

text \<open>
  The stub runs with a library that writes nothing print their two lines, and these are
  all of standard output; \<^verbatim>\<open>run_libsvm\<close>, with the time and the error of the notebook's
  recorded MNIST run, prints the two report lines the notebook shows.
\<close>

theorem report_lines_witness:
  "outcome (run_libsvm quiet_env X_train X_test Y_train Y_test (PyInt 15) (PyInt 100) demo_err_fn
      (demo_world, [])) = Inr (Fin (1345 / 10000), 66099 / 100) \<and>
   outcome (run_thundersvm quiet_env X_train X_test Y_train Y_test (PyInt 15) (PyInt 100)
      demo_err_fn (demo_world, [])) = Inr (Fin (1345 / 10000), 391 / 20) \<and>
   outcome (run_flk quiet_env X_train X_test Y_train Y_test (PyInt 5)
      (PyFloat (Fin (1 / 1000000000))) (PyInt 20000) 1 demo_err_fn (demo_world, []))
     = Inr (Fin (1345 / 10000), 6) \<and>
   libraries_silent quiet_env demo_err_fn (out demo_world) \<and>
   printed (trace_of (run_libsvm quiet_env X_train X_test Y_train Y_test (PyInt 15) (PyInt 100)
      demo_err_fn (demo_world, [])))
     = [''LIBSVM elapsed 660.99s'', ''Sigma 15 - C 100 - Test c-error:  0.134500''] \<and>
   printed (trace_of (run_thundersvm quiet_env X_train X_test Y_train Y_test (PyInt 15)
      (PyInt 100) demo_err_fn (demo_world, [])))
     = [''THUNDERSVM elapsed 19.55s'', ''Sigma 15 - C 100 - Test c-error:  0.134500''] \<and>
   printed (trace_of (run_flk quiet_env X_train X_test Y_train Y_test (PyInt 5)
      (PyFloat (Fin (1 / 1000000000))) (PyInt 20000) 1 demo_err_fn (demo_world, [])))
     = [''Falkon elapsed 6.00s'',
        ''M 20000 - Sigma 5 - Lambda 1e-09 - Test c-error:  0.134500''] \<and>
   text_lines (out (world_of (run_libsvm quiet_env X_train X_test Y_train Y_test (PyInt 15)
      (PyInt 100) demo_err_fn (demo_world, []))))
     = [''LIBSVM elapsed 660.99s'', ''Sigma 15 - C 100 - Test c-error:  0.134500''] \<and>
   (\<exists>nm. out (world_of (run_libsvm quiet_env X_train X_test Y_train Y_test (PyInt 15)
             (PyInt 100) demo_err_fn (demo_world, [])))
       = out demo_world @ (''LIBSVM elapsed '' @ fmt_f 0 2 (66099 / 100) @ ''s'') @ newline
           @ (''Sigma '' @ py_str quiet_env (PyInt 15) @ '' - C '' @ py_str quiet_env (PyInt 100)
              @ '' - '' @ ''Test '' @ nm @ '': '' @ fmt_float 9 6 (Fin (1345 / 10000)))
           @ newline) \<and>
   (\<exists>nm. out (world_of (run_thundersvm quiet_env X_train X_test Y_train Y_test (PyInt 15)
             (PyInt 100) demo_err_fn (demo_world, [])))
       = out demo_world @ (''THUNDERSVM elapsed '' @ fmt_f 0 2 (391 / 20) @ ''s'') @ newline
           @ (''Sigma '' @ py_str quiet_env (PyInt 15) @ '' - C '' @ py_str quiet_env (PyInt 100)
              @ '' - '' @ ''Test '' @ nm @ '': '' @ fmt_float 9 6 (Fin (1345 / 10000)))
           @ newline) \<and>
   (\<exists>nm. out (world_of (run_flk quiet_env X_train X_test Y_train Y_test (PyInt 5)
             (PyFloat (Fin (1 / 1000000000))) (PyInt 20000) 1 demo_err_fn (demo_world, [])))
       = out demo_world @ (''Falkon elapsed '' @ fmt_f 0 2 6 @ ''s'') @ newline
           @ (''M '' @ py_str quiet_env (PyInt 20000) @ '' - Sigma ''
              @ py_str quiet_env (PyInt 5) @ '' - Lambda ''
              @ py_str quiet_env (PyFloat (Fin (1 / 1000000000))) @ '' - ''
              @ ''Test '' @ nm @ '': '' @ fmt_float 9 6 (Fin (1345 / 10000)))
           @ newline) \<and>
   decimals (fmt_f 0 2 (66099 / 100)) = 2 \<and>
   decimals (fmt_float 9 6 (Fin (1345 / 10000))) = 6 \<and>
   9 \<le> length (fmt_float 9 6 (Fin (1345 / 10000)))"
proof -
  note svc = report_lines[where env = quiet_env and Xtr = X_train and Xts = X_test
      and Ytr = Y_train and Yts = Y_test and sigma = "PyInt 15" and C = "PyInt 100"
      and err_fn = demo_err_fn and w = demo_world and e = "Fin (1345 / 10000)"
      and penalty = "PyFloat (Fin (1 / 1000000000))" and M = "PyInt 20000" and num_iter = 1]
  note flk = report_lines[where env = quiet_env and Xtr = X_train and Xts = X_test
      and Ytr = Y_train and Yts = Y_test and sigma = "PyInt 5" and C = "PyInt 100"
      and err_fn = demo_err_fn and w = demo_world and e = "Fin (1345 / 10000)" and t = 6
      and penalty = "PyFloat (Fin (1 / 1000000000))" and M = "PyInt 20000" and num_iter = 1]
  have o1: "outcome (run_libsvm quiet_env X_train X_test Y_train Y_test (PyInt 15) (PyInt 100)
      demo_err_fn (demo_world, [])) = Inr (Fin (1345 / 10000), 66099 / 100)"
    by (simp add: quiet_libsvm_run outcome_def)
  have o2: "outcome (run_thundersvm quiet_env X_train X_test Y_train Y_test (PyInt 15)
      (PyInt 100) demo_err_fn (demo_world, [])) = Inr (Fin (1345 / 10000), 391 / 20)"
    by (simp add: quiet_thundersvm_run demo_thundersvm_run outcome_def)
  have o3: "outcome (run_flk quiet_env X_train X_test Y_train Y_test (PyInt 5)
      (PyFloat (Fin (1 / 1000000000))) (PyInt 20000) 1 demo_err_fn (demo_world, []))
      = Inr (Fin (1345 / 10000), 6)"
    by (simp add: quiet_flk_run demo_flk_run outcome_def)
  have sil: "libraries_silent quiet_env demo_err_fn (out demo_world)"
    by (rule quiet_env_silent)
  have p1: "printed (trace_of (run_libsvm quiet_env X_train X_test Y_train Y_test (PyInt 15)
      (PyInt 100) demo_err_fn (demo_world, [])))
     = [''LIBSVM elapsed 660.99s'', ''Sigma 15 - C 100 - Test c-error:  0.134500'']"
    by (simp add: quiet_libsvm_run trace_of_def printed_simps)
  have p2: "printed (trace_of (run_thundersvm quiet_env X_train X_test Y_train Y_test (PyInt 15)
      (PyInt 100) demo_err_fn (demo_world, [])))
     = [''THUNDERSVM elapsed 19.55s'', ''Sigma 15 - C 100 - Test c-error:  0.134500'']"
    by (simp add: quiet_thundersvm_run demo_thundersvm_run trace_of_def printed_simps)
  have p3: "printed (trace_of (run_flk quiet_env X_train X_test Y_train Y_test (PyInt 5)
      (PyFloat (Fin (1 / 1000000000))) (PyInt 20000) 1 demo_err_fn (demo_world, [])))
     = [''Falkon elapsed 6.00s'',
        ''M 20000 - Sigma 5 - Lambda 1e-09 - Test c-error:  0.134500'']"
    by (simp add: quiet_flk_run demo_flk_run trace_of_def printed_simps)
  have u1: "text_lines (out (world_of (run_libsvm quiet_env X_train X_test Y_train Y_test
      (PyInt 15) (PyInt 100) demo_err_fn (demo_world, []))))
     = [''LIBSVM elapsed 660.99s'', ''Sigma 15 - C 100 - Test c-error:  0.134500'']"
    by (simp add: quiet_libsvm_run world_of_def text_lines_def newline_def)
  from svc[where t = "66099 / 100", THEN conjunct1, rule_format, OF o1] sil
  have f1: "\<exists>nm. out (world_of (run_libsvm quiet_env X_train X_test Y_train Y_test (PyInt 15)
             (PyInt 100) demo_err_fn (demo_world, [])))
       = out demo_world @ (''LIBSVM elapsed '' @ fmt_f 0 2 (66099 / 100) @ ''s'') @ newline
           @ (''Sigma '' @ py_str quiet_env (PyInt 15) @ '' - C '' @ py_str quiet_env (PyInt 100)
              @ '' - '' @ ''Test '' @ nm @ '': '' @ fmt_float 9 6 (Fin (1345 / 10000)))
           @ newline"
    by (elim exE conjE) (rule exI, erule mp, assumption)
  from svc[where t = "391 / 20", THEN conjunct2, THEN conjunct1, rule_format, OF o2] sil
  have f2: "\<exists>nm. out (world_of (run_thundersvm quiet_env X_train X_test Y_train Y_test (PyInt 15)
             (PyInt 100) demo_err_fn (demo_world, [])))
       = out demo_world @ (''THUNDERSVM elapsed '' @ fmt_f 0 2 (391 / 20) @ ''s'') @ newline
           @ (''Sigma '' @ py_str quiet_env (PyInt 15) @ '' - C '' @ py_str quiet_env (PyInt 100)
              @ '' - '' @ ''Test '' @ nm @ '': '' @ fmt_float 9 6 (Fin (1345 / 10000)))
           @ newline"
    by (elim exE conjE) (rule exI, erule mp, assumption)
  from flk[THEN conjunct2, THEN conjunct2, THEN conjunct1, rule_format, OF o3] sil
  have f3: "\<exists>nm. out (world_of (run_flk quiet_env X_train X_test Y_train Y_test (PyInt 5)
             (PyFloat (Fin (1 / 1000000000))) (PyInt 20000) 1 demo_err_fn (demo_world, [])))
       = out demo_world @ (''Falkon elapsed '' @ fmt_f 0 2 6 @ ''s'') @ newline
           @ (''M '' @ py_str quiet_env (PyInt 20000) @ '' - Sigma ''
              @ py_str quiet_env (PyInt 5) @ '' - Lambda ''
              @ py_str quiet_env (PyFloat (Fin (1 / 1000000000))) @ '' - ''
              @ ''Test '' @ nm @ '': '' @ fmt_float 9 6 (Fin (1345 / 10000)))
           @ newline"
    by (elim exE conjE) (rule exI, erule mp, assumption)
  note d = svc[where t = "66099 / 100", THEN conjunct2, THEN conjunct2, THEN conjunct2]
  note d1 = d[THEN conjunct1]
  note d2 = d[THEN conjunct2, THEN conjunct1, rule_format, of "1345 / 10000"]
  note d3 = d[THEN conjunct2, THEN conjunct2, THEN conjunct1]
  from o1 o2 o3 sil p1 p2 p3 u1 f1 f2 f3 d1 d2 d3 show ?thesis by (intro conjI)
qed

text \<open>
  C9. What a runner itself does to the world is to append text to standard output and to
  allocate new arrays (the class indices): every property of the world that the library
  operations and the error function keep, and that appending output and allocating a
  new buffer keep, holds after the call if it held before. The contents of an allocated
  buffer are such a property: the feature and label arrays, which the runner hands to
  the libraries by reference, hold after the call what they held before, unless a
  library operation changes them.
\<close>

theorem runners_keep_world:
  "(libraries_keep env err_fn P \<and> output_stable P \<and> alloc_stable P \<and> P w \<longrightarrow>
      P (world_of (run_libsvm env Xtr Xts Ytr Yts sigma C err_fn (w, tr))) \<and>
      P (world_of (run_thundersvm env Xtr Xts Ytr Yts sigma C err_fn (w, tr))) \<and>
      P (world_of (run_flk env Xtr Xts Ytr Yts sigma penalty M num_iter err_fn (w, tr)))) \<and>
   output_stable (buffer_holds a d) \<and> alloc_stable (buffer_holds a d) \<and>
   (libraries_keep env err_fn (buffer_holds a d) \<and> buffer_holds a d w \<longrightarrow>
      buffer_holds a d (world_of (run_libsvm env Xtr Xts Ytr Yts sigma C err_fn (w, tr))) \<and>
      buffer_holds a d (world_of (run_thundersvm env Xtr Xts Ytr Yts sigma C err_fn (w, tr))) \<and>
      buffer_holds a d
        (world_of (run_flk env Xtr Xts Ytr Yts sigma penalty M num_iter err_fn (w, tr))))"
proof -
  have gen: "Q (world_of (run_libsvm env Xtr Xts Ytr Yts sigma C err_fn (w, tr))) \<and>
      Q (world_of (run_thundersvm env Xtr Xts Ytr Yts sigma C err_fn (w, tr))) \<and>
      Q (world_of (run_flk env Xtr Xts Ytr Yts sigma penalty M num_iter err_fn (w, tr)))"
    if lib: "libraries_keep env err_fn Q" and o: "output_stable Q" and al: "alloc_stable Q"
      and Q: "Q w" for Q
  proof -
    from lib have l1: "\<forall>p. keeps Q (sklearn_SVC env p)"
      and l2: "\<forall>m X y. keeps Q (sklearn_fit env m X y)"
      and l3: "\<forall>m X. keeps Q (sklearn_predict env m X)"
      and t1: "\<forall>p. keeps Q (thundersvm_SVC env p)"
      and t2: "\<forall>m X y. keeps Q (thundersvm_fit env m X y)"
      and t3: "\<forall>m X. keeps Q (thundersvm_predict env m X)"
      and ef: "\<forall>y q. keeps Q (err_fn y q)"
      by (simp_all add: libraries_keep_def)
    have "keeps_run Q (run_libsvm env Xtr Xts Ytr Yts sigma C err_fn)"
      unfolding run_libsvm_svc_runner by (rule keeps_run_svc_runner[OF l1 l2 l3 ef o al])
    then have 1: "Q (world_of (run_libsvm env Xtr Xts Ytr Yts sigma C err_fn (w, tr)))"
      using Q by (rule keeps_runD)
    have "keeps_run Q (run_thundersvm env Xtr Xts Ytr Yts sigma C err_fn)"
      unfolding run_thundersvm_svc_runner by (rule keeps_run_svc_runner[OF t1 t2 t3 ef o al])
    then have 2: "Q (world_of (run_thundersvm env Xtr Xts Ytr Yts sigma C err_fn (w, tr)))"
      using Q by (rule keeps_runD)
    have "keeps_run Q (run_flk env Xtr Xts Ytr Yts sigma penalty M num_iter err_fn)"
      by (rule keeps_run_flk[OF lib o])
    then have 3: "Q (world_of (run_flk env Xtr Xts Ytr Yts sigma penalty M num_iter err_fn (w, tr)))"
      using Q by (rule keeps_runD)
    from 1 2 3 show ?thesis by (intro conjI)
  qed
  have o: "output_stable (buffer_holds a d)"
    by (simp add: output_stable_def buffer_holds_def)
  have al: "alloc_stable (buffer_holds a d)"
    by (auto simp: alloc_stable_def buffer_holds_def alloc_def)
  have A: "libraries_keep env err_fn P \<and> output_stable P \<and> alloc_stable P \<and> P w \<longrightarrow>
      P (world_of (run_libsvm env Xtr Xts Ytr Yts sigma C err_fn (w, tr))) \<and>
      P (world_of (run_thundersvm env Xtr Xts Ytr Yts sigma C err_fn (w, tr))) \<and>
      P (world_of (run_flk env Xtr Xts Ytr Yts sigma penalty M num_iter err_fn (w, tr)))"
  proof (rule impI)
    assume "libraries_keep env err_fn P \<and> output_stable P \<and> alloc_stable P \<and> P w"
    then have "libraries_keep env err_fn P" "output_stable P" "alloc_stable P" "P w"
      by simp_all
    then show "P (world_of (run_libsvm env Xtr Xts Ytr Yts sigma C err_fn (w, tr))) \<and>
      P (world_of (run_thundersvm env Xtr Xts Ytr Yts sigma C err_fn (w, tr))) \<and>
      P (world_of (run_flk env Xtr Xts Ytr Yts sigma penalty M num_iter err_fn (w, tr)))"
      by (rule gen)
  qed
  have B: "libraries_keep env err_fn (buffer_holds a d) \<and> buffer_holds a d w \<longrightarrow>
      buffer_holds a d (world_of (run_libsvm env Xtr Xts Ytr Yts sigma C err_fn (w, tr))) \<and>
      buffer_holds a d (world_of (run_thundersvm env Xtr Xts Ytr Yts sigma C err_fn (w, tr))) \<and>
      buffer_holds a d
        (world_of (run_flk env Xtr Xts Ytr Yts sigma penalty M num_iter err_fn (w, tr)))"
  proof (rule impI)
    assume "libraries_keep env err_fn (buffer_holds a d) \<and> buffer_holds a d w"
    then have l: "libraries_keep env err_fn (buffer_holds a d)" and h: "buffer_holds a d w"
      by simp_all
    show "buffer_holds a d (world_of (run_libsvm env Xtr Xts Ytr Yts sigma C err_fn (w, tr))) \<and>
      buffer_holds a d (world_of (run_thundersvm env Xtr Xts Ytr Yts sigma C err_fn (w, tr))) \<and>
      buffer_holds a d
        (world_of (run_flk env Xtr Xts Ytr Yts sigma penalty M num_iter err_fn (w, tr)))"
      by (rule gen[OF l o al h])
  qed
  from A o al B show ?thesis by (intro conjI)
qed

text \<open>
  The stub library leaves the arrays of the dataset alone, and so do the runners: after
  \<^verbatim>\<open>run_libsvm\<close> and \<^verbatim>\<open>run_flk\<close> the training labels hold what they held. It never sets
  the clock back either, so after \<^verbatim>\<open>run_thundersvm\<close> the clock is not before its start.
\<close>

theorem runners_keep_world_witness:
  "libraries_keep demo_env demo_err_fn (\<lambda>w. 100 \<le> now w) \<and>
   output_stable (\<lambda>w. 100 \<le> now w) \<and> alloc_stable (\<lambda>w. 100 \<le> now w) \<and>
   100 \<le> now demo_world \<and>
   100 \<le> now (world_of (run_thundersvm demo_env X_train X_test Y_train Y_test (PyInt 15)
                  (PyInt 100) demo_err_fn (demo_world, []))) \<and>
   libraries_keep demo_env demo_err_fn (buffer_holds 1 [1, 0, 0, 1, 0, 1, 0, 1]) \<and>
   buffer_holds 1 [1, 0, 0, 1, 0, 1, 0, 1] demo_world \<and>
   buffer_holds 1 [1, 0, 0, 1, 0, 1, 0, 1]
     (world_of (run_libsvm demo_env X_train X_test Y_train Y_test (PyInt 15) (PyInt 100)
        demo_err_fn (demo_world, []))) \<and>
   buffer_holds 1 [1, 0, 0, 1, 0, 1, 0, 1]
     (world_of (run_flk demo_env X_train X_test Y_train Y_test (PyInt 5)
        (PyFloat (Fin (1 / 1000000000))) (PyInt 20000) 1 demo_err_fn (demo_world, []))) \<and>
   heap (world_of (run_libsvm demo_env X_train X_test Y_train Y_test (PyInt 15) (PyInt 100)
        demo_err_fn (demo_world, []))) (buf Y_train) = heap demo_world (buf Y_train)"
proof -
  note inst = runners_keep_world[where env = demo_env and Xtr = X_train and Xts = X_test
      and Ytr = Y_train and Yts = Y_test and err_fn = demo_err_fn and w = demo_world
      and tr = "[]" and a = 1 and d = "[1, 0, 0, 1, 0, 1, 0, 1]" and C = "PyInt 100"
      and P = "\<lambda>w. 100 \<le> now w"
      and penalty = "PyFloat (Fin (1 / 1000000000))" and M = "PyInt 20000" and num_iter = 1]
  have c1: "libraries_keep demo_env demo_err_fn (\<lambda>w. 100 \<le> now w)"
    by (simp add: libraries_keep_def keeps_def demo_env_def demo_err_fn_def stub_predict_def
        stub_new_def alloc_def)
  have c2: "output_stable (\<lambda>w. 100 \<le> now w)" by (simp add: output_stable_def)
  have c3: "alloc_stable (\<lambda>w. 100 \<le> now w)" by (simp add: alloc_stable_def alloc_def)
  have c4: "100 \<le> now demo_world" by (simp add: demo_world_def)
  from inst[where sigma = "PyInt 15", THEN conjunct1, rule_format,
      OF conjI[OF c1 conjI[OF c2 conjI[OF c3 c4]]]]
  have c5: "100 \<le> now (world_of (run_thundersvm demo_env X_train X_test Y_train Y_test (PyInt 15)
                  (PyInt 100) demo_err_fn (demo_world, [])))"
    by (elim conjE)
  have 1: "libraries_keep demo_env demo_err_fn (buffer_holds 1 [1, 0, 0, 1, 0, 1, 0, 1])"
    by (simp add: libraries_keep_def keeps_def buffer_holds_def demo_env_def demo_err_fn_def
        stub_predict_def stub_new_def alloc_def)
  have 2: "buffer_holds 1 [1, 0, 0, 1, 0, 1, 0, 1] demo_world"
    by (simp add: buffer_holds_def demo_world_def)
  from inst[where sigma = "PyInt 15", THEN conjunct2, THEN conjunct2,
      THEN conjunct2, rule_format, OF conjI[OF 1 2]]
  have 3: "buffer_holds 1 [1, 0, 0, 1, 0, 1, 0, 1]
     (world_of (run_libsvm demo_env X_train X_test Y_train Y_test (PyInt 15) (PyInt 100)
        demo_err_fn (demo_world, [])))"
    by (rule conjunct1)
  from inst[where sigma = "PyInt 5", THEN conjunct2, THEN conjunct2,
      THEN conjunct2, rule_format, OF conjI[OF 1 2]]
  have 4: "buffer_holds 1 [1, 0, 0, 1, 0, 1, 0, 1]
     (world_of (run_flk demo_env X_train X_test Y_train Y_test (PyInt 5)
        (PyFloat (Fin (1 / 1000000000))) (PyInt 20000) 1 demo_err_fn (demo_world, [])))"
    by (elim conjE)
  from 3 2 have 5: "heap (world_of (run_libsvm demo_env X_train X_test Y_train Y_test (PyInt 15)
        (PyInt 100) demo_err_fn (demo_world, []))) (buf Y_train) = heap demo_world (buf Y_train)"
    by (simp add: buffer_holds_def Y_train_def)
  from c1 c2 c3 c4 c5 1 2 3 4 5 show ?thesis by (intro conjI)
qed

end
